theory Spec2Isabelle
  imports Main
begin

section \<open>JavaScript values\<close>

text \<open>
  The server is TypeScript; at run time every datum it handles (tool arguments, API
  responses, schemas, the documents it saves) is a JavaScript value. The model has the
  values that JSON can carry plus \<open>undefined\<close>. Strings are byte strings (UTF-8). An
  object is the list of its own properties in enumeration order, each key once.

  A number is a decimal number: \<open>JNum n\<close> is the integer \<open>n\<close>, and \<open>JDec m k\<close>, with
  \<open>0 < k\<close> and \<open>m\<close> not a multiple of ten, is \<open>m / 10^k\<close>, which is not an integer. The
  engine holds a number as a double; a decimal of at most 15 significant digits, of a
  magnitude in the range of the normal doubles, is held by a double of its own, is printed
  back digit for digit, and is zero only when all its digits are. The rounding that a
  longer decimal undergoes is not modelled (see \<open>number_of_literal\<close>).
\<close>

datatype jsval =
    JUndefined
  | JNull
  | JBool bool
  | JNum int
  | JDec int nat
  | JStr string
  | JArr "jsval list"
  | JObj "(string \<times> jsval) list"

text \<open>Errors as the code throws them: the class of the exception and its message.\<close>

datatype error =
    Error string
  | SyntaxError string
  | TypeError string
  | SystemError string string
  | ZodError string
  | Unmodelled string

text \<open>\<open>error.message\<close>. For a Node system error the text is built from the code and the
  path; for a zod error it names the offending argument. \<open>Unmodelled\<close> is not an error
  of the program: it marks an input on which the model does not say what the program does.\<close>

fun message :: "error \<Rightarrow> string" where
  "message (Error m) = m"
| "message (SyntaxError m) = m"
| "message (TypeError m) = m"
| "message (SystemError code p) = code @ '': '' @ p"
| "message (ZodError m) = m"
| "message (Unmodelled m) = m"

text \<open>Truthiness, as \<open>if (x)\<close>, \<open>!x\<close> and \<open>a || b\<close> test it.\<close>

fun truthy :: "jsval \<Rightarrow> bool" where
  "truthy JUndefined = False"
| "truthy JNull = False"
| "truthy (JBool b) = b"
| "truthy (JNum n) = (n \<noteq> 0)"
| "truthy (JDec m k) = (m \<noteq> 0)"
| "truthy (JStr s) = (s \<noteq> [])"
| "truthy (JArr xs) = True"
| "truthy (JObj kvs) = True"

text \<open>\<open>typeof x\<close>; note \<open>typeof null\<close> and \<open>typeof []\<close>.\<close>

fun typeof :: "jsval \<Rightarrow> string" where
  "typeof JUndefined = ''undefined''"
| "typeof JNull = ''object''"
| "typeof (JBool b) = ''boolean''"
| "typeof (JNum n) = ''number''"
| "typeof (JDec m k) = ''number''"
| "typeof (JStr s) = ''string''"
| "typeof (JArr xs) = ''object''"
| "typeof (JObj kvs) = ''object''"

text \<open>\<open>a || b\<close> on values.\<close>

definition js_or :: "jsval \<Rightarrow> jsval \<Rightarrow> jsval" where
  "js_or a b = (if truthy a then a else b)"

text \<open>Decimal digits of a natural number.\<close>

definition digit_char :: "nat \<Rightarrow> char" where
  "digit_char d = char_of (48 + d)"

fun show_nat :: "nat \<Rightarrow> string" where
  "show_nat n = (if n < 10 then [digit_char n] else show_nat (n div 10) @ [digit_char (n mod 10)])"

declare show_nat.simps [simp del]

text \<open>Decimal digits of a non-negative integer, and the number of zeros that end a
  digit string.\<close>

function digits_of :: "int \<Rightarrow> string" where
  "digits_of i =
     (if i < 10 then [digit_char (nat i)]
      else digits_of (i div 10) @ [digit_char (nat (i mod 10))])"
  by pat_completeness auto
termination
  by (relation "measure nat") auto

declare digits_of.simps [simp del]

definition trailing_zeros :: "string \<Rightarrow> nat" where
  "trailing_zeros ds = length (takeWhile (\<lambda>c. c = CHR ''0'') (rev ds))"

text \<open>
  \<open>Number::toString\<close> (ECMA-262) of the positive number whose significant digits are
  \<open>ds\<close> (the last is not zero), those digits read as an integer and multiplied by \<open>10^e\<close>.
  With \<open>k\<close> the number of digits and \<open>n = k + e\<close>: the digits and \<open>n - k\<close> zeros when
  \<open>k \<le> n \<le> 21\<close>; the digits with a point after the first \<open>n\<close> when \<open>0 < n \<le> 21\<close>; \<open>0.\<close>,
  \<open>-n\<close> zeros and the digits when \<open>-6 < n \<le> 0\<close>; and otherwise the exponential notation,
  with a point after the first digit if there are more.
\<close>

definition positive_text :: "string \<Rightarrow> int \<Rightarrow> string" where
  "positive_text ds e =
     (let k = int (length ds);
          n = k + e
      in if k \<le> n \<and> n \<le> 21 then ds @ replicate (nat (n - k)) (CHR ''0'')
         else if 0 < n \<and> n \<le> 21 then take (nat n) ds @ ''.'' @ drop (nat n) ds
         else if - 6 < n \<and> n \<le> 0 then ''0.'' @ replicate (nat (- n)) (CHR ''0'') @ ds
         else (if k = 1 then ds else take 1 ds @ ''.'' @ drop 1 ds)
              @ ''e'' @ (if n - 1 < 0 then ''-'' else ''+'') @ digits_of (abs (n - 1)))"

text \<open>\<open>Number::toString\<close> of \<open>m * 10^e\<close>: zero is \<open>0\<close>, a negative number has its sign,
  and the zeros that end \<open>m\<close> go into the exponent.\<close>

definition number_text :: "int \<Rightarrow> int \<Rightarrow> string" where
  "number_text m e =
     (if m = 0 then ''0''
      else (let ds = digits_of (abs m);
                z = trailing_zeros ds
            in (if m < 0 then ''-'' else [])
               @ positive_text (take (length ds - z) ds) (e + int z)))"

text \<open>Reading an own property: \<open>o[k]\<close>, \<open>o.k\<close>. On \<open>undefined\<close> and \<open>null\<close> it throws a
  TypeError; on an object it is the property or \<open>undefined\<close>; an array and a string have
  \<open>length\<close> and their indices; a boolean and a number have no own property. Inherited
  properties (methods of the prototypes) are not modelled.\<close>

fun index_of :: "string \<Rightarrow> nat \<Rightarrow> nat option" where
  "index_of k 0 = (if show_nat 0 = k then Some 0 else None)"
| "index_of k (Suc n) = (if show_nat (Suc n) = k then Some (Suc n) else index_of k n)"

fun getProp :: "jsval \<Rightarrow> string \<Rightarrow> error + jsval" where
  "getProp JUndefined k = Inl (TypeError (''Cannot read properties of undefined (reading '' @ k @ '')''))"
| "getProp JNull k = Inl (TypeError (''Cannot read properties of null (reading '' @ k @ '')''))"
| "getProp (JBool b) k = Inr JUndefined"
| "getProp (JNum n) k = Inr JUndefined"
| "getProp (JDec m d) k = Inr JUndefined"
| "getProp (JStr s) k =
     (if k = ''length'' then Inr (JNum (int (length s)))
      else (case index_of k (length s) of
              None \<Rightarrow> Inr JUndefined
            | Some i \<Rightarrow> if i < length s then Inr (JStr [s ! i]) else Inr JUndefined))"
| "getProp (JArr xs) k =
     (if k = ''length'' then Inr (JNum (int (length xs)))
      else (case index_of k (length xs) of
              None \<Rightarrow> Inr JUndefined
            | Some i \<Rightarrow> if i < length xs then Inr (xs ! i) else Inr JUndefined))"
| "getProp (JObj kvs) k = (case map_of kvs k of None \<Rightarrow> Inr JUndefined | Some v \<Rightarrow> Inr v)"

text \<open>Optional chaining \<open>o?.k\<close>: \<open>undefined\<close> where \<open>o\<close> is \<open>undefined\<close> or \<open>null\<close>.\<close>

definition getPropOpt :: "jsval \<Rightarrow> string \<Rightarrow> jsval" where
  "getPropOpt v k = (case getProp v k of Inl e \<Rightarrow> JUndefined | Inr x \<Rightarrow> x)"

text \<open>Writing a property: an existing key keeps its place, a new key goes last.\<close>

fun setProp :: "(string \<times> jsval) list \<Rightarrow> string \<Rightarrow> jsval \<Rightarrow> (string \<times> jsval) list" where
  "setProp [] k v = [(k, v)]"
| "setProp ((k', v') # kvs) k v = (if k' = k then (k, v) # kvs else (k', v') # setProp kvs k v)"

text \<open>Joining strings with a separator, \<open>Array.prototype.join\<close> on strings.\<close>

fun join :: "string \<Rightarrow> string list \<Rightarrow> string" where
  "join sep [] = []"
| "join sep [x] = x"
| "join sep (x # y # ys) = x @ sep @ join sep (y # ys)"

text \<open>\<open>String(x)\<close>, the conversion a template literal and \<open>JSON.parse\<close> apply to their
  argument.\<close>

fun ToString :: "jsval \<Rightarrow> string" where
  "ToString JUndefined = ''undefined''"
| "ToString JNull = ''null''"
| "ToString (JBool b) = (if b then ''true'' else ''false'')"
| "ToString (JNum n) = number_text n 0"
| "ToString (JDec m k) = number_text m (- int k)"
| "ToString (JStr s) = s"
| "ToString (JArr xs) =
     join '','' (map (\<lambda>x. if x = JUndefined \<or> x = JNull then [] else ToString x) xs)"
| "ToString (JObj kvs) = ''[object Object]''"

section \<open>JSON\<close>

text \<open>\<open>JSON.stringify\<close> (ECMA-262, SerializeJSONProperty): a string is quoted with the
  two-character escapes and \<open>\u00xx\<close> for the other control characters; an object leaves out
  the properties whose value is \<open>undefined\<close>; an array prints \<open>undefined\<close> as \<open>null\<close>;
  \<open>JSON.stringify(undefined)\<close> is \<open>undefined\<close>, here \<open>None\<close>.\<close>

definition hex_char :: "nat \<Rightarrow> char" where
  "hex_char d = (if d < 10 then char_of (48 + d) else char_of (87 + d))"

definition escape_char :: "char \<Rightarrow> string" where
  "escape_char c =
     (if c = CHR 0x08 then [CHR 0x5C, CHR ''b'']
      else if c = CHR 0x09 then [CHR 0x5C, CHR ''t'']
      else if c = CHR 0x0A then [CHR 0x5C, CHR ''n'']
      else if c = CHR 0x0C then [CHR 0x5C, CHR ''f'']
      else if c = CHR 0x0D then [CHR 0x5C, CHR ''r'']
      else if c = CHR 0x22 then [CHR 0x5C, CHR 0x22]
      else if c = CHR 0x5C then [CHR 0x5C, CHR 0x5C]
      else if (of_char c :: nat) < 32 then
        [CHR 0x5C, CHR ''u'', CHR ''0'', CHR ''0'',
         hex_char ((of_char c :: nat) div 16), hex_char ((of_char c :: nat) mod 16)]
      else [c])"

definition QuoteJSONString :: "string \<Rightarrow> string" where
  "QuoteJSONString s = CHR 0x22 # concat (map escape_char s) @ [CHR 0x22]"

fun JSON_ser :: "jsval \<Rightarrow> string option" where
  "JSON_ser JUndefined = None"
| "JSON_ser JNull = Some ''null''"
| "JSON_ser (JBool b) = Some (if b then ''true'' else ''false'')"
| "JSON_ser (JNum n) = Some (number_text n 0)"
| "JSON_ser (JDec m k) = Some (number_text m (- int k))"
| "JSON_ser (JStr s) = Some (QuoteJSONString s)"
| "JSON_ser (JArr xs) =
     Some (''['' @ join '','' (map (\<lambda>x. case JSON_ser x of None \<Rightarrow> ''null'' | Some t \<Rightarrow> t) xs) @ '']'')"
| "JSON_ser (JObj kvs) =
     Some (''{'' @ join '',''
        (concat (map (\<lambda>(k, v). case JSON_ser v of None \<Rightarrow> []
                                | Some t \<Rightarrow> [QuoteJSONString k @ '':'' @ t]) kvs)) @ ''}'')"

text \<open>\<open>JSON.stringify(value)\<close>.\<close>

definition JSON_stringify :: "jsval \<Rightarrow> string option" where
  "JSON_stringify v = JSON_ser v"

text \<open>\<open>JSON.stringify(value, null, 2)\<close>: the same with a gap of two spaces; the first
  argument is the current indentation.\<close>

fun JSON_ser_indent :: "string \<Rightarrow> jsval \<Rightarrow> string option" where
  "JSON_ser_indent ind JUndefined = None"
| "JSON_ser_indent ind JNull = Some ''null''"
| "JSON_ser_indent ind (JBool b) = Some (if b then ''true'' else ''false'')"
| "JSON_ser_indent ind (JNum n) = Some (number_text n 0)"
| "JSON_ser_indent ind (JDec m k) = Some (number_text m (- int k))"
| "JSON_ser_indent ind (JStr s) = Some (QuoteJSONString s)"
| "JSON_ser_indent ind (JArr xs) =
     (let partial = map (\<lambda>x. case JSON_ser_indent (ind @ ''  '') x of
                               None \<Rightarrow> ''null'' | Some t \<Rightarrow> t) xs
      in if partial = [] then Some ''[]''
         else Some (''['' @ [CHR 0x0A] @ ind @ ''  '' @
                    join ('','' @ [CHR 0x0A] @ ind @ ''  '') partial @
                    [CHR 0x0A] @ ind @ '']''))"
| "JSON_ser_indent ind (JObj kvs) =
     (let partial = concat (map (\<lambda>(k, v). case JSON_ser_indent (ind @ ''  '') v of
                               None \<Rightarrow> []
                             | Some t \<Rightarrow> [QuoteJSONString k @ '': '' @ t]) kvs)
      in if partial = [] then Some ''{}''
         else Some (''{'' @ [CHR 0x0A] @ ind @ ''  '' @
                    join ('','' @ [CHR 0x0A] @ ind @ ''  '') partial @
                    [CHR 0x0A] @ ind @ ''}''))"

definition JSON_stringify_indent :: "jsval \<Rightarrow> string option" where
  "JSON_stringify_indent v = JSON_ser_indent [] v"

text \<open>\<open>JSON.parse\<close> (ECMA-404): a recursive-descent parser. The text of the engine's
  SyntaxError messages is not modelled. A \<open>\uXXXX\<close> escape becomes the UTF-8 bytes of its
  code point.

  Three kinds of text that \<open>JSON.parse\<close> accepts are outside the model, and the parser
  answers \<open>Unmodelled\<close> on them, which says nothing about the program: a number literal
  that a double rounds (\<open>number_of_literal\<close>), a \<open>\uXXXX\<close> escape of a surrogate (a byte
  string has no place for half a pair), and a member whose key is an array index (the
  engine enumerates such keys before the others, in ascending order).\<close>

definition in_model :: "error \<Rightarrow> bool" where
  "in_model e = (case e of Unmodelled m \<Rightarrow> False | _ \<Rightarrow> True)"

definition is_ws :: "char \<Rightarrow> bool" where
  "is_ws c = (c = CHR '' '' \<or> c = CHR 0x09 \<or> c = CHR 0x0A \<or> c = CHR 0x0D)"

fun skip_ws :: "string \<Rightarrow> string" where
  "skip_ws [] = []"
| "skip_ws (c # cs) = (if is_ws c then skip_ws cs else c # cs)"

definition hex_val :: "char \<Rightarrow> nat option" where
  "hex_val c =
     (let n = (of_char c :: nat)
      in if 48 \<le> n \<and> n \<le> 57 then Some (n - 48)
         else if 97 \<le> n \<and> n \<le> 102 then Some (n - 87)
         else if 65 \<le> n \<and> n \<le> 70 then Some (n - 55)
         else None)"

definition utf8_encode :: "nat \<Rightarrow> string" where
  "utf8_encode cp =
     (if cp < 128 then [char_of cp]
      else if cp < 2048 then [char_of (192 + cp div 64), char_of (128 + cp mod 64)]
      else [char_of (224 + cp div 4096), char_of (128 + (cp div 64) mod 64),
            char_of (128 + cp mod 64)])"

definition unescape :: "char \<Rightarrow> char option" where
  "unescape e =
     (if e = CHR 0x22 then Some (CHR 0x22)
      else if e = CHR 0x5C then Some (CHR 0x5C)
      else if e = CHR ''/'' then Some (CHR ''/'')
      else if e = CHR ''b'' then Some (CHR 0x08)
      else if e = CHR ''f'' then Some (CHR 0x0C)
      else if e = CHR ''n'' then Some (CHR 0x0A)
      else if e = CHR ''r'' then Some (CHR 0x0D)
      else if e = CHR ''t'' then Some (CHR 0x09)
      else None)"

definition prepend :: "string \<Rightarrow> error + (string \<times> string) \<Rightarrow> error + (string \<times> string)" where
  "prepend p res = (case res of Inl e \<Rightarrow> Inl e | Inr (s, r) \<Rightarrow> Inr (p @ s, r))"

definition bad_json :: "error" where
  "bad_json = SyntaxError ''Unexpected token in JSON''"

text \<open>The characters of a string literal, after its opening quote.\<close>

fun parse_chars :: "string \<Rightarrow> error + (string \<times> string)" where
  "parse_chars [] = Inl bad_json"
| "parse_chars (c # cs) =
     (if c = CHR 0x22 then Inr ([], cs)
      else if (of_char c :: nat) < 32 then Inl bad_json
      else if c = CHR 0x5C then
        (case cs of
           [] \<Rightarrow> Inl bad_json
         | e # r \<Rightarrow>
             if e = CHR ''u'' then
               (case r of
                  h1 # h2 # h3 # h4 # r' \<Rightarrow>
                    (case (hex_val h1, hex_val h2, hex_val h3, hex_val h4) of
                       (Some a, Some b, Some c, Some d) \<Rightarrow>
                         if a = 13 \<and> 8 \<le> b
                         then Inl (Unmodelled ''escape of a surrogate'')
                         else prepend (utf8_encode (((a * 16 + b) * 16 + c) * 16 + d))
                                (parse_chars r')
                     | _ \<Rightarrow> Inl bad_json)
                | _ \<Rightarrow> Inl bad_json)
             else (case unescape e of
                     None \<Rightarrow> Inl bad_json
                   | Some d \<Rightarrow> prepend [d] (parse_chars r)))
      else prepend [c] (parse_chars cs))"

definition is_digit :: "char \<Rightarrow> bool" where
  "is_digit c = (48 \<le> (of_char c :: nat) \<and> (of_char c :: nat) \<le> 57)"

definition int_of_digits :: "string \<Rightarrow> int" where
  "int_of_digits ds = foldl (\<lambda>a c. 10 * a + ((of_char c :: int) - 48)) 0 ds"

text \<open>
  The number that a literal denotes: with sign \<open>neg\<close>, digits \<open>ds\<close> (those before and
  after the point) and decimal exponent \<open>E\<close>, the digits read as an integer and multiplied
  by \<open>10^E\<close>. Zero is \<open>0\<close> whatever the sign and the exponent (\<open>-0\<close> prints as \<open>0\<close> and is
  falsy like \<open>0\<close>). Otherwise the zeros that begin the digits are dropped and those that
  end them go into the exponent; what is left are the significant digits. A literal of
  more than 15 significant digits, or outside \<open>10^-300 \<dots> 10^300\<close>, is one that a double
  rounds: it is outside the model.
\<close>

definition number_of_literal :: "bool \<Rightarrow> string \<Rightarrow> int \<Rightarrow> error + jsval" where
  "number_of_literal neg ds E =
     (let ds1 = dropWhile (\<lambda>c. c = CHR ''0'') ds;
          z = trailing_zeros ds1;
          sig = take (length ds1 - z) ds1;
          e = E + int z;
          k = int (length sig);
          n = k + e;
          m = (if neg then - int_of_digits sig else int_of_digits sig)
      in if ds1 = [] then Inr (JNum 0)
         else if 15 < k \<or> n \<le> - 300 \<or> 300 < n
           then Inl (Unmodelled ''number literal that a double rounds'')
         else if 0 \<le> e then Inr (JNum (m * 10 ^ nat e))
         else Inr (JDec m (nat (- e))))"

text \<open>A number literal: \<open>-\<close>, digits without a leading zero, a fraction \<open>.digits\<close>, an
  exponent \<open>e\<close> or \<open>E\<close> with a sign and digits; the digits alone are required. The
  fraction and the exponent are \<open>None\<close> where the literal is broken.\<close>

definition parse_fraction :: "string \<Rightarrow> (string \<times> string) option" where
  "parse_fraction r =
     (if r \<noteq> [] \<and> hd r = CHR ''.'' then
        (if takeWhile is_digit (tl r) = [] then None
         else Some (takeWhile is_digit (tl r), dropWhile is_digit (tl r)))
      else Some ([], r))"

definition parse_exponent :: "string \<Rightarrow> (int \<times> string) option" where
  "parse_exponent r =
     (if r \<noteq> [] \<and> (hd r = CHR ''e'' \<or> hd r = CHR ''E'') then
        (let r2 = tl r;
             neg = (r2 \<noteq> [] \<and> hd r2 = CHR ''-'');
             r3 = (if r2 \<noteq> [] \<and> (hd r2 = CHR ''-'' \<or> hd r2 = CHR ''+'') then tl r2 else r2);
             es = takeWhile is_digit r3
         in if es = [] then None
            else Some (if neg then - int_of_digits es else int_of_digits es, dropWhile is_digit r3))
      else Some (0, r))"

definition parse_unsigned :: "bool \<Rightarrow> string \<Rightarrow> error + (jsval \<times> string)" where
  "parse_unsigned neg s =
     (let ds = takeWhile is_digit s
      in if ds = [] then Inl bad_json
         else if 1 < length ds \<and> hd ds = CHR ''0'' then Inl bad_json
         else (case parse_fraction (dropWhile is_digit s) of
                 None \<Rightarrow> Inl bad_json
               | Some (fs, r1) \<Rightarrow>
                   (case parse_exponent r1 of
                      None \<Rightarrow> Inl bad_json
                    | Some (x, r2) \<Rightarrow>
                        (case number_of_literal neg (ds @ fs) (x - int (length fs)) of
                           Inl e \<Rightarrow> Inl e
                         | Inr v \<Rightarrow> Inr (v, r2)))))"

definition parse_number :: "string \<Rightarrow> error + (jsval \<times> string)" where
  "parse_number s =
     (if s \<noteq> [] \<and> hd s = CHR ''-'' then parse_unsigned True (tl s) else parse_unsigned False s)"

text \<open>A key that is an array index: the decimal digits, without a leading zero, of a
  number below \<open>2^32 - 1\<close>. Digit strings of one length compare as their numbers do.\<close>

fun digits_less :: "string \<Rightarrow> string \<Rightarrow> bool" where
  "digits_less (x # xs) (y # ys) =
     ((of_char x :: nat) < of_char y \<or> (x = y \<and> digits_less xs ys))"
| "digits_less xs ys = False"

definition is_index_key :: "string \<Rightarrow> bool" where
  "is_index_key k =
     (if k = [] \<or> \<not> list_all is_digit k then False
      else if 1 < length k \<and> hd k = CHR ''0'' then False
      else if length k < 10 then True
      else if 10 < length k then False
      else digits_less k ''4294967295'')"

text \<open>The value parser. The first argument bounds the number of nested calls; every call
  consumes a character, so the length of the text is enough (see \<open>JSON_parse\<close>).\<close>

fun parse_value :: "nat \<Rightarrow> string \<Rightarrow> error + (jsval \<times> string)"
  and parse_elements :: "nat \<Rightarrow> jsval list \<Rightarrow> string \<Rightarrow> error + (jsval \<times> string)"
  and parse_members :: "nat \<Rightarrow> (string \<times> jsval) list \<Rightarrow> string \<Rightarrow> error + (jsval \<times> string)"
where
  "parse_value 0 s = Inl bad_json"
| "parse_value (Suc n) s =
     (case skip_ws s of
        [] \<Rightarrow> Inl bad_json
      | c # r \<Rightarrow>
          if c = CHR ''{'' then
            (case skip_ws r of
               [] \<Rightarrow> Inl bad_json
             | c' # r' \<Rightarrow> if c' = CHR ''}'' then Inr (JObj [], r')
                          else parse_members n [] (c' # r'))
          else if c = CHR ''['' then
            (case skip_ws r of
               [] \<Rightarrow> Inl bad_json
             | c' # r' \<Rightarrow> if c' = CHR '']'' then Inr (JArr [], r')
                          else parse_elements n [] (c' # r'))
          else if c = CHR 0x22 then
            (case parse_chars r of
               Inl e \<Rightarrow> Inl e
             | Inr (str, r') \<Rightarrow> Inr (JStr str, r'))
          else if take 4 (c # r) = ''true'' then Inr (JBool True, drop 3 r)
          else if take 5 (c # r) = ''false'' then Inr (JBool False, drop 4 r)
          else if take 4 (c # r) = ''null'' then Inr (JNull, drop 3 r)
          else parse_number (c # r))"
| "parse_elements 0 acc s = Inl bad_json"
| "parse_elements (Suc n) acc s =
     (case parse_value n s of
        Inl e \<Rightarrow> Inl e
      | Inr (v, r) \<Rightarrow>
          (case skip_ws r of
             [] \<Rightarrow> Inl bad_json
           | c # r' \<Rightarrow>
               if c = CHR '','' then parse_elements n (acc @ [v]) r'
               else if c = CHR '']'' then Inr (JArr (acc @ [v]), r')
               else Inl bad_json))"
| "parse_members 0 acc s = Inl bad_json"
| "parse_members (Suc n) acc s =
     (case skip_ws s of
        [] \<Rightarrow> Inl bad_json
      | c # r \<Rightarrow>
          if c \<noteq> CHR 0x22 then Inl bad_json
          else
            (case parse_chars r of
               Inl e \<Rightarrow> Inl e
             | Inr (k, r1) \<Rightarrow>
                 (case skip_ws r1 of
                    [] \<Rightarrow> Inl bad_json
                  | c1 # r2 \<Rightarrow>
                      if c1 \<noteq> CHR '':'' then Inl bad_json
                      else
                        (case parse_value n r2 of
                           Inl e \<Rightarrow> Inl e
                         | Inr (v, r3) \<Rightarrow>
                             (case skip_ws r3 of
                                [] \<Rightarrow> Inl bad_json
                              | c3 # r4 \<Rightarrow>
                                  if c3 \<noteq> CHR '','' \<and> c3 \<noteq> CHR ''}'' then Inl bad_json
                                  else if is_index_key k
                                    then Inl (Unmodelled ''member with an array index as key'')
                                  else if c3 = CHR '','' then parse_members n (setProp acc k v) r4
                                  else Inr (JObj (setProp acc k v), r4))))))"

text \<open>\<open>JSON.parse(text)\<close>: one value, then only white space.\<close>

definition JSON_parse :: "string \<Rightarrow> error + jsval" where
  "JSON_parse s =
     (case parse_value (Suc (length s)) s of
        Inl e \<Rightarrow> Inl e
      | Inr (v, r) \<Rightarrow> if skip_ws r = [] then Inr v else Inl bad_json)"

section \<open>The world: file system, clock, remote API\<close>

text \<open>
  A node of the file system: a regular file with its size in bytes (\<open>stats.size\<close>) and its
  bytes, a directory, or a path on which every system call fails with the given code (such
  as \<open>EACCES\<close>). The size is kept beside the bytes, so that a large file can be described
  without them.
\<close>

datatype fsnode = RegularFile nat string | Directory | Inaccessible string

text \<open>An outbound HTTP request, as \<open>axios.post(url, body, config)\<close> sends it. The boundary
  that \<open>form-data\<close> draws at random for a multipart body is not modelled.\<close>

datatype form_value = FileStream string | FormField string

datatype req_body = JsonBody jsval | FormBody "(string \<times> form_value) list"

record request =
  req_url :: string
  req_headers :: "(string \<times> string) list"
  req_body :: req_body

text \<open>What one \<open>axios.post\<close> comes to: a response with a 2xx status and its data; an
  \<open>AxiosError\<close> with \<open>error.response?.status\<close> (\<open>None\<close> without a response: network error,
  timeout), \<open>error.response?.data\<close> and \<open>error.message\<close>; or another exception.\<close>

datatype outcome = Responded jsval | AxiosError "nat option" jsval string | Failed error

text \<open>
  The world a tool call runs in. \<open>remote\<close> is the remote API: the outcome of the request
  sent after \<open>n\<close> earlier ones. \<open>requests\<close> logs every outbound request and \<open>delays\<close> every
  back-off wait (milliseconds). The clock does not advance during a call; \<open>now\<close> is
  \<open>new Date().toISOString()\<close>.
\<close>

record world =
  files :: "string \<Rightarrow> fsnode option"
  homedir :: string
  now :: string
  remote :: "nat \<Rightarrow> request \<Rightarrow> outcome"
  requests :: "request list"
  delays :: "nat list"

text \<open>An asynchronous function of the source: it reads and changes the world, and either
  resolves with a value or rejects with an error.\<close>

type_synonym 'a io = "world \<Rightarrow> (error + 'a) \<times> world"

definition ret :: "'a \<Rightarrow> 'a io" where
  "ret x = (\<lambda>w. (Inr x, w))"

definition throw :: "error \<Rightarrow> 'a io" where
  "throw e = (\<lambda>w. (Inl e, w))"

definition bindE :: "'a io \<Rightarrow> ('a \<Rightarrow> 'b io) \<Rightarrow> 'b io" where
  "bindE m f = (\<lambda>w. case m w of (Inl e, w') \<Rightarrow> (Inl e, w') | (Inr x, w') \<Rightarrow> f x w')"

definition catchE :: "'a io \<Rightarrow> (error \<Rightarrow> 'a io) \<Rightarrow> 'a io" where
  "catchE m h = (\<lambda>w. case m w of (Inl e, w') \<Rightarrow> h e w' | (Inr x, w') \<Rightarrow> (Inr x, w'))"

definition lift :: "error + 'a \<Rightarrow> 'a io" where
  "lift r = (case r of Inl e \<Rightarrow> throw e | Inr x \<Rightarrow> ret x)"

definition bindR :: "error + 'a \<Rightarrow> ('a \<Rightarrow> error + 'b) \<Rightarrow> error + 'b" where
  "bindR r f = (case r of Inl e \<Rightarrow> Inl e | Inr x \<Rightarrow> f x)"

text \<open>The progress sink a handler is given: called with \<open>{progress, total}\<close>, it resolves
  (\<open>None\<close>) or rejects with an error. \<open>report\<close> is the source's
  \<open>if (onProgress) { await onProgress({ progress: p, total: t }); }\<close>.\<close>

type_synonym sink = "nat \<Rightarrow> nat \<Rightarrow> error option"

definition report :: "sink option \<Rightarrow> nat \<Rightarrow> nat \<Rightarrow> unit io" where
  "report onProgress p t =
     (case onProgress of
        None \<Rightarrow> ret ()
      | Some f \<Rightarrow> (case f p t of None \<Rightarrow> ret () | Some e \<Rightarrow> throw e))"

text \<open>An optional string argument is used when it is truthy: present and not empty.\<close>

definition present :: "string option \<Rightarrow> bool" where
  "present s = (case s of None \<Rightarrow> False | Some t \<Rightarrow> t \<noteq> [])"

subsection \<open>Node's \<open>fs\<close>, \<open>path\<close> and \<open>os\<close>\<close>

datatype stats = Stats bool nat

definition fs_stat :: "string \<Rightarrow> stats io" where
  "fs_stat p = (\<lambda>w.
     case files w p of
       None \<Rightarrow> (Inl (SystemError ''ENOENT'' p), w)
     | Some (RegularFile sz bytes) \<Rightarrow> (Inr (Stats True sz), w)
     | Some Directory \<Rightarrow> (Inr (Stats False 4096), w)
     | Some (Inaccessible code) \<Rightarrow> (Inl (SystemError code p), w))"

definition fs_readFile :: "string \<Rightarrow> string io" where
  "fs_readFile p = (\<lambda>w.
     case files w p of
       None \<Rightarrow> (Inl (SystemError ''ENOENT'' p), w)
     | Some (RegularFile sz bytes) \<Rightarrow> (Inr bytes, w)
     | Some Directory \<Rightarrow> (Inl (SystemError ''EISDIR'' p), w)
     | Some (Inaccessible code) \<Rightarrow> (Inl (SystemError code p), w))"

definition fs_mkdir_recursive :: "string \<Rightarrow> unit io" where
  "fs_mkdir_recursive p = (\<lambda>w.
     case files w p of
       Some (RegularFile sz bytes) \<Rightarrow> (Inl (SystemError ''EEXIST'' p), w)
     | Some (Inaccessible code) \<Rightarrow> (Inl (SystemError code p), w)
     | _ \<Rightarrow> (Inr (), w\<lparr>files := (files w)(p \<mapsto> Directory)\<rparr>))"

definition fs_writeFile :: "string \<Rightarrow> string \<Rightarrow> unit io" where
  "fs_writeFile p content = (\<lambda>w.
     case files w p of
       Some Directory \<Rightarrow> (Inl (SystemError ''EISDIR'' p), w)
     | Some (Inaccessible code) \<Rightarrow> (Inl (SystemError code p), w)
     | _ \<Rightarrow> (Inr (), w\<lparr>files := (files w)(p \<mapsto> RegularFile (length content) content)\<rparr>))"

text \<open>\<open>path\<close> (POSIX). The last segment of a path, trailing slashes ignored.\<close>

definition last_segment :: "string \<Rightarrow> string" where
  "last_segment p =
     rev (takeWhile (\<lambda>c. c \<noteq> CHR ''/'') (dropWhile (\<lambda>c. c = CHR ''/'') (rev p)))"

text \<open>\<open>path.extname\<close>: from the last dot of the last segment, unless that segment has no
  dot, starts with its only dot, or is \<open>..\<close>.\<close>

definition extname :: "string \<Rightarrow> string" where
  "extname p =
     (let b = last_segment p;
          after = rev (takeWhile (\<lambda>c. c \<noteq> CHR ''.'') (rev b));
          stem = take (length b - length after - 1) b
      in if CHR ''.'' \<notin> set b then []
         else if stem = [] then []
         else if b = ''..'' then []
         else CHR ''.'' # after)"

text \<open>\<open>path.basename(p)\<close> and \<open>path.basename(p, ext)\<close>.\<close>

definition basename :: "string \<Rightarrow> string" where
  "basename p = last_segment p"

definition basename_ext :: "string \<Rightarrow> string \<Rightarrow> string" where
  "basename_ext p ext =
     (let b = last_segment p
      in if ext \<noteq> [] \<and> length ext \<le> length p \<and> ext = p then []
         else if ext \<noteq> [] \<and> length ext < length b \<and> drop (length b - length ext) b = ext
           then take (length b - length ext) b
         else b)"

text \<open>\<open>path.join\<close> of normalised parts (its normalisation of \<open>.\<close>, \<open>..\<close> and repeated
  slashes is not modelled).\<close>

definition path_join :: "string list \<Rightarrow> string" where
  "path_join parts = join ''/'' (filter (\<lambda>s. s \<noteq> []) parts)"

text \<open>\<open>String.prototype.toLowerCase\<close> on ASCII letters.\<close>

definition lower_char :: "char \<Rightarrow> char" where
  "lower_char c =
     (if 65 \<le> (of_char c :: nat) \<and> (of_char c :: nat) \<le> 90 then char_of ((of_char c :: nat) + 32)
      else c)"

definition toLowerCase :: "string \<Rightarrow> string" where
  "toLowerCase s = map lower_char s"

text \<open>\<open>Buffer.prototype.toString('base64')\<close>.\<close>

definition b64_char :: "nat \<Rightarrow> char" where
  "b64_char i =
     (''ABCDEFGHIJKLMNOPQRSTUVWXYZabcdefghijklmnopqrstuvwxyz0123456789+/'') ! (i mod 64)"

fun base64 :: "string \<Rightarrow> string" where
  "base64 [] = []"
| "base64 [a] =
     (let x = (of_char a :: nat)
      in [b64_char (x div 4), b64_char ((x mod 4) * 16), CHR ''='', CHR ''=''])"
| "base64 [a, b] =
     (let x = (of_char a :: nat); y = (of_char b :: nat)
      in [b64_char (x div 4), b64_char ((x mod 4) * 16 + y div 16),
          b64_char ((y mod 16) * 4), CHR ''=''])"
| "base64 (a # b # c # r) =
     (let x = (of_char a :: nat); y = (of_char b :: nat); z = (of_char c :: nat)
      in [b64_char (x div 4), b64_char ((x mod 4) * 16 + y div 16),
          b64_char ((y mod 16) * 4 + z div 64), b64_char (z mod 64)] @ base64 r)"

text \<open>\<open>String.prototype.includes\<close>.\<close>

fun str_includes :: "string \<Rightarrow> string \<Rightarrow> bool" where
  "str_includes [] t = (t = [])"
| "str_includes (c # cs) t = (take (length t) (c # cs) = t \<or> str_includes cs t)"

section \<open>constants.ts\<close>

definition DOCUMENT_DIGITIZATION :: string where
  "DOCUMENT_DIGITIZATION = ''https://api.upstage.ai/v1/document-digitization''"

definition INFORMATION_EXTRACTION :: string where
  "INFORMATION_EXTRACTION = ''https://api.upstage.ai/v1/information-extraction''"

definition SCHEMA_GENERATION :: string where
  "SCHEMA_GENERATION = ''https://api.upstage.ai/v1/information-extraction/schema-generation''"

definition DOCUMENT_CLASSIFICATION :: string where
  "DOCUMENT_CLASSIFICATION = ''https://api.upstage.ai/v1/document-classification''"

definition DOCUMENT_PARSING :: "string list" where
  "DOCUMENT_PARSING =
     [''.pdf'', ''.jpeg'', ''.jpg'', ''.png'', ''.tiff'', ''.tif'', ''.bmp'', ''.gif'', ''.webp'']"

definition INFO_EXTRACTION :: "string list" where
  "INFO_EXTRACTION =
     [''.jpeg'', ''.jpg'', ''.png'', ''.bmp'', ''.pdf'', ''.tiff'', ''.tif'', ''.heic'',
      ''.docx'', ''.pptx'', ''.xlsx'']"

definition MAX_SIZE :: nat where
  "MAX_SIZE = 50 * 1024 * 1024"

definition MAX_PAGES :: nat where
  "MAX_PAGES = 100"

definition TIMEOUT :: nat where
  "TIMEOUT = 5 * 60 * 1000"

definition RETRY_ATTEMPTS :: nat where
  "RETRY_ATTEMPTS = 3"

definition RETRY_DELAY :: nat where
  "RETRY_DELAY = 1000"

section \<open>validators.ts\<close>

definition validateFileExists :: "string \<Rightarrow> unit io" where
  "validateFileExists filePath = (\<lambda>w.
     case fs_stat filePath w of
       (Inr (Stats isFile sz), w') \<Rightarrow>
         if \<not> isFile then (Inl (Error (''Path is not a file: '' @ filePath)), w')
         else (Inr (), w')
     | (Inl (SystemError code p), w') \<Rightarrow>
         if code = ''ENOENT'' then (Inl (Error (''File not found: '' @ filePath)), w')
         else (Inl (SystemError code p), w')
     | (Inl e, w') \<Rightarrow> (Inl e, w'))"

text \<open>\<open>(x / (1024 * 1024)).toFixed(d)\<close> for \<open>d = 2\<close> and \<open>d = 0\<close>: the quotient is exact in
  binary floating point, and \<open>toFixed\<close> rounds it to the nearest decimal, the larger one on
  a tie.\<close>

definition pad2 :: "nat \<Rightarrow> string" where
  "pad2 n = (if n < 10 then CHR ''0'' # show_nat n else show_nat n)"

definition toFixed2_MB :: "nat \<Rightarrow> string" where
  "toFixed2_MB x =
     (let n = (200 * x + 1048576) div 2097152
      in show_nat (n div 100) @ ''.'' @ pad2 (n mod 100))"

definition toFixed0_MB :: "nat \<Rightarrow> string" where
  "toFixed0_MB x = show_nat ((2 * x + 1048576) div 2097152)"

definition validateFileSize :: "string \<Rightarrow> nat \<Rightarrow> unit io" where
  "validateFileSize filePath maxSize =
     bindE (fs_stat filePath) (\<lambda>st.
       case st of Stats isFile sz \<Rightarrow>
         if sz > maxSize then
           throw (Error (''File size ('' @ toFixed2_MB sz @ ''MB) exceeds maximum allowed size (''
                         @ toFixed0_MB maxSize @ ''MB)''))
         else ret ())"

definition validateFileExtension :: "string \<Rightarrow> string list \<Rightarrow> error + unit" where
  "validateFileExtension filePath allowedExtensions =
     (let ext = toLowerCase (extname filePath)
      in if ext \<notin> set allowedExtensions then
           Inl (Error (''Unsupported file format: '' @ ext @ ''. Supported formats: ''
                       @ join '', '' allowedExtensions))
         else Inr ())"

definition validateDocumentFile :: "string \<Rightarrow> unit io" where
  "validateDocumentFile filePath =
     bindE (validateFileExists filePath) (\<lambda>_.
     bindE (lift (validateFileExtension filePath DOCUMENT_PARSING)) (\<lambda>_.
     validateFileSize filePath MAX_SIZE))"

definition validateExtractionFile :: "string \<Rightarrow> unit io" where
  "validateExtractionFile filePath =
     bindE (validateFileExists filePath) (\<lambda>_.
     bindE (lift (validateFileExtension filePath INFO_EXTRACTION)) (\<lambda>_.
     validateFileSize filePath MAX_SIZE))"

section \<open>fileUtils.ts\<close>

definition ensureDirectoryExists :: "string \<Rightarrow> unit io" where
  "ensureDirectoryExists dirPath = fs_mkdir_recursive dirPath"

text \<open>\<open>JSON.stringify(data, null, indent)\<close> of \<open>undefined\<close> is \<open>undefined\<close>, which
  \<open>fs.writeFile\<close> refuses.\<close>

definition saveJsonToFile :: "jsval \<Rightarrow> string \<Rightarrow> unit io" where
  "saveJsonToFile data filePath =
     (case JSON_stringify_indent data of
        None \<Rightarrow> throw (TypeError ''The data argument must be of type string'')
      | Some jsonContent \<Rightarrow> fs_writeFile filePath jsonContent)"

definition readJsonFile :: "string \<Rightarrow> jsval io" where
  "readJsonFile filePath = bindE (fs_readFile filePath) (\<lambda>content. lift (JSON_parse content))"

definition readFileAsBase64 :: "string \<Rightarrow> string io" where
  "readFileAsBase64 filePath = bindE (fs_readFile filePath) (\<lambda>buffer. ret (base64 buffer))"

definition mimeTypes :: "(string \<times> string) list" where
  "mimeTypes =
     [(''.jpg'', ''image/jpeg''),
      (''.jpeg'', ''image/jpeg''),
      (''.png'', ''image/png''),
      (''.bmp'', ''image/bmp''),
      (''.gif'', ''image/gif''),
      (''.tiff'', ''image/tiff''),
      (''.tif'', ''image/tiff''),
      (''.heic'', ''image/heic''),
      (''.pdf'', ''application/pdf''),
      (''.docx'', ''application/vnd.openxmlformats-officedocument.wordprocessingml.document''),
      (''.xlsx'', ''application/vnd.openxmlformats-officedocument.spreadsheetml.sheet''),
      (''.pptx'', ''application/vnd.openxmlformats-officedocument.presentationml.presentation'')]"

definition getMimeType :: "string \<Rightarrow> string" where
  "getMimeType filePath =
     (let ext = toLowerCase (extname filePath)
      in case map_of mimeTypes ext of
           None \<Rightarrow> ''application/octet-stream''
         | Some m \<Rightarrow> m)"

definition getOutputDirectory :: "string \<Rightarrow> string io" where
  "getOutputDirectory subDir = (\<lambda>w.
     (Inr (path_join [homedir w, ''.mcp-upstage'', ''outputs'', subDir]), w))"

text \<open>\<open>new Date().toISOString().replace(/[:.]/g, '-').slice(0, -5)\<close>.\<close>

definition timestamp_of :: "string \<Rightarrow> string" where
  "timestamp_of isoString =
     (let replaced = map (\<lambda>c. if c = CHR '':'' \<or> c = CHR ''.'' then CHR ''-'' else c) isoString
      in take (length replaced - 5) replaced)"

definition generateTimestampedFilename :: "string \<Rightarrow> string \<Rightarrow> string io" where
  "generateTimestampedFilename originalPath suffix = (\<lambda>w.
     (let timestamp = timestamp_of (now w);
          baseName = basename_ext originalPath (extname originalPath)
      in (Inr (baseName @ ''_'' @ timestamp @ ''_'' @ suffix @ ''.json''), w)))"

section \<open>schemaValidator.ts\<close>

text \<open>\<open>JSON.stringify\<close> where the source uses the result as text: \<open>undefined\<close> reads
  \<open>undefined\<close> in a template literal and as the argument of \<open>JSON.parse\<close>.\<close>

definition stringify_text :: "jsval \<Rightarrow> string" where
  "stringify_text v = (case JSON_stringify v of None \<Rightarrow> ''undefined'' | Some t \<Rightarrow> t)"

definition stringify_indent_text :: "jsval \<Rightarrow> string" where
  "stringify_indent_text v = (case JSON_stringify_indent v of None \<Rightarrow> ''undefined'' | Some t \<Rightarrow> t)"

definition createExtractionSchema :: "jsval \<Rightarrow> string option \<Rightarrow> jsval" where
  "createExtractionSchema flds name =
     JObj [(''type'', JStr ''json_schema''),
           (''json_schema'',
            JObj [(''name'', JStr (case name of None \<Rightarrow> ''document_schema'' | Some n \<Rightarrow> n)),
                  (''schema'',
                   JObj [(''type'', JStr ''object''),
                         (''properties'', flds)])])]"

definition validateSchemaFormat :: "jsval \<Rightarrow> error + unit" where
  \<open>validateSchemaFormat schema =
     (if \<not> truthy schema \<or> typeof schema \<noteq> ''object'' then
        Inl (Error ''Schema must be an object'')
      else bindR (getProp schema ''type'') (\<lambda>ty.
        if ty \<noteq> JStr ''json_schema'' then
          Inl (Error ''Schema must have type "json_schema"'')
        else bindR (getProp schema ''json_schema'') (\<lambda>jsonSchema.
          if \<not> truthy jsonSchema \<or> typeof jsonSchema \<noteq> ''object'' then
            Inl (Error ''Schema must have "json_schema" property'')
          else bindR (getProp jsonSchema ''name'') (\<lambda>name.
            if \<not> truthy name \<or> typeof name \<noteq> ''string'' then
              Inl (Error ''Schema must have a "name" property'')
            else bindR (getProp jsonSchema ''schema'') (\<lambda>sch.
              if \<not> truthy sch \<or> typeof sch \<noteq> ''object'' then
                Inl (Error ''Schema must have a "schema" property'')
              else bindR (getProp sch ''type'') (\<lambda>schTy.
                if schTy \<noteq> JStr ''object'' then
                  Inl (Error ''Schema type must be "object"'')
                else bindR (getProp sch ''properties'') (\<lambda>props.
                  if \<not> truthy props \<or> typeof props \<noteq> ''object'' then
                    Inl (Error ''Schema must have "properties" object'')
                  else Inr ())))))))\<close>

definition commonFields_companyName :: jsval where
  "commonFields_companyName =
     JObj [(''type'', JStr ''string''), (''description'', JStr ''Name of the company or organization'')]"

definition commonFields_invoiceNumber :: jsval where
  "commonFields_invoiceNumber =
     JObj [(''type'', JStr ''string''), (''description'', JStr ''Invoice or document number'')]"

definition commonFields_date :: jsval where
  "commonFields_date =
     JObj [(''type'', JStr ''string''), (''description'', JStr ''Date in YYYY-MM-DD format'')]"

definition commonFields_totalAmount :: jsval where
  "commonFields_totalAmount =
     JObj [(''type'', JStr ''number''), (''description'', JStr ''Total monetary amount'')]"

definition commonFields_address :: jsval where
  "commonFields_address =
     JObj [(''type'', JStr ''string''), (''description'', JStr ''Full address'')]"

definition commonFields_email :: jsval where
  "commonFields_email =
     JObj [(''type'', JStr ''string''), (''description'', JStr ''Email address'')]"

definition commonFields_phone :: jsval where
  "commonFields_phone =
     JObj [(''type'', JStr ''string''), (''description'', JStr ''Phone number'')]"

definition commonFields_items :: jsval where
  "commonFields_items =
     JObj [(''type'', JStr ''array''),
           (''description'', JStr ''List of items''),
           (''items'',
            JObj [(''type'', JStr ''object''),
                  (''properties'',
                   JObj [(''name'', JObj [(''type'', JStr ''string''), (''description'', JStr ''Item name'')]),
                         (''quantity'', JObj [(''type'', JStr ''number''), (''description'', JStr ''Quantity'')]),
                         (''price'', JObj [(''type'', JStr ''number''), (''description'', JStr ''Unit price'')])])])]"

definition commonSchemas_invoice :: jsval where
  "commonSchemas_invoice =
     createExtractionSchema
       (JObj [(''company_name'', commonFields_companyName),
              (''invoice_number'', commonFields_invoiceNumber),
              (''invoice_date'', commonFields_date),
              (''total_amount'', commonFields_totalAmount),
              (''items'', commonFields_items)]) None"

definition commonSchemas_receipt :: jsval where
  "commonSchemas_receipt =
     createExtractionSchema
       (JObj [(''merchant_name'', commonFields_companyName),
              (''date'', commonFields_date),
              (''total_amount'', commonFields_totalAmount),
              (''items'', commonFields_items)]) None"

definition commonSchemas_businessCard :: jsval where
  "commonSchemas_businessCard =
     createExtractionSchema
       (JObj [(''name'', JObj [(''type'', JStr ''string''), (''description'', JStr ''Person name'')]),
              (''company'', commonFields_companyName),
              (''title'', JObj [(''type'', JStr ''string''), (''description'', JStr ''Job title'')]),
              (''email'', commonFields_email),
              (''phone'', commonFields_phone),
              (''address'', commonFields_address)]) None"

definition commonSchemas_contract :: jsval where
  "commonSchemas_contract =
     createExtractionSchema
       (JObj [(''contract_title'',
               JObj [(''type'', JStr ''string''), (''description'', JStr ''Title of the contract'')]),
              (''parties'',
               JObj [(''type'', JStr ''array''),
                     (''description'', JStr ''Parties involved in the contract''),
                     (''items'',
                      JObj [(''type'', JStr ''object''),
                            (''properties'',
                             JObj [(''name'', JObj [(''type'', JStr ''string''),
                                                    (''description'', JStr ''Party name'')]),
                                   (''role'', JObj [(''type'', JStr ''string''),
                                                    (''description'',
                                                     JStr ''Party role (e.g., client, vendor)'')])])])]),
              (''start_date'', commonFields_date),
              (''end_date'', commonFields_date),
              (''value'', commonFields_totalAmount)]) None"

definition schemaToJson :: "jsval \<Rightarrow> string" where
  "schemaToJson schema = stringify_text schema"

text \<open>\<open>parseSchemaJson\<close>: a SyntaxError of \<open>JSON.parse\<close> becomes \<open>Invalid JSON: ...\<close>; every
  other error is thrown on as it is.\<close>

definition parseSchemaJson :: "string \<Rightarrow> error + jsval" where
  "parseSchemaJson schemaJson =
     (case bindR (JSON_parse schemaJson) (\<lambda>schema.
             bindR (validateSchemaFormat schema) (\<lambda>_. Inr schema)) of
        Inl (SyntaxError m) \<Rightarrow> Inl (Error (''Invalid JSON: '' @ m))
      | Inl e \<Rightarrow> Inl e
      | Inr schema \<Rightarrow> Inr schema)"

section \<open>apiClient.ts\<close>

record ApiRequestOptions =
  opt_files :: "(string \<times> jsval) list option"
  opt_data :: "(string \<times> jsval) list option"
  opt_json :: "jsval option"

text \<open>\<open>axios.post\<close>: the request goes out (it is logged) and the remote API decides.\<close>

definition axios_post :: "request \<Rightarrow> world \<Rightarrow> outcome \<times> world" where
  "axios_post req w = (remote w (length (requests w)) req, w\<lparr>requests := requests w @ [req]\<rparr>)"

definition form_fields :: "(string \<times> jsval) list option \<Rightarrow> (string \<times> form_value) list" where
  "form_fields data =
     (case data of
        None \<Rightarrow> []
      | Some kvs \<Rightarrow>
          map (\<lambda>(key, v). (key, FormField (if typeof v = ''object'' then stringify_text v
                                             else ToString v))) kvs)"

definition client_headers :: "string \<Rightarrow> (string \<times> string) list" where
  "client_headers apiKey =
     [(''Authorization'', ''Bearer '' @ apiKey), (''x-upstage-client'', ''mcp'')]"

text \<open>\<open>sendRequest\<close> builds the body and the headers for one of three cases (files,
  JSON, form fields only) and posts them.\<close>

definition build_request :: "string \<Rightarrow> string \<Rightarrow> ApiRequestOptions \<Rightarrow> request" where
  "build_request apiKey url options =
     (case opt_files options of
        Some fs \<Rightarrow>
          \<lparr>req_url = url,
           req_headers = client_headers apiKey @ [(''content-type'', ''multipart/form-data'')],
           req_body = FormBody
             (map (\<lambda>(key, filePath).
                     (key, case filePath of JStr path \<Rightarrow> FileStream path
                                          | other \<Rightarrow> FormField (ToString other))) fs
              @ form_fields (opt_data options))\<rparr>
      | None \<Rightarrow>
          (case opt_json options of
             Some j \<Rightarrow>
               \<lparr>req_url = url,
                req_headers = client_headers apiKey @ [(''Content-Type'', ''application/json'')],
                req_body = JsonBody j\<rparr>
           | None \<Rightarrow>
               \<lparr>req_url = url,
                req_headers = client_headers apiKey @ [(''content-type'', ''multipart/form-data'')],
                req_body = FormBody (form_fields (opt_data options))\<rparr>))"

definition sendRequest :: "string \<Rightarrow> string \<Rightarrow> ApiRequestOptions \<Rightarrow> world \<Rightarrow> outcome \<times> world" where
  "sendRequest apiKey url options = axios_post (build_request apiKey url options)"

text \<open>
  The \<open>retry\<close> package (npm), which the client imports. \<open>retry.operation(options)\<close> computes
  the list of waits \<open>min(minTimeout * factor^i, maxTimeout)\<close> for \<open>i < retries\<close> (no
  randomisation), in ascending order. \<open>operation.retry(err)\<close> records the error and takes the
  next wait; when none is left it answers \<open>false\<close>. \<open>operation.mainError()\<close> is the recorded
  error whose message occurred most often, the latest one among equals.
\<close>

record RetryOperation =
  op_timeouts :: "nat list"
  op_errors :: "error list"

definition createTimeout :: "nat \<Rightarrow> nat \<Rightarrow> nat \<Rightarrow> nat \<Rightarrow> nat" where
  "createTimeout attempt factor minTimeout maxTimeout =
     min (max minTimeout 1 * factor ^ attempt) maxTimeout"

definition retry_operation :: "nat \<Rightarrow> nat \<Rightarrow> nat \<Rightarrow> nat \<Rightarrow> RetryOperation" where
  "retry_operation retries factor minTimeout maxTimeout =
     \<lparr>op_timeouts = sort (map (\<lambda>i. createTimeout i factor minTimeout maxTimeout) [0 ..< retries]),
      op_errors = []\<rparr>"

definition retry :: "RetryOperation \<Rightarrow> error \<Rightarrow> nat option \<times> RetryOperation" where
  "retry op err =
     (case op_timeouts op of
        [] \<Rightarrow> (None, op\<lparr>op_errors := op_errors op @ [err]\<rparr>)
      | t # ts \<Rightarrow> (Some t, \<lparr>op_timeouts = ts, op_errors = op_errors op @ [err]\<rparr>))"

fun mainError_loop ::
  "error list \<Rightarrow> (string \<Rightarrow> nat) \<Rightarrow> error option \<Rightarrow> nat \<Rightarrow> error option" where
  "mainError_loop [] counts mainErr mainErrorCount = mainErr"
| "mainError_loop (e # es) counts mainErr mainErrorCount =
     (let c = counts (message e) + 1;
          counts' = counts(message e := c)
      in if c \<ge> mainErrorCount then mainError_loop es counts' (Some e) c
         else mainError_loop es counts' mainErr mainErrorCount)"

definition mainError :: "RetryOperation \<Rightarrow> error option" where
  "mainError op = mainError_loop (op_errors op) (\<lambda>m. 0) None 0"

text \<open>The 4xx test of \<open>makeRequest\<close>:
  \<open>status && status >= 400 && status < 500 && status !== 429\<close>.\<close>

definition is_client_error :: "nat option \<Rightarrow> bool" where
  "is_client_error status =
     (case status of None \<Rightarrow> False | Some s \<Rightarrow> s \<noteq> 0 \<and> s \<ge> 400 \<and> s < 500 \<and> s \<noteq> 429)"

text \<open>One run of the callback given to \<open>retryOperation.attempt\<close>, and the runs that
  \<open>retry\<close> schedules after it. The messages written to the console are not modelled.\<close>

function attempt :: "string \<Rightarrow> string \<Rightarrow> ApiRequestOptions \<Rightarrow> string \<Rightarrow> RetryOperation \<Rightarrow> jsval io" where
  "attempt apiKey url options operation op w =
     (case sendRequest apiKey url options w of
        (Responded data, w1) \<Rightarrow> (Inr data, w1)
      | (AxiosError status data msg, w1) \<Rightarrow>
          (let m = js_or (getPropOpt data ''message'') (JStr msg)
           in if is_client_error status then
                (Inl (Error (operation @ '' failed: '' @ ToString m)), w1)
              else
                (let retryError = Error (operation @ '' failed: '' @ ToString m)
                 in case retry op retryError of
                      (None, op') \<Rightarrow>
                        (Inl (case mainError op' of None \<Rightarrow> retryError | Some e \<Rightarrow> e), w1)
                    | (Some t, op') \<Rightarrow>
                        attempt apiKey url options operation op' (w1\<lparr>delays := delays w1 @ [t]\<rparr>)))
      | (Failed err, w1) \<Rightarrow>
          (case retry op err of
             (None, op') \<Rightarrow> (Inl (case mainError op' of None \<Rightarrow> err | Some e \<Rightarrow> e), w1)
           | (Some t, op') \<Rightarrow>
               attempt apiKey url options operation op' (w1\<lparr>delays := delays w1 @ [t]\<rparr>)))"
  by pat_completeness auto
termination
  by (relation "measure (\<lambda>(apiKey, url, options, operation, op, w). length (op_timeouts op))")
     (auto simp: retry_def split: list.splits)

declare attempt.simps [simp del]

definition makeRequest :: "string \<Rightarrow> string \<Rightarrow> ApiRequestOptions \<Rightarrow> string option \<Rightarrow> jsval io" where
  "makeRequest apiKey url options operation =
     attempt apiKey url options (case operation of None \<Rightarrow> ''API request'' | Some s \<Rightarrow> s)
       (retry_operation (RETRY_ATTEMPTS - 1) 2 RETRY_DELAY (RETRY_DELAY * 4))"

definition makeApiRequest :: "string \<Rightarrow> string \<Rightarrow> ApiRequestOptions \<Rightarrow> string option \<Rightarrow> jsval io" where
  "makeApiRequest url apiKey options operation = makeRequest apiKey url options operation"

section \<open>The tool handlers\<close>

text \<open>The chat message that carries the file as a data URI; each handler of the JSON
  mode builds it in place.\<close>

definition image_messages :: "string \<Rightarrow> string \<Rightarrow> jsval" where
  "image_messages mimeType fileBase64 =
     JArr [JObj [(''role'', JStr ''user''),
                 (''content'',
                  JArr [JObj [(''type'', JStr ''image_url''),
                              (''image_url'',
                               JObj [(''url'', JStr (''data:'' @ mimeType @ '';base64,'' @ fileBase64))])]])]]"

text \<open>\<open>!result.choices || result.choices.length === 0\<close> and
  \<open>result.choices[0].message.content\<close>.\<close>

definition no_choices :: "jsval \<Rightarrow> error + bool" where
  "no_choices result =
     bindR (getProp result ''choices'') (\<lambda>choices.
       if \<not> truthy choices then Inr True
       else bindR (getProp choices ''length'') (\<lambda>l. Inr (l = JNum 0)))"

definition first_choice_content :: "jsval \<Rightarrow> error + jsval" where
  "first_choice_content result =
     bindR (getProp result ''choices'') (\<lambda>choices.
     bindR (getProp choices ''0'') (\<lambda>choice.
     bindR (getProp choice ''message'') (\<lambda>msg.
     getProp msg ''content'')))"

definition json_request :: "jsval \<Rightarrow> ApiRequestOptions" where
  "json_request requestData = \<lparr>opt_files = None, opt_data = None, opt_json = Some requestData\<rparr>"

definition current_time :: "string io" where
  "current_time = (\<lambda>w. (Inr (now w), w))"

subsection \<open>documentParser.ts\<close>

definition parseDocument ::
  "string \<Rightarrow> string \<Rightarrow> string list option \<Rightarrow> sink option \<Rightarrow> string io" where
  "parseDocument filePath apiKey outputFormats onProgress =
     bindE (validateDocumentFile filePath) (\<lambda>_.
     bindE (report onProgress 10 100) (\<lambda>_.
     let requestData =
           [(''ocr'', JStr ''force''),
            (''base64_encoding'', JStr ([CHR ''[''] @ [CHR 0x27] @ ''table'' @ [CHR 0x27] @ [CHR '']''])),
            (''model'', JStr ''document-parse'')]
           @ (case outputFormats of
                None \<Rightarrow> []
              | Some fs \<Rightarrow>
                  if length fs > 0
                  then [(''output_formats'', JStr (stringify_text (JArr (map JStr fs))))]
                  else [])
     in
     bindE (report onProgress 30 100) (\<lambda>_.
     bindE (makeApiRequest DOCUMENT_DIGITIZATION apiKey
              \<lparr>opt_files = Some [(''document'', JStr filePath)],
               opt_data = Some requestData,
               opt_json = None\<rparr>
              (Some ''Document parsing'')) (\<lambda>result.
     bindE (report onProgress 80 100) (\<lambda>_.
     bindE (getOutputDirectory ''document_parsing'') (\<lambda>outputDir.
     bindE (ensureDirectoryExists outputDir) (\<lambda>_.
     bindE (generateTimestampedFilename filePath ''upstage'') (\<lambda>outputFilename.
     let outputPath = path_join [outputDir, outputFilename] in
     bindE (saveJsonToFile result outputPath) (\<lambda>_.
     bindE (report onProgress 100 100) (\<lambda>_.
     bindE (lift (getProp result ''content'')) (\<lambda>c.
     let content = js_or c (JObj []);
         responseText = stringify_text content
     in ret (responseText @ [CHR 0x0A, CHR 0x0A] @ ''The full response has been saved to ''
             @ outputPath @ '' for your reference.''))))))))))))"

definition parseAndSaveDocument ::
  "string \<Rightarrow> string \<Rightarrow> string list option \<Rightarrow> sink option \<Rightarrow> string io" where
  "parseAndSaveDocument filePath apiKey outputFormats onProgress =
     parseDocument filePath apiKey outputFormats onProgress"

subsection \<open>schemaGenerator.ts\<close>

definition generateSchema :: "string \<Rightarrow> string \<Rightarrow> sink option \<Rightarrow> string io" where
  "generateSchema filePath apiKey onProgress =
     bindE (validateExtractionFile filePath) (\<lambda>_.
     bindE (report onProgress 10 100) (\<lambda>_.
     let mimeType = getMimeType filePath in
     bindE (readFileAsBase64 filePath) (\<lambda>fileBase64.
     bindE (report onProgress 30 100) (\<lambda>_.
     let requestData =
           JObj [(''model'', JStr ''information-extract''),
                 (''messages'', image_messages mimeType fileBase64)]
     in
     bindE (report onProgress 50 100) (\<lambda>_.
     bindE (makeApiRequest SCHEMA_GENERATION apiKey (json_request requestData)
              (Some ''Schema generation'')) (\<lambda>result.
     bindE (report onProgress 80 100) (\<lambda>_.
     bindE (lift (no_choices result)) (\<lambda>none.
     if none then throw (Error ''Invalid response from schema generation API'')
     else
     bindE (lift (first_choice_content result)) (\<lambda>content.
     bindE (lift (JSON_parse (ToString content))) (\<lambda>schema.
     bindE (lift (getProp schema ''json_schema'')) (\<lambda>js.
     if \<not> truthy js then throw (Error ''Invalid schema format returned'')
     else
     bindE (getOutputDirectory ''information_extraction/schemas'') (\<lambda>schemaDir.
     bindE (ensureDirectoryExists schemaDir) (\<lambda>_.
     bindE (generateTimestampedFilename filePath ''generated_schema'') (\<lambda>schemaFilename.
     let schemaPath = path_join [schemaDir, schemaFilename] in
     bindE current_time (\<lambda>generated_at.
     let schemaWithMetadata =
           JObj [(''generated_schema'', schema),
                 (''metadata'',
                  JObj [(''source_file'', JStr (basename filePath)),
                        (''generated_at'', JStr generated_at),
                        (''schema_saved_to'', JStr schemaPath)])]
     in
     bindE (saveJsonToFile schemaWithMetadata schemaPath) (\<lambda>_.
     bindE (report onProgress 100 100) (\<lambda>_.
     let response =
           JObj [(''schema'', schema),
                 (''schema_json'', JStr (stringify_text schema)),
                 (''metadata'',
                  JObj [(''source_file'', JStr (basename filePath)),
                        (''schema_saved_to'', JStr schemaPath),
                        (''usage_instructions'',
                         JStr (''Copy the '' @ [CHR 0x27] @ ''schema_json'' @ [CHR 0x27]
                               @ '' value to use with extract_information tool when auto_generate_schema is false''))])]
     in ret (stringify_indent_text response))))))))))))))))))"

definition generateSchemaFromFile :: "string \<Rightarrow> string \<Rightarrow> sink option \<Rightarrow> string io" where
  "generateSchemaFromFile filePath apiKey onProgress = generateSchema filePath apiKey onProgress"

subsection \<open>informationExtractor.ts\<close>

text \<open>The module's own \<open>generateSchema\<close> (not exported), which \<open>extractInformation\<close> calls
  when no schema is given.\<close>

definition extractor_generateSchema :: "string \<Rightarrow> string \<Rightarrow> sink option \<Rightarrow> jsval io" where
  "extractor_generateSchema filePath apiKey onProgress =
     bindE (report onProgress 20 100) (\<lambda>_.
     let mimeType = getMimeType filePath in
     bindE (readFileAsBase64 filePath) (\<lambda>fileBase64.
     let requestData =
           JObj [(''model'', JStr ''information-extract''),
                 (''messages'', image_messages mimeType fileBase64)]
     in
     bindE (makeApiRequest SCHEMA_GENERATION apiKey (json_request requestData)
              (Some ''Schema generation'')) (\<lambda>result.
     bindE (report onProgress 40 100) (\<lambda>_.
     bindE (lift (no_choices result)) (\<lambda>none.
     if none then throw (Error ''Invalid response from schema generation API'')
     else
     bindE (lift (first_choice_content result)) (\<lambda>content.
     bindE (lift (JSON_parse (ToString content))) (\<lambda>schema.
     bindE (lift (getProp schema ''json_schema'')) (\<lambda>js.
     if \<not> truthy js then throw (Error ''Invalid schema format returned'')
     else
     bindE (getOutputDirectory ''information_extraction/schemas'') (\<lambda>schemaDir.
     bindE (ensureDirectoryExists schemaDir) (\<lambda>_.
     bindE (generateTimestampedFilename filePath ''schema'') (\<lambda>schemaFilename.
     let schemaPath = path_join [schemaDir, schemaFilename] in
     bindE (saveJsonToFile js schemaPath) (\<lambda>_.
     ret js))))))))))))"

text \<open>The schema source of \<open>extractInformation\<close>: the \<open>if (schemaJson) ... else if
  (schemaPath) ... else if (autoGenerateSchema) ...\<close> chain, which leaves \<open>schema\<close> at
  \<open>null\<close> when no branch is taken.\<close>

definition extractInformation ::
  "string \<Rightarrow> string \<Rightarrow> string option \<Rightarrow> string option \<Rightarrow> bool option \<Rightarrow> sink option \<Rightarrow> string io" where
  "extractInformation filePath apiKey schemaPath schemaJson autoGenerateSchemaOpt onProgress =
     (let autoGenerateSchema = (case autoGenerateSchemaOpt of None \<Rightarrow> True | Some b \<Rightarrow> b) in
     bindE (validateExtractionFile filePath) (\<lambda>_.
     bindE (report onProgress 10 100) (\<lambda>_.
     bindE
       (if present schemaJson then
          bindE (lift (case bindR (parseSchemaJson (case schemaJson of Some j \<Rightarrow> j | None \<Rightarrow> []))
                                  (\<lambda>parsed. getProp parsed ''json_schema'') of
                         Inl e \<Rightarrow> Inl (Error (''Invalid schema format: '' @ message e))
                       | Inr sch \<Rightarrow> Inr sch)) (\<lambda>sch.
          bindE (report onProgress 20 100) (\<lambda>_. ret sch))
        else if present schemaPath then
          bindE (readJsonFile (case schemaPath of Some p \<Rightarrow> p | None \<Rightarrow> [])) (\<lambda>sch.
          bindE (report onProgress 20 100) (\<lambda>_. ret sch))
        else if autoGenerateSchema then
          extractor_generateSchema filePath apiKey onProgress
        else ret JNull) (\<lambda>schema.
     if \<not> truthy schema then
       throw (Error ''No schema provided or generated. Please provide a schema or enable auto_generate_schema.'')
     else
     bindE (report onProgress 60 100) (\<lambda>_.
     let mimeType = getMimeType filePath in
     bindE (readFileAsBase64 filePath) (\<lambda>fileBase64.
     let requestData =
           JObj [(''model'', JStr ''information-extract''),
                 (''messages'', image_messages mimeType fileBase64),
                 (''response_format'',
                  JObj [(''type'', JStr ''json_schema''), (''json_schema'', schema)])]
     in
     bindE (makeApiRequest INFORMATION_EXTRACTION apiKey (json_request requestData)
              (Some ''Information extraction'')) (\<lambda>result.
     bindE (lift (no_choices result)) (\<lambda>none.
     if none then throw (Error ''Invalid response from information extraction API'')
     else
     bindE (lift (first_choice_content result)) (\<lambda>content.
     bindE (lift (JSON_parse (ToString content))) (\<lambda>extractedData.
     bindE (report onProgress 90 100) (\<lambda>_.
     bindE (getOutputDirectory ''information_extraction'') (\<lambda>outputDir.
     bindE (ensureDirectoryExists outputDir) (\<lambda>_.
     bindE (generateTimestampedFilename filePath ''extraction'') (\<lambda>outputFilename.
     let outputPath = path_join [outputDir, outputFilename];
         response =
           JObj [(''extracted_data'', extractedData),
                 (''metadata'',
                  JObj [(''file'', JStr (basename filePath)),
                        (''result_saved_to'', JStr outputPath),
                        (''schema_used'',
                         JStr (if present schemaPath
                               then (case schemaPath of Some p \<Rightarrow> p | None \<Rightarrow> [])
                               else ''auto-generated''))])]
     in
     bindE (saveJsonToFile response outputPath) (\<lambda>_.
     bindE (report onProgress 100 100) (\<lambda>_.
     ret (stringify_indent_text response)))))))))))))))))"

definition extractInformationFromFile ::
  "string \<Rightarrow> string \<Rightarrow> string option \<Rightarrow> string option \<Rightarrow> bool option \<Rightarrow> sink option \<Rightarrow> string io" where
  "extractInformationFromFile filePath apiKey schemaPath schemaJson autoGenerateSchema onProgress =
     extractInformation filePath apiKey schemaPath schemaJson autoGenerateSchema onProgress"

subsection \<open>documentClassifier.ts\<close>

definition DEFAULT_CLASSIFICATION_SCHEMA :: jsval where
  "DEFAULT_CLASSIFICATION_SCHEMA =
     JObj [(''type'', JStr ''json_schema''),
           (''json_schema'',
            JObj [(''name'', JStr ''document-classify''),
                  (''schema'',
                   JObj [(''type'', JStr ''string''),
                         (''oneOf'',
                          JArr [JObj [(''const'', JStr ''invoice''), (''description'', JStr ''Commercial invoice with itemized charges and billing information'')],
                                JObj [(''const'', JStr ''receipt''), (''description'', JStr ''Receipt showing purchase transaction details'')],
                                JObj [(''const'', JStr ''contract''), (''description'', JStr ''Legal agreement or contract document'')],
                                JObj [(''const'', JStr ''cv''), (''description'', JStr ''Curriculum vitae or resume'')],
                                JObj [(''const'', JStr ''bank_statement''), (''description'', JStr ''Bank account statement showing transactions'')],
                                JObj [(''const'', JStr ''tax_document''), (''description'', JStr ''Tax forms or tax-related documents'')],
                                JObj [(''const'', JStr ''insurance''), (''description'', JStr ''Insurance policy or claims document'')],
                                JObj [(''const'', JStr ''business_card''), (''description'', JStr ''Business card with contact information'')],
                                JObj [(''const'', JStr ''letter''), (''description'', JStr ''Formal or business letter'')],
                                JObj [(''const'', JStr ''form''), (''description'', JStr ''Application form or survey form'')],
                                JObj [(''const'', JStr ''certificate''), (''description'', JStr ''Certificate or diploma'')],
                                JObj [(''const'', JStr ''report''), (''description'', JStr ''Business report or analytical document'')],
                                JObj [(''const'', JStr ''others''), (''description'', JStr ''Other document types not listed above'')]])])])]"

definition classifyDocument ::
  "string \<Rightarrow> string \<Rightarrow> string option \<Rightarrow> string option \<Rightarrow> sink option \<Rightarrow> string io" where
  "classifyDocument filePath apiKey schemaPath schemaJson onProgress =
     bindE (validateExtractionFile filePath) (\<lambda>_.
     bindE (report onProgress 10 100) (\<lambda>_.
     bindE
       (if present schemaJson then
          bindE (lift (case bindR (parseSchemaJson (case schemaJson of Some j \<Rightarrow> j | None \<Rightarrow> []))
                                  (\<lambda>parsedSchema. bindR (getProp parsedSchema ''json_schema'') (\<lambda>js.
                                     Inr (JObj [(''type'', JStr ''json_schema''), (''json_schema'', js)]))) of
                         Inl e \<Rightarrow> Inl (Error (''Invalid classification schema format: '' @ message e))
                       | Inr rf \<Rightarrow> Inr rf)) (\<lambda>rf.
          bindE (report onProgress 20 100) (\<lambda>_. ret rf))
        else if present schemaPath then
          bindE (readJsonFile (case schemaPath of Some p \<Rightarrow> p | None \<Rightarrow> [])) (\<lambda>loadedSchema.
          bindE (lift (bindR (getProp loadedSchema ''type'') (\<lambda>ty.
                       if ty = JStr ''json_schema'' then
                         bindR (getProp loadedSchema ''json_schema'') (\<lambda>js.
                           if truthy js then Inr loadedSchema
                           else Inr (JObj [(''type'', JStr ''json_schema''), (''json_schema'', loadedSchema)]))
                       else Inr (JObj [(''type'', JStr ''json_schema''), (''json_schema'', loadedSchema)])))) (\<lambda>rf.
          bindE (report onProgress 20 100) (\<lambda>_. ret rf)))
        else
          bindE (lift (getProp DEFAULT_CLASSIFICATION_SCHEMA ''json_schema'')) (\<lambda>js.
            ret (JObj [(''type'', JStr ''json_schema''), (''json_schema'', js)]))) (\<lambda>responseFormat.
     let mimeType = getMimeType filePath in
     bindE (readFileAsBase64 filePath) (\<lambda>fileBase64.
     bindE (report onProgress 40 100) (\<lambda>_.
     let requestData =
           JObj [(''model'', JStr ''document-classify''),
                 (''messages'', image_messages mimeType fileBase64),
                 (''response_format'', responseFormat)]
     in
     bindE (report onProgress 60 100) (\<lambda>_.
     bindE (makeApiRequest DOCUMENT_CLASSIFICATION apiKey (json_request requestData)
              (Some ''Document classification'')) (\<lambda>result.
     bindE (lift (no_choices result)) (\<lambda>none.
     if none then throw (Error ''Invalid response from document classification API'')
     else
     bindE (lift (first_choice_content result)) (\<lambda>classificationResult.
     bindE (report onProgress 90 100) (\<lambda>_.
     bindE (getOutputDirectory ''document_classification'') (\<lambda>outputDir.
     bindE (ensureDirectoryExists outputDir) (\<lambda>_.
     bindE (generateTimestampedFilename filePath ''classification'') (\<lambda>outputFilename.
     let outputPath = path_join [outputDir, outputFilename];
         schema_used =
           JStr (if present schemaPath then (case schemaPath of Some p \<Rightarrow> p | None \<Rightarrow> [])
                 else if present schemaJson then ''custom'' else ''default'');
         response =
           JObj [(''classification'', classificationResult),
                 (''metadata'',
                  JObj [(''file'', JStr (basename filePath)),
                        (''result_saved_to'', JStr outputPath),
                        (''schema_used'', schema_used),
                        (''api_response'', result)])]
     in
     bindE (saveJsonToFile response outputPath) (\<lambda>_.
     bindE (report onProgress 100 100) (\<lambda>_.
     ret (stringify_indent_text
            (JObj [(''classification'', classificationResult),
                   (''metadata'',
                    JObj [(''file'', JStr (basename filePath)),
                          (''result_saved_to'', JStr outputPath),
                          (''schema_used'', schema_used)])])))))))))))))))))"

definition classifyDocumentFromFile ::
  "string \<Rightarrow> string \<Rightarrow> string option \<Rightarrow> string option \<Rightarrow> sink option \<Rightarrow> string io" where
  "classifyDocumentFromFile filePath apiKey schemaPath schemaJson onProgress =
     classifyDocument filePath apiKey schemaPath schemaJson onProgress"

section \<open>server.ts: the stdio transport\<close>

text \<open>
  The argument schemas (zod). \<open>z.object\<close> accepts an object and drops unknown keys;
  \<open>z.string()\<close> a string; \<open>.optional()\<close> also \<open>undefined\<close>; \<open>.default(true)\<close> replaces
  \<open>undefined\<close>. The message of a \<open>ZodError\<close> (a list of issues) is reduced to the name of
  the offending argument.
\<close>

definition z_object :: "jsval \<Rightarrow> error + (string \<times> jsval) list" where
  "z_object v = (case v of JObj kvs \<Rightarrow> Inr kvs | _ \<Rightarrow> Inl (ZodError ''arguments''))"

definition z_field :: "(string \<times> jsval) list \<Rightarrow> string \<Rightarrow> jsval" where
  "z_field kvs k = (case map_of kvs k of None \<Rightarrow> JUndefined | Some v \<Rightarrow> v)"

definition z_string :: "string \<Rightarrow> jsval \<Rightarrow> error + string" where
  "z_string k v = (case v of JStr t \<Rightarrow> Inr t | _ \<Rightarrow> Inl (ZodError k))"

definition z_string_optional :: "string \<Rightarrow> jsval \<Rightarrow> error + string option" where
  "z_string_optional k v =
     (case v of JUndefined \<Rightarrow> Inr None | JStr t \<Rightarrow> Inr (Some t) | _ \<Rightarrow> Inl (ZodError k))"

fun z_strings :: "string \<Rightarrow> jsval list \<Rightarrow> error + string list" where
  "z_strings k [] = Inr []"
| "z_strings k (JStr t # vs) = bindR (z_strings k vs) (\<lambda>ts. Inr (t # ts))"
| "z_strings k (v # vs) = Inl (ZodError k)"

definition z_string_array_optional :: "string \<Rightarrow> jsval \<Rightarrow> error + string list option" where
  "z_string_array_optional k v =
     (case v of
        JUndefined \<Rightarrow> Inr None
      | JArr xs \<Rightarrow> bindR (z_strings k xs) (\<lambda>ts. Inr (Some ts))
      | _ \<Rightarrow> Inl (ZodError k))"

definition z_boolean_default :: "string \<Rightarrow> bool \<Rightarrow> jsval \<Rightarrow> error + bool" where
  "z_boolean_default k d v =
     (case v of JUndefined \<Rightarrow> Inr d | JBool b \<Rightarrow> Inr b | _ \<Rightarrow> Inl (ZodError k))"

definition ParseDocumentSchema :: "jsval \<Rightarrow> error + (string \<times> string list option)" where
  "ParseDocumentSchema args =
     bindR (z_object args) (\<lambda>kvs.
     bindR (z_string ''file_path'' (z_field kvs ''file_path'')) (\<lambda>file_path.
     bindR (z_string_array_optional ''output_formats'' (z_field kvs ''output_formats'')) (\<lambda>output_formats.
     Inr (file_path, output_formats))))"

definition ExtractInformationSchema ::
  "jsval \<Rightarrow> error + (string \<times> string option \<times> string option \<times> bool)" where
  "ExtractInformationSchema args =
     bindR (z_object args) (\<lambda>kvs.
     bindR (z_string ''file_path'' (z_field kvs ''file_path'')) (\<lambda>file_path.
     bindR (z_string_optional ''schema_path'' (z_field kvs ''schema_path'')) (\<lambda>schema_path.
     bindR (z_string_optional ''schema_json'' (z_field kvs ''schema_json'')) (\<lambda>schema_json.
     bindR (z_boolean_default ''auto_generate_schema'' True (z_field kvs ''auto_generate_schema''))
       (\<lambda>auto_generate_schema.
     Inr (file_path, schema_path, schema_json, auto_generate_schema))))))"

definition GenerateSchemaSchema :: "jsval \<Rightarrow> error + string" where
  "GenerateSchemaSchema args =
     bindR (z_object args) (\<lambda>kvs. z_string ''file_path'' (z_field kvs ''file_path''))"

definition ClassifyDocumentSchema :: "jsval \<Rightarrow> error + (string \<times> string option \<times> string option)" where
  "ClassifyDocumentSchema args =
     bindR (z_object args) (\<lambda>kvs.
     bindR (z_string ''file_path'' (z_field kvs ''file_path'')) (\<lambda>file_path.
     bindR (z_string_optional ''schema_path'' (z_field kvs ''schema_path'')) (\<lambda>schema_path.
     bindR (z_string_optional ''schema_json'' (z_field kvs ''schema_json'')) (\<lambda>schema_json.
     Inr (file_path, schema_path, schema_json)))))"

text \<open>The tool descriptors of the stdio server.\<close>

definition parse_document_description :: string where
  \<open>parse_document_description =
''Parse a document using Upstage AI's document digitization API.
    
This tool extracts the structure and content from various document types,
including PDFs, images, and Office files. It preserves the original formatting
and layout while converting the document into a structured format.

Supported file formats include: PDF, JPEG, PNG, TIFF, and other common document formats.''\<close>

definition extract_information_description :: string where
  \<open>extract_information_description =
''Extract structured information from documents using Upstage Universal Information Extraction.
    
This tool can extract key information from any document type without pre-training.
You can either provide a schema defining what information to extract, or let the system
automatically generate an appropriate schema based on the document content.

Supported file formats: JPEG, PNG, BMP, PDF, TIFF, HEIC, DOCX, PPTX, XLSX
Max file size: 50MB
Max pages: 100

SCHEMA FORMAT: When auto_generate_schema is false, provide schema in this exact format:
{
  "type": "json_schema",
  "json_schema": {
    "name": "document_schema",
    "schema": {
      "type": "object", 
      "properties": {
        "field_name": {
          "type": "string|number|array|object",
          "description": "What to extract"
        }
      }
    }
  }
}

Example schema_json:
{"type":"json_schema","json_schema":{"name":"document_schema","schema":{"type":"object","properties":{"company_name":{"type":"string","description":"Company name"},"invoice_number":{"type":"string","description":"Invoice number"},"total_amount":{"type":"number","description":"Total amount"}}}}}''\<close>

definition generate_schema_description :: string where
  \<open>generate_schema_description =
''Generate an extraction schema for a document using Upstage AI's schema generation API.

This tool analyzes a document and automatically generates a JSON schema that defines the structure 
and fields that can be extracted from similar documents. The generated schema can then be used 
with the extract_information tool when auto_generate_schema is set to false.

This is useful when you want to:
- Create a reusable schema for multiple similar documents
- Have more control over the extraction fields
- Ensure consistent field naming and structure across extractions

Supported file formats: JPEG, PNG, BMP, PDF, TIFF, HEIC, DOCX, PPTX, XLSX
Max file size: 50MB
Max pages: 100

The tool returns both a readable schema object and a schema_json string that can be directly 
copied and used with the extract_information tool.''\<close>

definition classify_document_description :: string where
  \<open>classify_document_description =
''Classify a document into predefined categories using Upstage AI's document classification API.

This tool analyzes a document and classifies it into one of several predefined categories such as 
invoice, receipt, contract, CV, bank statement, and others. You can use the default classification 
schema or provide your own custom classification categories.

Supported file formats: JPEG, PNG, BMP, PDF, TIFF, HEIC, DOCX, PPTX, XLSX
Max file size: 50MB
Max pages: 100

DEFAULT CATEGORIES:
- invoice: Commercial invoice with itemized charges and billing information
- receipt: Receipt showing purchase transaction details  
- contract: Legal agreement or contract document
- cv: Curriculum vitae or resume
- bank_statement: Bank account statement showing transactions
- tax_document: Tax forms or tax-related documents
- insurance: Insurance policy or claims document
- business_card: Business card with contact information
- letter: Formal or business letter
- form: Application form or survey form
- certificate: Certificate or diploma
- report: Business report or analytical document
- others: Other document types not listed above

CUSTOM SCHEMA FORMAT: For custom classification, provide schema in this exact format:
{
  "type": "json_schema",
  "json_schema": {
    "name": "document-classify",
    "schema": {
      "type": "string",
      "oneOf": [
        {"const": "category1", "description": "Description of category 1"},
        {"const": "category2", "description": "Description of category 2"},
        {"const": "others", "description": "Other"}
      ]
    }
  }
}

Example custom schema_json:
{"type":"json_schema","json_schema":{"name":"document-classify","schema":{"type":"string","oneOf":[{"const":"medical","description":"Medical records or health documents"},{"const":"legal","description":"Legal documents"},{"const":"financial","description":"Financial statements or reports"},{"const":"others","description":"Other"}]}}}''\<close>

definition tools :: "jsval list" where
  "tools =
     [JObj [(''name'', JStr ''parse_document''),
            (''description'', JStr parse_document_description),
            (''inputSchema'',
             JObj [(''type'', JStr ''object''),
                   (''properties'',
                    JObj [(''file_path'', JObj [(''type'', JStr ''string'')]),
                          (''output_formats'',
                           JObj [(''type'', JStr ''array''),
                                 (''items'', JObj [(''type'', JStr ''string'')])])]),
                   (''required'', JArr [JStr ''file_path''])])],
      JObj [(''name'', JStr ''extract_information''),
            (''description'', JStr extract_information_description),
            (''inputSchema'',
             JObj [(''type'', JStr ''object''),
                   (''properties'',
                    JObj [(''file_path'', JObj [(''type'', JStr ''string'')]),
                          (''schema_path'', JObj [(''type'', JStr ''string'')]),
                          (''schema_json'', JObj [(''type'', JStr ''string'')]),
                          (''auto_generate_schema'',
                           JObj [(''type'', JStr ''boolean''), (''default'', JBool True)])]),
                   (''required'', JArr [JStr ''file_path''])])],
      JObj [(''name'', JStr ''generate_schema''),
            (''description'', JStr generate_schema_description),
            (''inputSchema'',
             JObj [(''type'', JStr ''object''),
                   (''properties'',
                    JObj [(''file_path'', JObj [(''type'', JStr ''string'')])]),
                   (''required'', JArr [JStr ''file_path''])])],
      JObj [(''name'', JStr ''classify_document''),
            (''description'', JStr classify_document_description),
            (''inputSchema'',
             JObj [(''type'', JStr ''object''),
                   (''properties'',
                    JObj [(''file_path'', JObj [(''type'', JStr ''string'')]),
                          (''schema_path'', JObj [(''type'', JStr ''string'')]),
                          (''schema_json'', JObj [(''type'', JStr ''string'')])]),
                   (''required'', JArr [JStr ''file_path''])])]]"

text \<open>The progress sink the server hands to every handler: it starts
  \<open>server.notification\<close> without awaiting it, so it always resolves. The notification
  itself is not modelled.\<close>

definition server_sink :: sink where
  "server_sink = (\<lambda>progress total. None)"

definition text_content :: "string \<Rightarrow> jsval" where
  "text_content t = JArr [JObj [(''type'', JStr ''text''), (''text'', JStr t)]]"

text \<open>The handler registered for \<open>ListToolsRequestSchema\<close> (method \<open>tools/list\<close>).\<close>

definition listToolsHandler :: "jsval \<Rightarrow> jsval io" where
  "listToolsHandler request = ret (JObj [(''tools'', JArr tools)])"

text \<open>The handler registered for \<open>CallToolRequestSchema\<close> (method \<open>tools/call\<close>): it
  routes on the tool name and turns every failure into a result with \<open>isError\<close>.\<close>

definition route_tool :: "string \<Rightarrow> string \<Rightarrow> jsval \<Rightarrow> jsval io" where
  "route_tool API_KEY name args =
     (if name = ''parse_document'' then
        bindE (lift (ParseDocumentSchema args)) (\<lambda>(file_path, output_formats).
        bindE (parseAndSaveDocument file_path API_KEY output_formats (Some server_sink)) (\<lambda>result.
        ret (JObj [(''content'', text_content result)])))
      else if name = ''extract_information'' then
        bindE (lift (ExtractInformationSchema args))
          (\<lambda>(file_path, schema_path, schema_json, auto_generate_schema).
        bindE (extractInformationFromFile file_path API_KEY schema_path schema_json
                 (Some auto_generate_schema) (Some server_sink)) (\<lambda>result.
        ret (JObj [(''content'', text_content result)])))
      else if name = ''generate_schema'' then
        bindE (lift (GenerateSchemaSchema args)) (\<lambda>file_path.
        bindE (generateSchemaFromFile file_path API_KEY (Some server_sink)) (\<lambda>result.
        ret (JObj [(''content'', text_content result)])))
      else if name = ''classify_document'' then
        bindE (lift (ClassifyDocumentSchema args)) (\<lambda>(file_path, schema_path, schema_json).
        bindE (classifyDocumentFromFile file_path API_KEY schema_path schema_json
                 (Some server_sink)) (\<lambda>result.
        ret (JObj [(''content'', text_content result)])))
      else throw (Error (''Unknown tool: '' @ name)))"

definition callToolHandler :: "string \<Rightarrow> jsval \<Rightarrow> jsval io" where
  "callToolHandler API_KEY request =
     bindE (lift (bindR (getProp request ''params'') (\<lambda>params.
                  bindR (getProp params ''name'') (\<lambda>name.
                  bindR (getProp params ''arguments'') (\<lambda>args. Inr (ToString name, args))))))
       (\<lambda>(name, args).
          catchE (route_tool API_KEY name args)
            (\<lambda>e. ret (JObj [(''content'', text_content (''Error: '' @ message e)),
                             (''isError'', JBool True)])))"

text \<open>The routing table that \<open>createServer\<close> fills with \<open>server.setRequestHandler\<close>: the
  method of a JSON-RPC request selects the handler.\<close>

definition requestHandlers :: "string \<Rightarrow> string \<Rightarrow> (jsval \<Rightarrow> jsval io) option" where
  "requestHandlers API_KEY method =
     (if method = ''tools/list'' then Some listToolsHandler
      else if method = ''tools/call'' then Some (callToolHandler API_KEY)
      else None)"

section \<open>httpServer.ts: the HTTP transport\<close>

text \<open>What the \<open>POST /mcp\<close> route reads of a request: the \<open>Accept\<close> and \<open>Mcp-Session-Id\<close>
  headers and the body as \<open>express.json()\<close> parsed it (\<open>undefined\<close> without one); and the
  response it sends, whose body goes out as \<open>JSON.stringify\<close> prints it.\<close>

record http_request =
  hq_accept :: "string option"
  hq_session :: "string option"
  hq_body :: jsval

record http_response =
  hs_status :: nat
  hs_headers :: "(string \<times> string) list"
  hs_body :: jsval

definition http_tools :: "jsval list" where
  "http_tools =
     [JObj [(''name'', JStr ''parse_document''),
            (''description'',
             JStr (''Parse a document using Upstage AI'' @ [CHR 0x27] @ ''s document digitization API.'')),
            (''inputSchema'',
             JObj [(''type'', JStr ''object''),
                   (''properties'',
                    JObj [(''file_path'', JObj [(''type'', JStr ''string'')]),
                          (''output_formats'',
                           JObj [(''type'', JStr ''array''),
                                 (''items'', JObj [(''type'', JStr ''string'')])])]),
                   (''required'', JArr [JStr ''file_path''])])],
      JObj [(''name'', JStr ''extract_information''),
            (''description'',
             JStr ''Extract structured information from documents using Upstage Universal Information Extraction.''),
            (''inputSchema'',
             JObj [(''type'', JStr ''object''),
                   (''properties'',
                    JObj [(''file_path'', JObj [(''type'', JStr ''string'')]),
                          (''schema_path'', JObj [(''type'', JStr ''string'')]),
                          (''schema_json'', JObj [(''type'', JStr ''string'')]),
                          (''auto_generate_schema'',
                           JObj [(''type'', JStr ''boolean''), (''default'', JBool True)])]),
                   (''required'', JArr [JStr ''file_path''])])]]"

text \<open>The route handler of \<open>POST /mcp\<close>. Nothing inside its \<open>try\<close> block throws on these
  inputs, so the \<open>catch\<close> branch (status 500, code -32603) is never taken.\<close>

definition post_mcp :: "http_request \<Rightarrow> http_response" where
  "post_mcp req =
     (let acceptHeader = hq_accept req in
      if \<not> present acceptHeader \<or>
         (\<not> str_includes (case acceptHeader of Some a \<Rightarrow> a | None \<Rightarrow> []) ''application/json'' \<and>
          \<not> str_includes (case acceptHeader of Some a \<Rightarrow> a | None \<Rightarrow> []) ''text/event-stream'')
      then
        \<lparr>hs_status = 400,
         hs_headers = [],
         hs_body = JObj [(''error'',
                          JStr ''Invalid Accept header. Must include application/json or text/event-stream'')]\<rparr>
      else
        (let sessionId = hq_session req;
             headers = [(''Content-Type'', ''application/json'')]
                       @ (if present sessionId
                          then [(''Mcp-Session-Id'', (case sessionId of Some i \<Rightarrow> i | None \<Rightarrow> []))]
                          else []);
             jsonRpcRequest = hq_body req
         in if \<not> truthy jsonRpcRequest \<or> typeof jsonRpcRequest \<noteq> ''object'' then
              \<lparr>hs_status = 400,
               hs_headers = headers,
               hs_body = JObj [(''jsonrpc'', JStr ''2.0''),
                               (''error'', JObj [(''code'', JNum (- 32600)),
                                                 (''message'', JStr ''Invalid Request'')]),
                               (''id'', JNull)]\<rparr>
            else if getPropOpt jsonRpcRequest ''method'' = JStr ''tools/list'' then
              \<lparr>hs_status = 200,
               hs_headers = headers,
               hs_body = JObj [(''jsonrpc'', JStr ''2.0''),
                               (''result'', JObj [(''tools'', JArr http_tools)]),
                               (''id'', getPropOpt jsonRpcRequest ''id'')]\<rparr>
            else
              \<lparr>hs_status = 200,
               hs_headers = headers,
               hs_body = JObj [(''jsonrpc'', JStr ''2.0''),
                               (''error'', JObj [(''code'', JNum (- 32601)),
                                                 (''message'', JStr ''Method not found'')]),
                               (''id'', getPropOpt jsonRpcRequest ''id'')]\<rparr>))"

section \<open>Vocabulary of the statements and an example world\<close>

text \<open>The error of \<open>validateFileExtension\<close> for a path and an allow-list.\<close>

definition unsupported_format :: "string \<Rightarrow> string list \<Rightarrow> error" where
  "unsupported_format filePath allowed =
     Error (''Unsupported file format: '' @ toLowerCase (extname filePath)
            @ ''. Supported formats: '' @ join '', '' allowed)"

text \<open>A value the validators take for an object: truthy and of type \<open>object\<close>, that
  is, an object or an array.\<close>

definition is_object :: "jsval \<Rightarrow> bool" where
  "is_object v = (truthy v \<and> typeof v = ''object'')"

text \<open>The shape \<open>validateSchemaFormat\<close> accepts, read off a candidate: an object with
  \<open>type = "json_schema"\<close>, whose \<open>json_schema\<close> is an object with a non-empty string
  \<open>name\<close> and an object \<open>schema\<close>, whose \<open>type\<close> is \<open>"object"\<close> and whose
  \<open>properties\<close> is an object or an array, empty or not.\<close>

definition accepted_shape :: "jsval \<Rightarrow> bool" where
  "accepted_shape s =
     (case s of
        JObj kvs \<Rightarrow>
          map_of kvs ''type'' = Some (JStr ''json_schema'') \<and>
          (case map_of kvs ''json_schema'' of
             Some (JObj js) \<Rightarrow>
               (case map_of js ''name'' of Some (JStr n) \<Rightarrow> n \<noteq> [] | _ \<Rightarrow> False) \<and>
               (case map_of js ''schema'' of
                  Some (JObj sch) \<Rightarrow>
                    map_of sch ''type'' = Some (JStr ''object'') \<and>
                    (case map_of sch ''properties'' of
                       Some (JObj props) \<Rightarrow> True
                     | Some (JArr props) \<Rightarrow> True
                     | _ \<Rightarrow> False)
                | _ \<Rightarrow> False)
           | _ \<Rightarrow> False)
      | _ \<Rightarrow> False)"

text \<open>The \<open>name\<close> of each descriptor of a tool list.\<close>

definition tool_names :: "jsval list \<Rightarrow> jsval list" where
  "tool_names ts = map (\<lambda>t. getPropOpt t ''name'') ts"

text \<open>A \<open>POST /mcp\<close> request with an \<open>Accept\<close> header the route takes.\<close>

definition accept_ok :: "http_request \<Rightarrow> bool" where
  "accept_ok req =
     (case hq_accept req of
        None \<Rightarrow> False
      | Some a \<Rightarrow> a \<noteq> [] \<and> (str_includes a ''application/json'' \<or> str_includes a ''text/event-stream''))"

text \<open>The JSON-RPC error bodies of the HTTP transport.\<close>

definition rpc_error :: "int \<Rightarrow> string \<Rightarrow> jsval \<Rightarrow> jsval" where
  "rpc_error code msg ident =
     JObj [(''jsonrpc'', JStr ''2.0''),
           (''error'', JObj [(''code'', JNum code), (''message'', JStr msg)]),
           (''id'', ident)]"

text \<open>Example requests: a \<open>tools/call\<close> of a known tool, a \<open>tools/list\<close>, and a body
  without the \<open>jsonrpc\<close> and \<open>method\<close> members.\<close>

definition demo_tools_call :: http_request where
  "demo_tools_call =
     \<lparr>hq_accept = Some ''application/json'',
      hq_session = None,
      hq_body = JObj [(''jsonrpc'', JStr ''2.0''),
                      (''id'', JNum 1),
                      (''method'', JStr ''tools/call''),
                      (''params'',
                       JObj [(''name'', JStr ''parse_document''),
                             (''arguments'', JObj [(''file_path'', JStr ''/docs/a.pdf'')])])]\<rparr>"

definition demo_tools_list :: http_request where
  "demo_tools_list =
     \<lparr>hq_accept = Some ''application/json, text/event-stream'',
      hq_session = None,
      hq_body = JObj [(''jsonrpc'', JStr ''2.0''),
                      (''id'', JNum 2),
                      (''method'', JStr ''tools/list'')]\<rparr>"

definition demo_no_envelope :: http_request where
  "demo_no_envelope =
     \<lparr>hq_accept = Some ''application/json'',
      hq_session = None,
      hq_body = JObj [(''hello'', JStr ''world'')]\<rparr>"

definition demo_unknown_method :: http_request where
  "demo_unknown_method =
     \<lparr>hq_accept = Some ''application/json'',
      hq_session = None,
      hq_body = JObj [(''jsonrpc'', JStr ''2.0''),
                      (''id'', JNum 3),
                      (''method'', JStr ''nonexistent/thing'')]\<rparr>"

text \<open>Outcomes of an attempt that \<open>makeRequest\<close> retries, and the error it records for
  a failed attempt: for an \<open>AxiosError\<close> the operation name and
  \<open>error.response?.data?.message || error.message\<close>, otherwise the error itself.\<close>

definition retryable :: "outcome \<Rightarrow> bool" where
  "retryable out =
     (case out of
        Responded d \<Rightarrow> False
      | AxiosError status d msg \<Rightarrow> \<not> is_client_error status
      | Failed err \<Rightarrow> True)"

definition attempt_error :: "string \<Rightarrow> outcome \<Rightarrow> error" where
  "attempt_error operation out =
     (case out of
        Responded d \<Rightarrow> Error operation
      | AxiosError status d msg \<Rightarrow>
          Error (operation @ '' failed: '' @ ToString (js_or (getPropOpt d ''message'') (JStr msg)))
      | Failed err \<Rightarrow> err)"

definition operation_name :: "string option \<Rightarrow> string" where
  "operation_name operation = (case operation of None \<Rightarrow> ''API request'' | Some s \<Rightarrow> s)"

text \<open>A simulated endpoint: the remote API answers the requests in turn from a script.\<close>

definition scripted_world :: "outcome list \<Rightarrow> world" where
  "scripted_world script =
     \<lparr>files = (\<lambda>p. None),
      homedir = ''/home/u'',
      now = ''2024-01-02T03:04:05.678Z'',
      remote = (\<lambda>n r. if n < length script then script ! n
                        else Failed (Error ''connect ECONNREFUSED'')),
      requests = [],
      delays = []\<rparr>"

definition status_500 :: outcome where
  "status_500 =
     AxiosError (Some 500) (JObj [(''message'', JStr ''server busy'')])
       ''Request failed with status code 500''"

definition status_429 :: outcome where
  "status_429 =
     AxiosError (Some 429) (JObj [(''message'', JStr ''rate limited'')])
       ''Request failed with status code 429''"

definition status_404 :: outcome where
  "status_404 =
     AxiosError (Some 404) (JObj [(''message'', JStr ''no such endpoint'')])
       ''Request failed with status code 404''"

text \<open>The requests of \<open>extractInformation\<close>: the extraction request for a file and a
  schema, and the schema-generation request for a file.\<close>

definition extraction_request :: "string \<Rightarrow> string \<Rightarrow> string \<Rightarrow> jsval \<Rightarrow> request" where
  "extraction_request apiKey filePath bytes schema =
     build_request apiKey INFORMATION_EXTRACTION
       (json_request
          (JObj [(''model'', JStr ''information-extract''),
                 (''messages'', image_messages (getMimeType filePath) (base64 bytes)),
                 (''response_format'',
                  JObj [(''type'', JStr ''json_schema''), (''json_schema'', schema)])]))"

definition schema_generation_request :: "string \<Rightarrow> string \<Rightarrow> string \<Rightarrow> request" where
  "schema_generation_request apiKey filePath bytes =
     build_request apiKey SCHEMA_GENERATION
       (json_request
          (JObj [(''model'', JStr ''information-extract''),
                 (''messages'', image_messages (getMimeType filePath) (base64 bytes))]))"

text \<open>Where \<open>extractInformation\<close> saves a schema that it had generated.\<close>

definition schemas_directory :: "world \<Rightarrow> string" where
  "schemas_directory w =
     path_join [homedir w, ''.mcp-upstage'', ''outputs'', ''information_extraction/schemas'']"

definition generated_schema_path :: "world \<Rightarrow> string \<Rightarrow> string" where
  "generated_schema_path w filePath =
     path_join [schemas_directory w,
                basename_ext filePath (extname filePath) @ ''_'' @ timestamp_of (now w)
                @ ''_schema.json'']"

definition no_schema_error :: error where
  "no_schema_error =
     Error ''No schema provided or generated. Please provide a schema or enable auto_generate_schema.''"

text \<open>The documents of a classification: the one \<open>classifyDocument\<close> returns as text,
  and the one it saves, which has the raw API response under \<open>metadata.api_response\<close> in
  addition. \<open>schema_used\<close> names the source of the schema.\<close>

definition schema_used :: "string option \<Rightarrow> string option \<Rightarrow> string" where
  "schema_used schemaPath schemaJson =
     (if present schemaPath then (case schemaPath of Some p \<Rightarrow> p | None \<Rightarrow> [])
      else if present schemaJson then ''custom'' else ''default'')"

definition returned_classification :: "jsval \<Rightarrow> string \<Rightarrow> string \<Rightarrow> string \<Rightarrow> jsval" where
  "returned_classification label file outputPath used =
     JObj [(''classification'', label),
           (''metadata'',
            JObj [(''file'', JStr file),
                  (''result_saved_to'', JStr outputPath),
                  (''schema_used'', JStr used)])]"

definition saved_classification :: "jsval \<Rightarrow> string \<Rightarrow> string \<Rightarrow> string \<Rightarrow> jsval \<Rightarrow> jsval" where
  "saved_classification label file outputPath used api_response =
     JObj [(''classification'', label),
           (''metadata'',
            JObj [(''file'', JStr file),
                  (''result_saved_to'', JStr outputPath),
                  (''schema_used'', JStr used),
                  (''api_response'', api_response)])]"

text \<open>\<open>document.metadata[key]\<close>.\<close>

definition metadata_field :: "jsval \<Rightarrow> string \<Rightarrow> error + jsval" where
  "metadata_field document key = bindR (getProp document ''metadata'') (\<lambda>m. getProp m key)"

definition classification_path :: "world \<Rightarrow> string \<Rightarrow> string" where
  "classification_path w filePath =
     path_join [path_join [homedir w, ''.mcp-upstage'', ''outputs'', ''document_classification''],
                basename_ext filePath (extname filePath) @ ''_'' @ timestamp_of (now w)
                @ ''_classification.json'']"

text \<open>A progress sink that is absent or resolves at every call.\<close>

definition quiet :: "sink option \<Rightarrow> bool" where
  "quiet onProgress = (case onProgress of None \<Rightarrow> True | Some f \<Rightarrow> (\<forall>p t. f p t = None))"

text \<open>An action that sends no request, and one that only adds to the log of requests.\<close>

definition keeps_requests :: "'a io \<Rightarrow> bool" where
  "keeps_requests m = (\<forall>w. requests (snd (m w)) = requests w)"

definition grows_requests :: "'a io \<Rightarrow> bool" where
  "grows_requests m = (\<forall>w. \<exists>rest. requests (snd (m w)) = requests w @ rest)"

text \<open>An example: a remote API that answers every endpoint with a well-formed response,
  a file system with a PDF, a text file and a directory, and two progress sinks.\<close>

definition demo_remote :: "nat \<Rightarrow> request \<Rightarrow> outcome" where
  \<open>demo_remote n r =
     (if req_url r = DOCUMENT_DIGITIZATION then
        Responded (JObj [(''content'', JObj [(''html'', JStr ''<p>Hello</p>'')]),
                         (''model'', JStr ''document-parse'')])
      else if req_url r = DOCUMENT_CLASSIFICATION then
        Responded (JObj [(''choices'',
                          JArr [JObj [(''message'', JObj [(''content'', JStr ''invoice'')])]])])
      else if req_url r = SCHEMA_GENERATION then
        Responded (JObj [(''choices'',
                          JArr [JObj [(''message'',
                                      JObj [(''content'',
                                             JStr ''{"json_schema":{"name":"s","schema":{"type":"object","properties":{"total":{"type":"number"}}}}}'')])]])])
      else
        Responded (JObj [(''choices'',
                          JArr [JObj [(''message'', JObj [(''content'', JStr ''{"total":5}'')])]])]))\<close>

definition demo_world :: world where
  "demo_world =
     \<lparr>files = [''/docs/a.pdf'' \<mapsto> RegularFile 4 ''%PDF'',
               ''/docs/notes.txt'' \<mapsto> RegularFile 2 ''hi'',
               ''/docs'' \<mapsto> Directory],
      homedir = ''/home/u'',
      now = ''2024-01-02T03:04:05.678Z'',
      remote = demo_remote,
      requests = [],
      delays = []\<rparr>"

definition demo_schema_json :: string where
  \<open>demo_schema_json =
     ''{"type":"json_schema","json_schema":{"name":"s","schema":{"type":"object","properties":{"total":{"type":"number"}}}}}''\<close>

definition demo_schema :: jsval where
  "demo_schema =
     JObj [(''type'', JStr ''json_schema''),
           (''json_schema'',
            JObj [(''name'', JStr ''s''),
                  (''schema'',
                   JObj [(''type'', JStr ''object''),
                         (''properties'',
                          JObj [(''total'', JObj [(''type'', JStr ''number'')])])])])]"

text \<open>The example world with a schema file, and the schema that the file holds; the
  schema that the example remote generates.\<close>

definition demo_schema_file :: string where
  \<open>demo_schema_file =
     ''{"name":"r","schema":{"type":"object","properties":{"ratio":{"type":"number","minimum":0.5}}}}''\<close>

definition demo_file_schema :: jsval where
  "demo_file_schema =
     JObj [(''name'', JStr ''r''),
           (''schema'',
            JObj [(''type'', JStr ''object''),
                  (''properties'',
                   JObj [(''ratio'',
                          JObj [(''type'', JStr ''number''), (''minimum'', JDec 5 1)])])])]"

definition schema_world :: world where
  "schema_world =
     demo_world\<lparr>files := (files demo_world)
       (''/docs/schema.json'' \<mapsto> RegularFile (length demo_schema_file) demo_schema_file)\<rparr>"

definition demo_generated_schema :: jsval where
  "demo_generated_schema =
     JObj [(''name'', JStr ''s''),
           (''schema'',
            JObj [(''type'', JStr ''object''),
                  (''properties'',
                   JObj [(''total'', JObj [(''type'', JStr ''number'')])])])]"

text \<open>What the example remote answers to a classification request, and where the example
  world saves the classification of \<open>/docs/a.pdf\<close>.\<close>

definition demo_classification :: jsval where
  "demo_classification =
     JObj [(''choices'', JArr [JObj [(''message'', JObj [(''content'', JStr ''invoice'')])]])]"

definition demo_classification_path :: string where
  "demo_classification_path =
     ''/home/u/.mcp-upstage/outputs/document_classification/a_2024-01-02T03-04-05_classification.json''"

definition failing_sink :: sink where
  "failing_sink = (\<lambda>progress total. Some (Error ''progress channel closed''))"

definition quiet_sink :: sink where
  "quiet_sink = (\<lambda>progress total. None)"

section \<open>Basic facts about the effect combinators\<close>

lemma bindE_Inr: "m w = (Inr x, w') \<Longrightarrow> bindE m f w = f x w'"
  by (simp add: bindE_def)

lemma bindE_Inl: "m w = (Inl e, w') \<Longrightarrow> bindE m f w = (Inl e, w')"
  by (simp add: bindE_def)

lemma bindE_ret: "bindE (ret x) f = f x"
  by (simp add: bindE_def ret_def)

lemma bindE_throw: "bindE (throw e) f = throw e"
  by (simp add: bindE_def throw_def)

lemma lift_Inr: "lift (Inr x) = ret x"
  by (simp add: lift_def)

lemma lift_Inl: "lift (Inl e) = throw e"
  by (simp add: lift_def)

lemma report_None: "report None p t = ret ()"
  by (simp add: report_def)

lemma report_ok: "f p t = None \<Longrightarrow> report (Some f) p t = ret ()"
  by (simp add: report_def)

lemma report_fails: "f p t = Some e \<Longrightarrow> report (Some f) p t = throw e"
  by (simp add: report_def)

section \<open>The file validator\<close>

lemma validateFileExists_world: "snd (validateFileExists p w) = w"
  by (simp add: validateFileExists_def fs_stat_def
      split: option.splits fsnode.splits prod.splits sum.splits stats.splits error.splits)

lemma validateFileSize_world: "snd (validateFileSize p m w) = w"
  by (simp add: validateFileSize_def fs_stat_def bindE_def throw_def ret_def
      split: option.splits fsnode.splits prod.splits sum.splits stats.splits)

lemma validateFileExists_regular:
  "files w p = Some (RegularFile sz bytes) \<Longrightarrow> validateFileExists p w = (Inr (), w)"
  by (simp add: validateFileExists_def fs_stat_def)

lemma validateFileSize_regular:
  "files w p = Some (RegularFile sz bytes) \<Longrightarrow>
   validateFileSize p m w =
     (if sz > m then
        (Inl (Error (''File size ('' @ toFixed2_MB sz @ ''MB) exceeds maximum allowed size (''
                     @ toFixed0_MB m @ ''MB)'')), w)
      else (Inr (), w))"
  by (simp add: validateFileSize_def fs_stat_def bindE_def throw_def ret_def)

lemma MAX_SIZE_value: "MAX_SIZE = 52428800"
  by (simp add: MAX_SIZE_def)

text \<open>
  Claim C10. The size check is strict at the boundary: with the default ceiling
  \<open>MAX_SIZE\<close>, which is 52428800 bytes (50 MiB), a file passes exactly when its size is at
  most the ceiling; a file of exactly 52428800 bytes passes, and the too-large error is
  raised only for a size strictly greater.
\<close>

theorem validateFileSize_boundary:
  assumes "files w p = Some (RegularFile sz bytes)"
  shows "MAX_SIZE = 52428800
       \<and> (fst (validateFileSize p MAX_SIZE w) = Inr ()) = (sz \<le> 52428800)
       \<and> (fst (validateFileSize p MAX_SIZE w) =
            Inl (Error (''File size ('' @ toFixed2_MB sz @ ''MB) exceeds maximum allowed size (''
                        @ toFixed0_MB MAX_SIZE @ ''MB)''))) = (sz > 52428800)"
  using assms by (simp add: validateFileSize_regular MAX_SIZE_value)

theorem validateFileSize_boundary_witness:
  "fst (validateFileSize ''/docs/big.pdf'' MAX_SIZE
         \<lparr>files = [''/docs/big.pdf'' \<mapsto> RegularFile 52428800 ''%PDF''],
          homedir = ''/home/u'', now = ''2024-01-02T03:04:05.678Z'',
          remote = (\<lambda>n r. Failed (Error ''offline'')), requests = [], delays = []\<rparr>) = Inr ()
   \<and> fst (validateFileSize ''/docs/big.pdf'' MAX_SIZE
         \<lparr>files = [''/docs/big.pdf'' \<mapsto> RegularFile 52428801 ''%PDF''],
          homedir = ''/home/u'', now = ''2024-01-02T03:04:05.678Z'',
          remote = (\<lambda>n r. Failed (Error ''offline'')), requests = [], delays = []\<rparr>) \<noteq> Inr ()"
  using validateFileSize_boundary
          [of "\<lparr>files = [''/docs/big.pdf'' \<mapsto> RegularFile 52428800 ''%PDF''],
                homedir = ''/home/u'', now = ''2024-01-02T03:04:05.678Z'',
                remote = (\<lambda>n r. Failed (Error ''offline'')), requests = [], delays = []\<rparr>"
              "''/docs/big.pdf''" 52428800 "''%PDF''"]
        validateFileSize_boundary
          [of "\<lparr>files = [''/docs/big.pdf'' \<mapsto> RegularFile 52428801 ''%PDF''],
                homedir = ''/home/u'', now = ''2024-01-02T03:04:05.678Z'',
                remote = (\<lambda>n r. Failed (Error ''offline'')), requests = [], delays = []\<rparr>"
              "''/docs/big.pdf''" 52428801 "''%PDF''"]
  by simp

lemma validateDocumentFile_world: "snd (validateDocumentFile p w) = w"
  using validateFileExists_world [of p w] validateFileSize_world [of p MAX_SIZE w]
  by (auto simp: validateDocumentFile_def bindE_def lift_def throw_def ret_def
      split: prod.splits sum.splits)

lemma validateExtractionFile_world: "snd (validateExtractionFile p w) = w"
  using validateFileExists_world [of p w] validateFileSize_world [of p MAX_SIZE w]
  by (auto simp: validateExtractionFile_def bindE_def lift_def throw_def ret_def
      split: prod.splits sum.splits)

lemma validateDocumentFile_fails:
  "fst (validateDocumentFile p w) = Inl e \<Longrightarrow> validateDocumentFile p w = (Inl e, w)"
  using validateDocumentFile_world [of p w] by (cases "validateDocumentFile p w") simp

lemma validateExtractionFile_fails:
  "fst (validateExtractionFile p w) = Inl e \<Longrightarrow> validateExtractionFile p w = (Inl e, w)"
  using validateExtractionFile_world [of p w] by (cases "validateExtractionFile p w") simp

lemma validateDocumentFile_passes:
  "fst (validateDocumentFile p w) = Inr () \<Longrightarrow> validateDocumentFile p w = (Inr (), w)"
  using validateDocumentFile_world [of p w] by (cases "validateDocumentFile p w") simp

lemma validateExtractionFile_passes:
  "fst (validateExtractionFile p w) = Inr () \<Longrightarrow> validateExtractionFile p w = (Inr (), w)"
  using validateExtractionFile_world [of p w] by (cases "validateExtractionFile p w") simp

lemma validateDocumentFile_unsupported:
  "files w p = Some (RegularFile sz bytes) \<Longrightarrow> toLowerCase (extname p) \<notin> set DOCUMENT_PARSING \<Longrightarrow>
   validateDocumentFile p w = (Inl (unsupported_format p DOCUMENT_PARSING), w)"
  by (simp add: validateDocumentFile_def bindE_def validateFileExists_regular
      validateFileExtension_def unsupported_format_def lift_def throw_def)

lemma validateExtractionFile_unsupported:
  "files w p = Some (RegularFile sz bytes) \<Longrightarrow> toLowerCase (extname p) \<notin> set INFO_EXTRACTION \<Longrightarrow>
   validateExtractionFile p w = (Inl (unsupported_format p INFO_EXTRACTION), w)"
  by (simp add: validateExtractionFile_def bindE_def validateFileExists_regular
      validateFileExtension_def unsupported_format_def lift_def throw_def)

lemma parseDocument_invalid:
  "validateDocumentFile p w = (Inl e, w') \<Longrightarrow> parseDocument p k fmts onProgress w = (Inl e, w')"
  by (simp add: parseDocument_def bindE_Inl)

lemma extractInformation_invalid:
  "validateExtractionFile p w = (Inl e, w') \<Longrightarrow>
   extractInformation p k sp sj auto onProgress w = (Inl e, w')"
  by (simp add: extractInformation_def bindE_Inl)

lemma generateSchema_invalid:
  "validateExtractionFile p w = (Inl e, w') \<Longrightarrow> generateSchema p k onProgress w = (Inl e, w')"
  by (simp add: generateSchema_def bindE_Inl)

lemma classifyDocument_invalid:
  "validateExtractionFile p w = (Inl e, w') \<Longrightarrow>
   classifyDocument p k sp sj onProgress w = (Inl e, w')"
  by (simp add: classifyDocument_def bindE_Inl)

text \<open>
  Claim C7. A tool call on an existing regular file whose lower-cased extension is outside
  the allow-list of its purpose fails with the unsupported-format error and leaves the world
  as it was, so no request has gone out; and whatever error the validator raises (not found,
  not a file, unsupported format, too large, a system error), each of the four handlers
  fails with that error in an unchanged world, before any network attempt.
\<close>

theorem validator_failure_before_network:
  "(files w p = Some (RegularFile sz bytes) \<longrightarrow> toLowerCase (extname p) \<notin> set DOCUMENT_PARSING \<longrightarrow>
      parseDocument p k fmts onProgress w = (Inl (unsupported_format p DOCUMENT_PARSING), w))
   \<and> (files w p = Some (RegularFile sz bytes) \<longrightarrow> toLowerCase (extname p) \<notin> set INFO_EXTRACTION \<longrightarrow>
      extractInformation p k sp sj auto onProgress w = (Inl (unsupported_format p INFO_EXTRACTION), w)
      \<and> generateSchema p k onProgress w = (Inl (unsupported_format p INFO_EXTRACTION), w)
      \<and> classifyDocument p k sp sj onProgress w = (Inl (unsupported_format p INFO_EXTRACTION), w))
   \<and> (fst (validateDocumentFile p w) = Inl e \<longrightarrow>
      parseDocument p k fmts onProgress w = (Inl e, w))
   \<and> (fst (validateExtractionFile p w) = Inl e \<longrightarrow>
      extractInformation p k sp sj auto onProgress w = (Inl e, w)
      \<and> generateSchema p k onProgress w = (Inl e, w)
      \<and> classifyDocument p k sp sj onProgress w = (Inl e, w))"
  by (simp add: validateDocumentFile_unsupported validateExtractionFile_unsupported
      validateDocumentFile_fails validateExtractionFile_fails
      parseDocument_invalid extractInformation_invalid generateSchema_invalid
      classifyDocument_invalid)

lemma demo_validate_missing:
  "fst (validateExtractionFile ''/docs/missing.pdf'' demo_world) = Inl (Error ''File not found: /docs/missing.pdf'')"
  by (simp add: validateExtractionFile_def bindE_def validateFileExists_def fs_stat_def demo_world_def)

theorem validator_failure_before_network_witness:
  "parseDocument ''/docs/notes.txt'' ''KEY'' None (Some quiet_sink) demo_world =
     (Inl (Error ''Unsupported file format: .txt. Supported formats: .pdf, .jpeg, .jpg, .png, .tiff, .tif, .bmp, .gif, .webp''), demo_world)
   \<and> classifyDocument ''/docs/notes.txt'' ''KEY'' None None (Some quiet_sink) demo_world =
     (Inl (Error ''Unsupported file format: .txt. Supported formats: .jpeg, .jpg, .png, .bmp, .pdf, .tiff, .tif, .heic, .docx, .pptx, .xlsx''), demo_world)
   \<and> extractInformation ''/docs/missing.pdf'' ''KEY'' None None None (Some quiet_sink) demo_world =
     (Inl (Error ''File not found: /docs/missing.pdf''), demo_world)
   \<and> requests demo_world = []"
  using validator_failure_before_network
          [of demo_world "''/docs/notes.txt''" 2 "''hi''" "''KEY''" None "Some quiet_sink" None None None
              "Error ''File not found: /docs/missing.pdf''"]
        validator_failure_before_network
          [of demo_world "''/docs/missing.pdf''" 2 "''hi''" "''KEY''" None "Some quiet_sink" None None None
              "Error ''File not found: /docs/missing.pdf''"]
        demo_validate_missing
  by (simp add: demo_world_def unsupported_format_def extname_def last_segment_def toLowerCase_def
      lower_char_def DOCUMENT_PARSING_def INFO_EXTRACTION_def)

section \<open>The API client\<close>

lemma demo_retry_operation:
  "retry_operation (RETRY_ATTEMPTS - 1) 2 RETRY_DELAY (RETRY_DELAY * 4) =
     \<lparr>op_timeouts = [1000, 2000], op_errors = []\<rparr>"
  by (simp add: retry_operation_def RETRY_ATTEMPTS_def RETRY_DELAY_def createTimeout_def
      numeral_2_eq_2 upt_conv_Cons)

lemma attempt_responded:
  "remote w (length (requests w)) (build_request k url opts) = Responded d \<Longrightarrow>
   attempt k url opts opn op w = (Inr d, w\<lparr>requests := requests w @ [build_request k url opts]\<rparr>)"
  by (subst attempt.simps) (simp add: sendRequest_def axios_post_def)

lemma attempt_client_error:
  "remote w (length (requests w)) (build_request k url opts) = AxiosError status d msg \<Longrightarrow>
   is_client_error status \<Longrightarrow>
   attempt k url opts opn op w =
     (Inl (attempt_error opn (AxiosError status d msg)),
      w\<lparr>requests := requests w @ [build_request k url opts]\<rparr>)"
  by (subst attempt.simps) (simp add: sendRequest_def axios_post_def attempt_error_def Let_def)

lemma attempt_retry:
  "remote w (length (requests w)) (build_request k url opts) = out \<Longrightarrow> retryable out \<Longrightarrow>
   op_timeouts op = t # ts \<Longrightarrow>
   attempt k url opts opn op w =
     attempt k url opts opn \<lparr>op_timeouts = ts, op_errors = op_errors op @ [attempt_error opn out]\<rparr>
       (w\<lparr>requests := requests w @ [build_request k url opts], delays := delays w @ [t]\<rparr>)"
  by (subst attempt.simps)
     (auto simp add: sendRequest_def axios_post_def attempt_error_def Let_def retryable_def retry_def
        split: outcome.splits)

lemma attempt_exhausted:
  "remote w (length (requests w)) (build_request k url opts) = out \<Longrightarrow> retryable out \<Longrightarrow>
   op_timeouts op = [] \<Longrightarrow>
   attempt k url opts opn op w =
     (Inl (case mainError (op\<lparr>op_errors := op_errors op @ [attempt_error opn out]\<rparr>) of
             None \<Rightarrow> attempt_error opn out | Some e \<Rightarrow> e),
      w\<lparr>requests := requests w @ [build_request k url opts]\<rparr>)"
  by (subst attempt.simps)
     (auto simp add: sendRequest_def axios_post_def attempt_error_def Let_def retryable_def retry_def
        split: outcome.splits cong: option.case_cong)

lemma mainError_three:
  "mainError \<lparr>op_timeouts = ts, op_errors = [e1, e2, e3]\<rparr> =
     Some (if message e1 = message e2 \<and> message e3 \<noteq> message e2 then e2 else e3)"
  by (auto simp add: mainError_def Let_def)

lemma makeRequest_unfold:
  "makeRequest k url opts operation =
     attempt k url opts (operation_name operation) \<lparr>op_timeouts = [1000, 2000], op_errors = []\<rparr>"
  by (simp only: makeRequest_def demo_retry_operation operation_name_def)

lemma makeRequest_first_success:
  assumes "remote w (length (requests w)) (build_request k url opts) = Responded d"
  shows "makeRequest k url opts operation w =
           (Inr d, w\<lparr>requests := requests w @ [build_request k url opts]\<rparr>)"
  by (simp add: makeRequest_unfold attempt_responded [OF assms])

lemma makeRequest_client_error:
  assumes "remote w (length (requests w)) (build_request k url opts) = AxiosError status d msg"
    and "is_client_error status"
  shows "makeRequest k url opts operation w =
           (Inl (attempt_error (operation_name operation) (AxiosError status d msg)),
            w\<lparr>requests := requests w @ [build_request k url opts]\<rparr>)"
  by (simp add: makeRequest_unfold attempt_client_error [OF assms])

lemma makeRequest_second_success:
  assumes "remote w (length (requests w)) (build_request k url opts) = o1" "retryable o1"
    and "remote w (Suc (length (requests w))) (build_request k url opts) = Responded d"
  shows "makeRequest k url opts operation w =
           (Inr d, w\<lparr>requests := requests w @ [build_request k url opts, build_request k url opts],
                      delays := delays w @ [1000]\<rparr>)"
proof -
  let ?r = "build_request k url opts"
  let ?n = "operation_name operation"
  let ?w1 = "w\<lparr>requests := requests w @ [?r], delays := delays w @ [1000]\<rparr>"
  have 2: "remote ?w1 (length (requests ?w1)) ?r = Responded d" using assms(3) by simp
  have "makeRequest k url opts operation w =
          attempt k url opts ?n \<lparr>op_timeouts = [1000, 2000], op_errors = []\<rparr> w"
    by (simp add: makeRequest_unfold)
  also have "\<dots> = attempt k url opts ?n
                     \<lparr>op_timeouts = [2000], op_errors = [attempt_error ?n o1]\<rparr> ?w1"
    using attempt_retry [OF assms(1,2), of "\<lparr>op_timeouts = [1000, 2000], op_errors = []\<rparr>"
                            1000 "[2000]" ?n]
    by simp
  also have "\<dots> = (Inr d, w\<lparr>requests := requests w @ [?r, ?r], delays := delays w @ [1000]\<rparr>)"
    using attempt_responded [OF 2] by simp
  finally show ?thesis .
qed

lemma makeRequest_third_success:
  assumes "remote w (length (requests w)) (build_request k url opts) = o1" "retryable o1"
    and "remote w (Suc (length (requests w))) (build_request k url opts) = o2" "retryable o2"
    and "remote w (Suc (Suc (length (requests w)))) (build_request k url opts) = Responded d"
  shows "makeRequest k url opts operation w =
           (Inr d, w\<lparr>requests := requests w @ [build_request k url opts, build_request k url opts,
                                                build_request k url opts],
                      delays := delays w @ [1000, 2000]\<rparr>)"
proof -
  let ?r = "build_request k url opts"
  let ?n = "operation_name operation"
  let ?w1 = "w\<lparr>requests := requests w @ [?r], delays := delays w @ [1000]\<rparr>"
  let ?w2 = "w\<lparr>requests := requests w @ [?r, ?r], delays := delays w @ [1000, 2000]\<rparr>"
  have 2: "remote ?w1 (length (requests ?w1)) ?r = o2" using assms(3) by simp
  have 3: "remote ?w2 (length (requests ?w2)) ?r = Responded d" using assms(5) by simp
  have "makeRequest k url opts operation w =
          attempt k url opts ?n \<lparr>op_timeouts = [1000, 2000], op_errors = []\<rparr> w"
    by (simp add: makeRequest_unfold)
  also have "\<dots> = attempt k url opts ?n
                     \<lparr>op_timeouts = [2000], op_errors = [attempt_error ?n o1]\<rparr> ?w1"
    using attempt_retry [OF assms(1,2), of "\<lparr>op_timeouts = [1000, 2000], op_errors = []\<rparr>"
                            1000 "[2000]" ?n]
    by simp
  also have "\<dots> = attempt k url opts ?n
                     \<lparr>op_timeouts = [], op_errors = [attempt_error ?n o1, attempt_error ?n o2]\<rparr> ?w2"
    using attempt_retry [OF 2 assms(4),
                         of "\<lparr>op_timeouts = [2000], op_errors = [attempt_error ?n o1]\<rparr>"
                            2000 "[]" ?n]
    by simp
  also have "\<dots> = (Inr d, w\<lparr>requests := requests w @ [?r, ?r, ?r],
                              delays := delays w @ [1000, 2000]\<rparr>)"
    using attempt_responded [OF 3] by simp
  finally show ?thesis .
qed

lemma makeRequest_all_fail:
  assumes "remote w (length (requests w)) (build_request k url opts) = o1" "retryable o1"
    and "remote w (Suc (length (requests w))) (build_request k url opts) = o2" "retryable o2"
    and "remote w (Suc (Suc (length (requests w)))) (build_request k url opts) = o3" "retryable o3"
  shows "makeRequest k url opts operation w =
           (Inl (if message (attempt_error (operation_name operation) o1)
                      = message (attempt_error (operation_name operation) o2)
                    \<and> message (attempt_error (operation_name operation) o3)
                      \<noteq> message (attempt_error (operation_name operation) o2)
                 then attempt_error (operation_name operation) o2
                 else attempt_error (operation_name operation) o3),
            w\<lparr>requests := requests w @ [build_request k url opts, build_request k url opts,
                                        build_request k url opts],
               delays := delays w @ [1000, 2000]\<rparr>)"
proof -
  let ?r = "build_request k url opts"
  let ?n = "operation_name operation"
  let ?w1 = "w\<lparr>requests := requests w @ [?r], delays := delays w @ [1000]\<rparr>"
  let ?w2 = "w\<lparr>requests := requests w @ [?r, ?r], delays := delays w @ [1000, 2000]\<rparr>"
  have 2: "remote ?w1 (length (requests ?w1)) ?r = o2" using assms(3) by simp
  have 3: "remote ?w2 (length (requests ?w2)) ?r = o3" using assms(5) by simp
  have "makeRequest k url opts operation w =
          attempt k url opts ?n \<lparr>op_timeouts = [1000, 2000], op_errors = []\<rparr> w"
    by (simp add: makeRequest_unfold)
  also have "\<dots> = attempt k url opts ?n
                     \<lparr>op_timeouts = [2000], op_errors = [attempt_error ?n o1]\<rparr> ?w1"
    using attempt_retry [OF assms(1,2), of "\<lparr>op_timeouts = [1000, 2000], op_errors = []\<rparr>"
                            1000 "[2000]" ?n]
    by simp
  also have "\<dots> = attempt k url opts ?n
                     \<lparr>op_timeouts = [], op_errors = [attempt_error ?n o1, attempt_error ?n o2]\<rparr> ?w2"
    using attempt_retry [OF 2 assms(4),
                         of "\<lparr>op_timeouts = [2000], op_errors = [attempt_error ?n o1]\<rparr>"
                            2000 "[]" ?n]
    by simp
  also have "\<dots> = (Inl (if message (attempt_error ?n o1) = message (attempt_error ?n o2)
                              \<and> message (attempt_error ?n o3) \<noteq> message (attempt_error ?n o2)
                           then attempt_error ?n o2 else attempt_error ?n o3),
                     w\<lparr>requests := requests w @ [?r, ?r, ?r],
                        delays := delays w @ [1000, 2000]\<rparr>)"
    using attempt_exhausted [OF 3 assms(6),
                             of "\<lparr>op_timeouts = [],
                                  op_errors = [attempt_error ?n o1, attempt_error ?n o2]\<rparr>" ?n]
    by (simp add: mainError_three)
  finally show ?thesis .
qed

lemma makeApiRequest_first_success:
  assumes "remote w (length (requests w)) (build_request k url opts) = Responded d"
  shows "makeApiRequest url k opts operation w =
           (Inr d, w\<lparr>requests := requests w @ [build_request k url opts]\<rparr>)"
  by (simp add: makeApiRequest_def makeRequest_first_success [OF assms])

lemma build_request_url: "req_url (build_request k url opts) = url"
  by (simp add: build_request_def split: option.splits)

lemma retryable_kinds:
  "retryable (AxiosError (Some 429) d msg)"
  "500 \<le> s \<Longrightarrow> retryable (AxiosError (Some s) d msg)"
  "retryable (AxiosError None d msg)"
  "retryable (Failed err)"
  "\<not> retryable (Responded d)"
  by (simp_all add: retryable_def is_client_error_def)

text \<open>
  Claim C2, as amended. For every invocation of the API client: if the first attempt fails
  with an HTTP status in the 4xx range other than 429, the client fails at once, after
  exactly one attempt, with that error. A status 429, a status of 500 or more, an error
  without a response (network error) and any other exception are retried. If three attempts
  in a row fail with a retried error, the client makes exactly three attempts, waiting 1000
  and 2000 ms, and then fails with the main error of the retry operation: the last error,
  unless the first two errors have the same message and the last one another, in which case
  it is the second. If a retried failure is followed by a success at the second or at the
  third attempt, the client returns the payload of that response.
\<close>

theorem makeRequest_retry_policy:
  "(remote w (length (requests w)) (build_request k url opts) = AxiosError (Some s) d msg \<longrightarrow>
      400 \<le> s \<longrightarrow> s < 500 \<longrightarrow> s \<noteq> 429 \<longrightarrow>
      makeRequest k url opts operation w =
        (Inl (attempt_error (operation_name operation) (AxiosError (Some s) d msg)),
         w\<lparr>requests := requests w @ [build_request k url opts]\<rparr>))
   \<and> (retryable (remote w (length (requests w)) (build_request k url opts)) \<longrightarrow>
      retryable (remote w (Suc (length (requests w))) (build_request k url opts)) \<longrightarrow>
      retryable (remote w (Suc (Suc (length (requests w)))) (build_request k url opts)) \<longrightarrow>
      makeRequest k url opts operation w =
        (Inl (if message (attempt_error (operation_name operation)
                            (remote w (length (requests w)) (build_request k url opts)))
                 = message (attempt_error (operation_name operation)
                            (remote w (Suc (length (requests w))) (build_request k url opts)))
               \<and> message (attempt_error (operation_name operation)
                            (remote w (Suc (Suc (length (requests w)))) (build_request k url opts)))
                 \<noteq> message (attempt_error (operation_name operation)
                            (remote w (Suc (length (requests w))) (build_request k url opts)))
              then attempt_error (operation_name operation)
                     (remote w (Suc (length (requests w))) (build_request k url opts))
              else attempt_error (operation_name operation)
                     (remote w (Suc (Suc (length (requests w)))) (build_request k url opts))),
         w\<lparr>requests := requests w @ [build_request k url opts, build_request k url opts,
                                     build_request k url opts],
            delays := delays w @ [1000, 2000]\<rparr>))
   \<and> (retryable (remote w (length (requests w)) (build_request k url opts)) \<longrightarrow>
      remote w (Suc (length (requests w))) (build_request k url opts) = Responded payload \<longrightarrow>
      makeRequest k url opts operation w =
        (Inr payload,
         w\<lparr>requests := requests w @ [build_request k url opts, build_request k url opts],
            delays := delays w @ [1000]\<rparr>))
   \<and> (retryable (remote w (length (requests w)) (build_request k url opts)) \<longrightarrow>
      retryable (remote w (Suc (length (requests w))) (build_request k url opts)) \<longrightarrow>
      remote w (Suc (Suc (length (requests w)))) (build_request k url opts) = Responded payload \<longrightarrow>
      makeRequest k url opts operation w =
        (Inr payload,
         w\<lparr>requests := requests w @ [build_request k url opts, build_request k url opts,
                                     build_request k url opts],
            delays := delays w @ [1000, 2000]\<rparr>))
   \<and> retryable (AxiosError (Some 429) d msg)
   \<and> (500 \<le> s \<longrightarrow> retryable (AxiosError (Some s) d msg))
   \<and> retryable (AxiosError None d msg)
   \<and> retryable (Failed err)"
proof -
  have a: "remote w (length (requests w)) (build_request k url opts) = AxiosError (Some s) d msg
      \<Longrightarrow> 400 \<le> s \<Longrightarrow> s < 500 \<Longrightarrow> s \<noteq> 429 \<Longrightarrow>
      makeRequest k url opts operation w =
        (Inl (attempt_error (operation_name operation) (AxiosError (Some s) d msg)),
         w\<lparr>requests := requests w @ [build_request k url opts]\<rparr>)"
    by (rule makeRequest_client_error) (simp_all add: is_client_error_def)
  show ?thesis
    using a
    by (simp add: makeRequest_all_fail makeRequest_second_success makeRequest_third_success
        retryable_kinds)
qed

lemma scripted_remote:
  "remote (scripted_world script) n r =
     (if n < length script then script ! n else Failed (Error ''connect ECONNREFUSED''))"
  "requests (scripted_world script) = []"
  "delays (scripted_world script) = []"
  by (simp_all add: scripted_world_def)

text \<open>
  Claim C2 as stated fails in its second part: against an endpoint that answers 500 twice,
  with one message, and then 429 with another, the client makes three attempts and fails
  with the error of the second attempt, not of the last.
\<close>

theorem makeRequest_surfaces_main_error:
  "fst (makeRequest ''KEY'' INFORMATION_EXTRACTION (json_request JNull) None
          (scripted_world [status_500, status_500, status_429])) =
     Inl (Error ''API request failed: server busy'')
   \<and> length (requests (snd (makeRequest ''KEY'' INFORMATION_EXTRACTION (json_request JNull) None
          (scripted_world [status_500, status_500, status_429])))) = 3
   \<and> attempt_error ''API request'' status_429 = Error ''API request failed: rate limited''"
  using makeRequest_all_fail
          [of "scripted_world [status_500, status_500, status_429]" "''KEY''"
              INFORMATION_EXTRACTION "json_request JNull" status_500 status_500 status_429 None]
  by (simp add: scripted_remote retryable_def is_client_error_def status_500_def status_429_def
      attempt_error_def operation_name_def js_or_def getPropOpt_def)

theorem makeRequest_retry_policy_witness:
  "makeRequest ''KEY'' INFORMATION_EXTRACTION (json_request JNull) None
     (scripted_world [status_500, status_500, Responded (JStr ''done'')]) =
     (Inr (JStr ''done''),
      (scripted_world [status_500, status_500, Responded (JStr ''done'')])
        \<lparr>requests := replicate 3 (build_request ''KEY'' INFORMATION_EXTRACTION (json_request JNull)),
         delays := [1000, 2000]\<rparr>)
   \<and> makeRequest ''KEY'' INFORMATION_EXTRACTION (json_request JNull) None
     (scripted_world [status_404]) =
     (Inl (Error ''API request failed: no such endpoint''),
      (scripted_world [status_404])
        \<lparr>requests := [build_request ''KEY'' INFORMATION_EXTRACTION (json_request JNull)]\<rparr>)
   \<and> makeRequest ''KEY'' INFORMATION_EXTRACTION (json_request JNull) None
     (scripted_world [status_429, status_429, status_429]) =
     (Inl (Error ''API request failed: rate limited''),
      (scripted_world [status_429, status_429, status_429])
        \<lparr>requests := replicate 3 (build_request ''KEY'' INFORMATION_EXTRACTION (json_request JNull)),
         delays := [1000, 2000]\<rparr>)"
  using makeRequest_retry_policy
          [of "scripted_world [status_500, status_500, Responded (JStr ''done'')]" "''KEY''"
              INFORMATION_EXTRACTION "json_request JNull" 404 JNull "[]" None "JStr ''done''"
              "Error []"]
        makeRequest_retry_policy
          [of "scripted_world [status_404]" "''KEY''"
              INFORMATION_EXTRACTION "json_request JNull" 404
              "JObj [(''message'', JStr ''no such endpoint'')]"
              "''Request failed with status code 404''" None "JStr ''done''" "Error []"]
        makeRequest_retry_policy
          [of "scripted_world [status_429, status_429, status_429]" "''KEY''"
              INFORMATION_EXTRACTION "json_request JNull" 404 JNull "[]" None "JStr ''done''"
              "Error []"]
  by (simp add: scripted_remote retryable_def is_client_error_def status_500_def status_429_def
      status_404_def attempt_error_def operation_name_def js_or_def getPropOpt_def
      numeral_3_eq_3)

section \<open>What a call changes in the world\<close>

lemma bindE_apply:
  "bindE m f w = (case m w of (Inl e, w') \<Rightarrow> (Inl e, w') | (Inr x, w') \<Rightarrow> f x w')"
  by (simp add: bindE_def)

lemma bindE_InrE:
  assumes "bindE m f w = (Inr y, w')"
  obtains x w1 where "m w = (Inr x, w1)" "f x w1 = (Inr y, w')"
  using assms by (auto simp: bindE_def split: prod.splits sum.splits)

lemma ret_InrE:
  assumes "ret x w = (Inr y, w')"
  obtains "y = x" "w' = w"
  using assms by (simp add: ret_def)

lemma report_InrE:
  assumes "report s p t w = (Inr y, w')"
  obtains "w' = w"
  using assms by (auto simp: report_def ret_def throw_def split: option.splits)

lemma lift_InrE:
  assumes "lift r w = (Inr y, w')"
  obtains "r = Inr y" "w' = w"
  using assms by (cases r) (auto simp: lift_def ret_def throw_def)

lemma outcome_cases:
  obtains (responded) d where "out = Responded d"
  | (client_error) status d msg where "out = AxiosError status d msg" "is_client_error status"
  | (retried) "retryable out"
  by (cases out) (auto simp: retryable_def)

lemma attempt_requests:
  "\<exists>n. 0 < n \<and> requests (snd (attempt k url opts opn op w)) =
                  requests w @ replicate n (build_request k url opts)"
proof (induction "op_timeouts op" arbitrary: op w)
  case Nil
  show ?case
  proof (cases "remote w (length (requests w)) (build_request k url opts)" rule: outcome_cases)
    case (responded d)
    from attempt_responded [OF this] show ?thesis
      by (intro exI [of _ 1]) simp
  next
    case (client_error status d msg)
    from attempt_client_error [OF this] show ?thesis
      by (intro exI [of _ 1]) simp
  next
    case retried
    from attempt_exhausted [OF refl retried Nil [symmetric]] show ?thesis
      by (intro exI [of _ 1]) simp
  qed
next
  case (Cons t ts)
  show ?case
  proof (cases "remote w (length (requests w)) (build_request k url opts)" rule: outcome_cases)
    case (responded d)
    from attempt_responded [OF this] show ?thesis
      by (intro exI [of _ 1]) simp
  next
    case (client_error status d msg)
    from attempt_client_error [OF this] show ?thesis
      by (intro exI [of _ 1]) simp
  next
    case retried
    let ?r = "build_request k url opts"
    let ?op = "\<lparr>op_timeouts = ts,
                op_errors = op_errors op @ [attempt_error opn (remote w (length (requests w)) ?r)]\<rparr>"
    let ?w = "w\<lparr>requests := requests w @ [?r], delays := delays w @ [t]\<rparr>"
    have step: "attempt k url opts opn op w = attempt k url opts opn ?op ?w"
      by (rule attempt_retry [OF refl retried Cons(2) [symmetric]])
    from Cons(1) [of ?op ?w] obtain n where
      "requests (snd (attempt k url opts opn ?op ?w)) = requests ?w @ replicate n ?r"
      by auto
    then show ?thesis
      unfolding step by (intro exI [of _ "Suc n"]) (simp add: replicate_append_same)
  qed
qed

lemma attempt_frame:
  "homedir (snd (attempt k url opts opn op w)) = homedir w
   \<and> now (snd (attempt k url opts opn op w)) = now w
   \<and> files (snd (attempt k url opts opn op w)) = files w
   \<and> remote (snd (attempt k url opts opn op w)) = remote w"
proof (induction "op_timeouts op" arbitrary: op w)
  case Nil
  show ?case
  proof (cases "remote w (length (requests w)) (build_request k url opts)" rule: outcome_cases)
    case (responded d)
    from attempt_responded [OF this] show ?thesis by simp
  next
    case (client_error status d msg)
    from attempt_client_error [OF this] show ?thesis by simp
  next
    case retried
    from attempt_exhausted [OF refl retried Nil [symmetric]] show ?thesis by simp
  qed
next
  case (Cons t ts)
  show ?case
  proof (cases "remote w (length (requests w)) (build_request k url opts)" rule: outcome_cases)
    case (responded d)
    from attempt_responded [OF this] show ?thesis by simp
  next
    case (client_error status d msg)
    from attempt_client_error [OF this] show ?thesis by simp
  next
    case retried
    let ?r = "build_request k url opts"
    let ?op = "\<lparr>op_timeouts = ts,
                op_errors = op_errors op @ [attempt_error opn (remote w (length (requests w)) ?r)]\<rparr>"
    let ?w = "w\<lparr>requests := requests w @ [?r], delays := delays w @ [t]\<rparr>"
    have step: "attempt k url opts opn op w = attempt k url opts opn ?op ?w"
      by (rule attempt_retry [OF refl retried Cons(2) [symmetric]])
    from Cons(1) [of ?op ?w] show ?thesis
      unfolding step by simp
  qed
qed

lemma attempt_result_remote:
  "fst (attempt k url opts opn op w) = Inr d \<Longrightarrow>
   \<exists>n. remote w n (build_request k url opts) = Responded d"
proof (induction "op_timeouts op" arbitrary: op w)
  case Nil
  show ?case
  proof (cases "remote w (length (requests w)) (build_request k url opts)" rule: outcome_cases)
    case (responded d')
    from attempt_responded [OF this] Nil(2) responded show ?thesis
      by (intro exI [of _ "length (requests w)"]) simp
  next
    case (client_error status d' msg)
    from attempt_client_error [OF this] Nil(2) show ?thesis by simp
  next
    case retried
    from attempt_exhausted [OF refl retried Nil(1) [symmetric]] Nil(2) show ?thesis by simp
  qed
next
  case (Cons t ts)
  show ?case
  proof (cases "remote w (length (requests w)) (build_request k url opts)" rule: outcome_cases)
    case (responded d')
    from attempt_responded [OF this] Cons(3) responded show ?thesis
      by (intro exI [of _ "length (requests w)"]) simp
  next
    case (client_error status d' msg)
    from attempt_client_error [OF this] Cons(3) show ?thesis by simp
  next
    case retried
    let ?r = "build_request k url opts"
    let ?op = "\<lparr>op_timeouts = ts,
                op_errors = op_errors op @ [attempt_error opn (remote w (length (requests w)) ?r)]\<rparr>"
    let ?w = "w\<lparr>requests := requests w @ [?r], delays := delays w @ [t]\<rparr>"
    have step: "attempt k url opts opn op w = attempt k url opts opn ?op ?w"
      by (rule attempt_retry [OF refl retried Cons(2) [symmetric]])
    from Cons(1) [of ?op ?w] Cons(3) show ?thesis
      unfolding step by simp
  qed
qed

lemma makeApiRequest_requests:
  "\<exists>n. 0 < n \<and> requests (snd (makeApiRequest url k opts operation w)) =
                  requests w @ replicate n (build_request k url opts)"
  by (simp add: makeApiRequest_def makeRequest_unfold attempt_requests)

lemma makeApiRequest_frame:
  "homedir (snd (makeApiRequest url k opts operation w)) = homedir w
   \<and> now (snd (makeApiRequest url k opts operation w)) = now w
   \<and> files (snd (makeApiRequest url k opts operation w)) = files w
   \<and> remote (snd (makeApiRequest url k opts operation w)) = remote w"
  by (simp add: makeApiRequest_def makeRequest_unfold attempt_frame)

lemma makeApiRequest_result_remote:
  "fst (makeApiRequest url k opts operation w) = Inr d \<Longrightarrow>
   \<exists>n. remote w n (build_request k url opts) = Responded d"
  by (simp add: makeApiRequest_def makeRequest_unfold attempt_result_remote)

lemma keeps_ret: "keeps_requests (ret x)"
  by (simp add: keeps_requests_def ret_def)

lemma keeps_throw: "keeps_requests (throw e)"
  by (simp add: keeps_requests_def throw_def)

lemma keeps_lift: "keeps_requests (lift r)"
  by (cases r) (simp_all add: lift_def keeps_ret keeps_throw)

lemma keeps_report: "keeps_requests (report s p t)"
  by (simp add: report_def keeps_ret keeps_throw split: option.splits)

lemma keeps_bindE:
  "keeps_requests m \<Longrightarrow> (\<And>x. keeps_requests (f x)) \<Longrightarrow> keeps_requests (bindE m f)"
  by (auto simp: keeps_requests_def bindE_def split: prod.splits sum.splits)
     (metis snd_conv)+

lemma keeps_if:
  "keeps_requests a \<Longrightarrow> keeps_requests b \<Longrightarrow> keeps_requests (if c then a else b)"
  by simp

lemma keeps_fs:
  "keeps_requests (fs_stat p)" "keeps_requests (fs_readFile p)"
  "keeps_requests (fs_mkdir_recursive p)" "keeps_requests (fs_writeFile p c)"
  by (auto simp: keeps_requests_def fs_stat_def fs_readFile_def fs_mkdir_recursive_def
      fs_writeFile_def split: option.splits fsnode.splits)

lemma keeps_world_reads:
  "keeps_requests (getOutputDirectory s)" "keeps_requests (generateTimestampedFilename p s)"
  "keeps_requests current_time"
  by (simp_all add: keeps_requests_def getOutputDirectory_def generateTimestampedFilename_def
      current_time_def Let_def)

lemma keeps_fileUtils:
  "keeps_requests (ensureDirectoryExists d)" "keeps_requests (saveJsonToFile v p)"
  "keeps_requests (readJsonFile p)" "keeps_requests (readFileAsBase64 p)"
  by (auto simp: ensureDirectoryExists_def saveJsonToFile_def readJsonFile_def readFileAsBase64_def
      keeps_fs keeps_throw keeps_ret keeps_lift split: option.splits intro!: keeps_bindE)

lemmas keeps_intros =
  keeps_bindE keeps_if keeps_ret keeps_throw keeps_lift keeps_report keeps_fileUtils
  keeps_world_reads

lemma grows_keeps: "keeps_requests m \<Longrightarrow> grows_requests m"
  by (simp add: keeps_requests_def grows_requests_def)

lemma grows_bindE:
  "grows_requests m \<Longrightarrow> (\<And>x. grows_requests (f x)) \<Longrightarrow> grows_requests (bindE m f)"
proof (unfold grows_requests_def, intro allI)
  fix w
  assume m: "\<forall>w. \<exists>rest. requests (snd (m w)) = requests w @ rest"
    and f: "\<And>x. \<forall>w. \<exists>rest. requests (snd (f x w)) = requests w @ rest"
  obtain r w1 where mw: "m w = (r, w1)" by (cases "m w")
  from m obtain r1 where r1: "requests w1 = requests w @ r1" using mw by (metis snd_conv)
  show "\<exists>rest. requests (snd (bindE m f w)) = requests w @ rest"
  proof (cases r)
    case (Inl e)
    then show ?thesis using mw r1 by (simp add: bindE_def)
  next
    case (Inr x)
    from f [of x] obtain r2 where "requests (snd (f x w1)) = requests w1 @ r2" by blast
    then show ?thesis using mw r1 Inr by (simp add: bindE_def)
  qed
qed

lemma grows_if:
  "grows_requests a \<Longrightarrow> grows_requests b \<Longrightarrow> grows_requests (if c then a else b)"
  by simp

lemma grows_makeApiRequest: "grows_requests (makeApiRequest url k opts operation)"
  unfolding grows_requests_def using makeApiRequest_requests by blast

lemmas grows_intros =
  grows_bindE grows_if grows_makeApiRequest
  keeps_ret [THEN grows_keeps] keeps_throw [THEN grows_keeps] keeps_lift [THEN grows_keeps]
  keeps_report [THEN grows_keeps] keeps_fileUtils [THEN grows_keeps]
  keeps_world_reads [THEN grows_keeps]

lemma requests_bindE_keeps:
  assumes "\<And>x. keeps_requests (f x)"
  shows "requests (snd (bindE m f w)) = requests (snd (m w))"
  using assms by (auto simp: bindE_def keeps_requests_def split: prod.splits sum.splits)

lemma bindE_assoc: "bindE (bindE m g) f = bindE m (\<lambda>x. bindE (g x) f)"
  by (rule ext) (auto simp: bindE_def split: prod.splits sum.splits)

lemma requests_bindE_grows:
  assumes "\<And>x. grows_requests (f x)"
  shows "\<exists>rest. requests (snd (bindE m f w)) = requests (snd (m w)) @ rest"
  using assms by (auto simp: bindE_def grows_requests_def split: prod.splits sum.splits)

lemma bindE_report_quiet: "quiet s \<Longrightarrow> bindE (report s p t) f w = f () w"
  by (auto simp: quiet_def report_def bindE_def ret_def split: option.splits)

lemma bindE_lift_Inr: "bindE (lift (Inr x)) f w = f x w"
  by (simp add: bindE_def lift_def ret_def)

lemma readFileAsBase64_regular:
  "files w p = Some (RegularFile sz bytes) \<Longrightarrow> readFileAsBase64 p w = (Inr (base64 bytes), w)"
  by (simp add: readFileAsBase64_def fs_readFile_def bindE_def ret_def)

lemma readJsonFile_world: "snd (readJsonFile p w) = w"
  by (auto simp: readJsonFile_def fs_readFile_def bindE_def lift_def ret_def throw_def
      split: option.splits fsnode.splits sum.splits)

section \<open>The progress sink\<close>

lemma report_quiet: "\<forall>p t. f p t = None \<Longrightarrow> report (Some f) = report None"
  by (rule ext, rule ext) (simp add: report_def)

lemma parseDocument_quiet:
  "\<forall>p t. f p t = None \<Longrightarrow> parseDocument fp k fmts (Some f) = parseDocument fp k fmts None"
  by (simp add: parseDocument_def report_quiet Let_def cong: if_cong)

lemma extractInformation_quiet:
  "\<forall>p t. f p t = None \<Longrightarrow>
   extractInformation fp k sp sj auto (Some f) = extractInformation fp k sp sj auto None"
  by (simp add: extractInformation_def extractor_generateSchema_def report_quiet Let_def cong: if_cong)

lemma generateSchema_quiet:
  "\<forall>p t. f p t = None \<Longrightarrow> generateSchema fp k (Some f) = generateSchema fp k None"
  by (simp add: generateSchema_def report_quiet Let_def cong: if_cong)

lemma classifyDocument_quiet:
  "\<forall>p t. f p t = None \<Longrightarrow>
   classifyDocument fp k sp sj (Some f) = classifyDocument fp k sp sj None"
  by (simp add: classifyDocument_def report_quiet Let_def cong: if_cong)

lemma parseDocument_sink_fails:
  "validateDocumentFile fp w = (Inr (), w) \<Longrightarrow> f 10 100 = Some e \<Longrightarrow>
   parseDocument fp k fmts (Some f) w = (Inl e, w)"
  by (simp add: parseDocument_def bindE_def report_def throw_def)

lemma extractInformation_sink_fails:
  "validateExtractionFile fp w = (Inr (), w) \<Longrightarrow> f 10 100 = Some e \<Longrightarrow>
   extractInformation fp k sp sj auto (Some f) w = (Inl e, w)"
  by (simp add: extractInformation_def bindE_def report_def throw_def)

lemma generateSchema_sink_fails:
  "validateExtractionFile fp w = (Inr (), w) \<Longrightarrow> f 10 100 = Some e \<Longrightarrow>
   generateSchema fp k (Some f) w = (Inl e, w)"
  by (simp add: generateSchema_def bindE_def report_def throw_def)

lemma classifyDocument_sink_fails:
  "validateExtractionFile fp w = (Inr (), w) \<Longrightarrow> f 10 100 = Some e \<Longrightarrow>
   classifyDocument fp k sp sj (Some f) w = (Inl e, w)"
  by (simp add: classifyDocument_def bindE_def report_def throw_def)

text \<open>
  Claim C5, as amended. A progress sink that resolves at every checkpoint is invisible: each
  of the four handlers is then the same function as with an absent sink. A failure of the
  sink is not caught: when the sink rejects at the first checkpoint (progress 10, right after
  a successful validation), the handler rejects with the sink's error in an unchanged world.
\<close>

theorem sink_transparent_unless_it_fails:
  "((\<forall>p t. f p t = None) \<longrightarrow>
      parseDocument fp k fmts (Some f) = parseDocument fp k fmts None
      \<and> extractInformation fp k sp sj auto (Some f) = extractInformation fp k sp sj auto None
      \<and> generateSchema fp k (Some f) = generateSchema fp k None
      \<and> classifyDocument fp k sp sj (Some f) = classifyDocument fp k sp sj None)
   \<and> (f 10 100 = Some e \<longrightarrow>
        (fst (validateDocumentFile fp w) = Inr () \<longrightarrow>
           parseDocument fp k fmts (Some f) w = (Inl e, w))
        \<and> (fst (validateExtractionFile fp w) = Inr () \<longrightarrow>
           extractInformation fp k sp sj auto (Some f) w = (Inl e, w)
           \<and> generateSchema fp k (Some f) w = (Inl e, w)
           \<and> classifyDocument fp k sp sj (Some f) w = (Inl e, w)))"
  by (simp add: parseDocument_quiet extractInformation_quiet generateSchema_quiet
      classifyDocument_quiet validateDocumentFile_passes validateExtractionFile_passes
      parseDocument_sink_fails extractInformation_sink_fails generateSchema_sink_fails
      classifyDocument_sink_fails)

lemma demo_validateDocumentFile: "validateDocumentFile ''/docs/a.pdf'' demo_world = (Inr (), demo_world)"
  by (simp add: validateDocumentFile_def bindE_def validateFileExists_def fs_stat_def demo_world_def
     validateFileExtension_def lift_def ret_def throw_def extname_def last_segment_def toLowerCase_def lower_char_def
     DOCUMENT_PARSING_def validateFileSize_def MAX_SIZE_def Let_def)

lemma demo_validateExtractionFile: "validateExtractionFile ''/docs/a.pdf'' demo_world = (Inr (), demo_world)"
  by (simp add: validateExtractionFile_def bindE_def validateFileExists_def fs_stat_def demo_world_def
     validateFileExtension_def lift_def ret_def throw_def extname_def last_segment_def toLowerCase_def lower_char_def
     INFO_EXTRACTION_def validateFileSize_def MAX_SIZE_def Let_def)

lemma demo_digitization:
  "makeApiRequest DOCUMENT_DIGITIZATION k opts operation demo_world =
     (Inr (JObj [(''content'', JObj [(''html'', JStr ''<p>Hello</p>'')]),
                 (''model'', JStr ''document-parse'')]),
      demo_world\<lparr>requests := [build_request k DOCUMENT_DIGITIZATION opts]\<rparr>)"
  using makeApiRequest_first_success
          [of demo_world k DOCUMENT_DIGITIZATION opts
              "JObj [(''content'', JObj [(''html'', JStr ''<p>Hello</p>'')]),
                     (''model'', JStr ''document-parse'')]" operation]
  by (simp add: demo_world_def demo_remote_def build_request_url)

lemma demo_parseDocument:
  "fst (parseDocument ''/docs/a.pdf'' ''KEY'' None None demo_world) =
     Inr (''{\"html\":\"<p>Hello</p>\"}'' @ [CHR 0x0A, CHR 0x0A]
          @ ''The full response has been saved to /home/u/.mcp-upstage/outputs/document_parsing/a_2024-01-02T03-04-05_upstage.json for your reference.'')"
  apply (simp add: parseDocument_def bindE_def demo_validateDocumentFile report_def ret_def Let_def
      demo_digitization)
  apply (simp add: demo_world_def getOutputDirectory_def ensureDirectoryExists_def
      fs_mkdir_recursive_def path_join_def generateTimestampedFilename_def timestamp_of_def
      basename_ext_def extname_def last_segment_def saveJsonToFile_def JSON_stringify_indent_def
      QuoteJSONString_def escape_char_def fs_writeFile_def lift_def ret_def js_or_def
      stringify_text_def JSON_stringify_def)
  done

text \<open>
  Claim C5 as stated fails: on the example world, \<open>parseDocument\<close> succeeds with an absent
  sink and rejects with the sink's own error when the sink fails.
\<close>

theorem sink_failure_changes_result:
  "fst (parseDocument ''/docs/a.pdf'' ''KEY'' None (Some failing_sink) demo_world) =
     Inl (Error ''progress channel closed'')
   \<and> fst (parseDocument ''/docs/a.pdf'' ''KEY'' None None demo_world) =
     Inr (''{\"html\":\"<p>Hello</p>\"}'' @ [CHR 0x0A, CHR 0x0A]
          @ ''The full response has been saved to /home/u/.mcp-upstage/outputs/document_parsing/a_2024-01-02T03-04-05_upstage.json for your reference.'')"
  by (simp add: demo_parseDocument parseDocument_sink_fails [OF demo_validateDocumentFile]
      failing_sink_def)

theorem sink_transparent_unless_it_fails_witness:
  "parseDocument ''/docs/a.pdf'' ''KEY'' None (Some quiet_sink) =
     parseDocument ''/docs/a.pdf'' ''KEY'' None None
   \<and> classifyDocument ''/docs/a.pdf'' ''KEY'' None None (Some quiet_sink) =
     classifyDocument ''/docs/a.pdf'' ''KEY'' None None None
   \<and> parseDocument ''/docs/a.pdf'' ''KEY'' None (Some failing_sink) demo_world =
     (Inl (Error ''progress channel closed''), demo_world)
   \<and> extractInformation ''/docs/a.pdf'' ''KEY'' None None None (Some failing_sink) demo_world =
     (Inl (Error ''progress channel closed''), demo_world)"
  using sink_transparent_unless_it_fails
          [of quiet_sink "''/docs/a.pdf''" "''KEY''" None None None None
              "Error ''progress channel closed''" demo_world]
        sink_transparent_unless_it_fails
          [of failing_sink "''/docs/a.pdf''" "''KEY''" None None None None
              "Error ''progress channel closed''" demo_world]
  by (simp add: quiet_sink_def failing_sink_def demo_validateDocumentFile
      demo_validateExtractionFile)

section \<open>The schema shape validator\<close>

lemma is_object_cases: "is_object v = (case v of JObj kvs \<Rightarrow> True | JArr xs \<Rightarrow> True | _ \<Rightarrow> False)"
  by (cases v) (simp_all add: is_object_def)

lemma show_nat_digit: "show_nat n \<noteq> [] \<and> (\<forall>c \<in> set (show_nat n). is_digit c)"
proof (induction n rule: show_nat.induct)
  case (1 n)
  have d: "\<And>m. m < 10 \<Longrightarrow> is_digit (digit_char m)"
    by (simp add: is_digit_def digit_char_def)
  show ?case
  proof (cases "n < 10")
    case True
    then show ?thesis by (subst show_nat.simps, subst (2) show_nat.simps) (simp add: d)
  next
    case False
    with 1 show ?thesis by (subst show_nat.simps, subst (2) show_nat.simps) (simp add: d)
  qed
qed

lemma index_of_Some: "index_of k n = Some i \<Longrightarrow> k = show_nat i"
  by (induction n) (auto split: if_splits)

lemma index_of_not_digits:
  "k \<noteq> [] \<Longrightarrow> \<not> is_digit (hd k) \<Longrightarrow> index_of k n = None"
proof (cases "index_of k n")
  case None then show ?thesis by simp
next
  case (Some i)
  assume a: "k \<noteq> []" "\<not> is_digit (hd k)"
  from Some have "k = show_nat i" by (rule index_of_Some)
  with show_nat_digit [of i] a show ?thesis by (cases k) auto
qed

lemma index_of_words:
  "index_of ''type'' n = None" "index_of ''json_schema'' n = None" "index_of ''name'' n = None"
  "index_of ''schema'' n = None" "index_of ''properties'' n = None" "index_of ''method'' n = None"
  "index_of ''id'' n = None"
  by (simp_all add: index_of_not_digits is_digit_def)

lemma validateSchemaFormat_accepts: "(validateSchemaFormat s = Inr ()) = accepted_shape s"
  by (cases s)
     (auto simp: validateSchemaFormat_def accepted_shape_def bindR_def index_of_words
           split: option.splits jsval.splits sum.splits if_splits)

lemma validateSchemaFormat_not_object:
  "\<not> is_object s \<Longrightarrow> validateSchemaFormat s = Inl (Error ''Schema must be an object'')"
  by (simp add: validateSchemaFormat_def is_object_def)

lemma getProp_is_object: "is_object v \<Longrightarrow> getProp v k = Inr (getPropOpt v k)"
  by (cases v) (simp_all add: is_object_def getPropOpt_def split: option.splits)

lemma validateSchemaFormat_discriminator:
  \<open>is_object s \<Longrightarrow> getPropOpt s ''type'' \<noteq> JStr ''json_schema'' \<Longrightarrow>
   validateSchemaFormat s = Inl (Error ''Schema must have type "json_schema"'')\<close>
  by (simp add: validateSchemaFormat_def bindR_def getProp_is_object)
     (simp add: is_object_def)

lemma validateSchemaFormat_name:
  \<open>is_object s \<Longrightarrow> getPropOpt s ''type'' = JStr ''json_schema'' \<Longrightarrow>
   is_object (getPropOpt s ''json_schema'') \<Longrightarrow>
   \<not> (truthy (getPropOpt (getPropOpt s ''json_schema'') ''name'')
      \<and> typeof (getPropOpt (getPropOpt s ''json_schema'') ''name'') = ''string'') \<Longrightarrow>
   validateSchemaFormat s = Inl (Error ''Schema must have a "name" property'')\<close>
  by (simp add: validateSchemaFormat_def bindR_def getProp_is_object)
     (auto simp add: is_object_def)

lemma validateSchemaFormat_schema_type:
  \<open>is_object s \<Longrightarrow> getPropOpt s ''type'' = JStr ''json_schema'' \<Longrightarrow>
   is_object (getPropOpt s ''json_schema'') \<Longrightarrow>
   truthy (getPropOpt (getPropOpt s ''json_schema'') ''name'') \<Longrightarrow>
   typeof (getPropOpt (getPropOpt s ''json_schema'') ''name'') = ''string'' \<Longrightarrow>
   is_object (getPropOpt (getPropOpt s ''json_schema'') ''schema'') \<Longrightarrow>
   getPropOpt (getPropOpt (getPropOpt s ''json_schema'') ''schema'') ''type'' \<noteq> JStr ''object'' \<Longrightarrow>
   validateSchemaFormat s = Inl (Error ''Schema type must be "object"'')\<close>
  by (simp add: validateSchemaFormat_def bindR_def getProp_is_object)
     (auto simp add: is_object_def)

lemma validateSchemaFormat_properties:
  \<open>is_object s \<Longrightarrow> getPropOpt s ''type'' = JStr ''json_schema'' \<Longrightarrow>
   is_object (getPropOpt s ''json_schema'') \<Longrightarrow>
   truthy (getPropOpt (getPropOpt s ''json_schema'') ''name'') \<Longrightarrow>
   typeof (getPropOpt (getPropOpt s ''json_schema'') ''name'') = ''string'' \<Longrightarrow>
   is_object (getPropOpt (getPropOpt s ''json_schema'') ''schema'') \<Longrightarrow>
   getPropOpt (getPropOpt (getPropOpt s ''json_schema'') ''schema'') ''type'' = JStr ''object'' \<Longrightarrow>
   \<not> is_object (getPropOpt (getPropOpt (getPropOpt s ''json_schema'') ''schema'') ''properties'') \<Longrightarrow>
   validateSchemaFormat s = Inl (Error ''Schema must have "properties" object'')\<close>
  by (simp add: validateSchemaFormat_def bindR_def getProp_is_object)
     (auto simp add: is_object_def)

text \<open>
  Claim C4, as amended. \<open>validateSchemaFormat\<close> accepts exactly the candidates that are
  objects with \<open>type = "json_schema"\<close> whose \<open>json_schema\<close> is an object with a non-empty
  string \<open>name\<close> and an object \<open>schema\<close> of \<open>type = "object"\<close> whose \<open>properties\<close> is an
  object or an array, empty or not. A missing discriminator, a missing name, a wrong schema
  type and missing properties are each rejected with the message of that rule, and the
  messages of the validator are pairwise distinct.
\<close>

theorem validateSchemaFormat_characterised:
  \<open>(validateSchemaFormat s = Inr ()) = accepted_shape s
   \<and> (is_object s \<longrightarrow> getPropOpt s ''type'' \<noteq> JStr ''json_schema'' \<longrightarrow>
        validateSchemaFormat s = Inl (Error ''Schema must have type "json_schema"''))
   \<and> (is_object s \<longrightarrow> getPropOpt s ''type'' = JStr ''json_schema'' \<longrightarrow>
        is_object (getPropOpt s ''json_schema'') \<longrightarrow>
        \<not> (truthy (getPropOpt (getPropOpt s ''json_schema'') ''name'')
           \<and> typeof (getPropOpt (getPropOpt s ''json_schema'') ''name'') = ''string'') \<longrightarrow>
        validateSchemaFormat s = Inl (Error ''Schema must have a "name" property''))
   \<and> (is_object s \<longrightarrow> getPropOpt s ''type'' = JStr ''json_schema'' \<longrightarrow>
        is_object (getPropOpt s ''json_schema'') \<longrightarrow>
        truthy (getPropOpt (getPropOpt s ''json_schema'') ''name'') \<longrightarrow>
        typeof (getPropOpt (getPropOpt s ''json_schema'') ''name'') = ''string'' \<longrightarrow>
        is_object (getPropOpt (getPropOpt s ''json_schema'') ''schema'') \<longrightarrow>
        (getPropOpt (getPropOpt (getPropOpt s ''json_schema'') ''schema'') ''type'' \<noteq> JStr ''object'' \<longrightarrow>
           validateSchemaFormat s = Inl (Error ''Schema type must be "object"''))
        \<and> (getPropOpt (getPropOpt (getPropOpt s ''json_schema'') ''schema'') ''type'' = JStr ''object'' \<longrightarrow>
           \<not> is_object (getPropOpt (getPropOpt (getPropOpt s ''json_schema'') ''schema'') ''properties'') \<longrightarrow>
           validateSchemaFormat s = Inl (Error ''Schema must have "properties" object'')))
   \<and> distinct [''Schema must be an object'',
               ''Schema must have type "json_schema"'',
               ''Schema must have "json_schema" property'',
               ''Schema must have a "name" property'',
               ''Schema must have a "schema" property'',
               ''Schema type must be "object"'',
               ''Schema must have "properties" object'']\<close>
  by (simp add: validateSchemaFormat_accepts validateSchemaFormat_discriminator
      validateSchemaFormat_name validateSchemaFormat_schema_type validateSchemaFormat_properties)

text \<open>
  Claim C4 as stated asks for a non-empty \<open>properties\<close> mapping; a schema whose
  \<open>properties\<close> is the empty object is accepted.
\<close>

theorem validateSchemaFormat_accepts_empty_properties:
  "validateSchemaFormat
     (JObj [(''type'', JStr ''json_schema''),
            (''json_schema'',
             JObj [(''name'', JStr ''document_schema''),
                   (''schema'', JObj [(''type'', JStr ''object''), (''properties'', JObj [])])])])
   = Inr ()"
  by (simp add: validateSchemaFormat_def bindR_def)

theorem validateSchemaFormat_characterised_witness:
  \<open>validateSchemaFormat commonSchemas_receipt = Inr ()
   \<and> validateSchemaFormat DEFAULT_CLASSIFICATION_SCHEMA = Inl (Error ''Schema type must be "object"'')
   \<and> validateSchemaFormat (JObj [(''type'', JStr ''object'')]) =
       Inl (Error ''Schema must have type "json_schema"'')\<close>
  using validateSchemaFormat_characterised [of commonSchemas_receipt]
        validateSchemaFormat_characterised [of DEFAULT_CLASSIFICATION_SCHEMA]
        validateSchemaFormat_characterised [of "JObj [(''type'', JStr ''object'')]"]
  by (simp add: commonSchemas_receipt_def createExtractionSchema_def accepted_shape_def
      DEFAULT_CLASSIFICATION_SCHEMA_def is_object_def getPropOpt_def)

section \<open>The HTTP transport against the stdio transport\<close>

lemma accept_ok_present:
  "accept_ok req \<Longrightarrow>
   \<not> (\<not> present (hq_accept req) \<or>
      (\<not> str_includes (case hq_accept req of Some a \<Rightarrow> a | None \<Rightarrow> []) ''application/json'' \<and>
       \<not> str_includes (case hq_accept req of Some a \<Rightarrow> a | None \<Rightarrow> []) ''text/event-stream''))"
  by (auto simp: accept_ok_def present_def split: option.splits)

lemma post_mcp_invalid_request:
  "accept_ok req \<Longrightarrow> \<not> is_object (hq_body req) \<Longrightarrow>
   hs_status (post_mcp req) = 400
   \<and> hs_body (post_mcp req) = rpc_error (- 32600) ''Invalid Request'' JNull"
  using accept_ok_present [of req]
  by (simp add: post_mcp_def Let_def is_object_def rpc_error_def)

lemma post_mcp_method_not_found:
  "accept_ok req \<Longrightarrow> is_object (hq_body req) \<Longrightarrow>
   getPropOpt (hq_body req) ''method'' \<noteq> JStr ''tools/list'' \<Longrightarrow>
   hs_status (post_mcp req) = 200
   \<and> hs_body (post_mcp req) =
       rpc_error (- 32601) ''Method not found'' (getPropOpt (hq_body req) ''id'')"
  using accept_ok_present [of req]
  by (simp add: post_mcp_def Let_def is_object_def rpc_error_def)

text \<open>
  Claim C6, as amended. For a \<open>POST /mcp\<close> request with an acceptable \<open>Accept\<close> header:
  when the body is absent or not an object, the response is the JSON-RPC error -32600
  (invalid request, HTTP status 400); when the body is an object or an array whose
  \<open>method\<close> is not \<open>tools/list\<close> (an unknown method such as \<open>nonexistent/thing\<close>, or
  no \<open>method\<close> member at all), the response is the JSON-RPC error -32601 (method not
  found), with the \<open>id\<close> of the request.
\<close>

theorem post_mcp_error_codes:
  "(accept_ok req \<longrightarrow> \<not> is_object (hq_body req) \<longrightarrow>
      hs_status (post_mcp req) = 400
      \<and> hs_body (post_mcp req) = rpc_error (- 32600) ''Invalid Request'' JNull)
   \<and> (accept_ok req \<longrightarrow> is_object (hq_body req) \<longrightarrow>
      getPropOpt (hq_body req) ''method'' \<noteq> JStr ''tools/list'' \<longrightarrow>
      hs_status (post_mcp req) = 200
      \<and> hs_body (post_mcp req) =
          rpc_error (- 32601) ''Method not found'' (getPropOpt (hq_body req) ''id''))"
  by (simp add: post_mcp_invalid_request post_mcp_method_not_found)

lemma demo_accept: "accept_ok demo_no_envelope" "accept_ok demo_unknown_method"
  "accept_ok demo_tools_call" "accept_ok demo_tools_list"
  by (simp_all add: accept_ok_def demo_no_envelope_def demo_unknown_method_def
      demo_tools_call_def demo_tools_list_def)

text \<open>
  Claim C6 as stated fails in its first half: a JSON body that has neither \<open>jsonrpc\<close> nor
  \<open>method\<close> is answered with -32601, not -32600.
\<close>

theorem post_mcp_missing_envelope_not_found:
  "hs_body (post_mcp demo_no_envelope) =
     JObj [(''jsonrpc'', JStr ''2.0''),
           (''error'', JObj [(''code'', JNum (- 32601)), (''message'', JStr ''Method not found'')]),
           (''id'', JUndefined)]"
  using post_mcp_method_not_found [OF demo_accept(1)]
  by (simp add: demo_no_envelope_def is_object_def getPropOpt_def rpc_error_def)

theorem post_mcp_error_codes_witness:
  "hs_body (post_mcp demo_unknown_method) =
     rpc_error (- 32601) ''Method not found'' (JNum 3)
   \<and> hs_body (post_mcp \<lparr>hq_accept = Some ''application/json'', hq_session = None,
                          hq_body = JUndefined\<rparr>) =
     rpc_error (- 32600) ''Invalid Request'' JNull"
  using post_mcp_error_codes [of demo_unknown_method]
        post_mcp_error_codes [of "\<lparr>hq_accept = Some ''application/json'', hq_session = None,
                                    hq_body = JUndefined\<rparr>"]
  by (simp add: demo_accept demo_unknown_method_def is_object_def getPropOpt_def accept_ok_def)

lemma server_sink_quiet: "\<forall>p t. server_sink p t = None"
  by (simp add: server_sink_def)

lemma demo_stdio_call:
  "fst (callToolHandler ''KEY'' (hq_body demo_tools_call) demo_world) =
     Inr (JObj [(''content'',
                 text_content (''{\"html\":\"<p>Hello</p>\"}'' @ [CHR 0x0A, CHR 0x0A]
          @ ''The full response has been saved to /home/u/.mcp-upstage/outputs/document_parsing/a_2024-01-02T03-04-05_upstage.json for your reference.''))])"
proof -
  have p: "parseDocument ''/docs/a.pdf'' ''KEY'' None (Some server_sink) =
           parseDocument ''/docs/a.pdf'' ''KEY'' None None"
    by (rule parseDocument_quiet [OF server_sink_quiet])
  obtain w' where r: "parseDocument ''/docs/a.pdf'' ''KEY'' None None demo_world =
      (Inr (''{\"html\":\"<p>Hello</p>\"}'' @ [CHR 0x0A, CHR 0x0A]
          @ ''The full response has been saved to /home/u/.mcp-upstage/outputs/document_parsing/a_2024-01-02T03-04-05_upstage.json for your reference.''), w')"
    using demo_parseDocument by (cases "parseDocument ''/docs/a.pdf'' ''KEY'' None None demo_world") simp
  show ?thesis
    by (simp add: callToolHandler_def demo_tools_call_def bindE_def bindR_def lift_def ret_def
        catchE_def route_tool_def ParseDocumentSchema_def z_object_def z_field_def z_string_def
        z_string_array_optional_def parseAndSaveDocument_def p r)
qed

text \<open>
  Claim C1 does not hold of the code. On the HTTP transport a \<open>tools/call\<close> of
  \<open>parse_document\<close> is answered with the JSON-RPC error -32601, while the stdio server
  routes the same request to the handler and returns its result; and \<open>tools/list\<close> on
  the HTTP transport returns a list of its own with two descriptors, while the stdio server
  lists four.
\<close>

theorem http_transport_does_not_route:
  "hs_body (post_mcp demo_tools_call) =
     JObj [(''jsonrpc'', JStr ''2.0''),
           (''error'', JObj [(''code'', JNum (- 32601)), (''message'', JStr ''Method not found'')]),
           (''id'', JNum 1)]
   \<and> fst (callToolHandler ''KEY'' (hq_body demo_tools_call) demo_world) =
     Inr (JObj [(''content'',
                 text_content (''{\"html\":\"<p>Hello</p>\"}'' @ [CHR 0x0A, CHR 0x0A]
          @ ''The full response has been saved to /home/u/.mcp-upstage/outputs/document_parsing/a_2024-01-02T03-04-05_upstage.json for your reference.''))])
   \<and> hs_body (post_mcp demo_tools_list) =
     JObj [(''jsonrpc'', JStr ''2.0''),
           (''result'', JObj [(''tools'', JArr http_tools)]),
           (''id'', JNum 2)]
   \<and> fst (listToolsHandler (hq_body demo_tools_list) demo_world) = Inr (JObj [(''tools'', JArr tools)])
   \<and> tool_names http_tools = [JStr ''parse_document'', JStr ''extract_information'']
   \<and> tool_names tools = [JStr ''parse_document'', JStr ''extract_information'',
                          JStr ''generate_schema'', JStr ''classify_document'']"
proof -
  have a: "hs_body (post_mcp demo_tools_call) =
     JObj [(''jsonrpc'', JStr ''2.0''),
           (''error'', JObj [(''code'', JNum (- 32601)), (''message'', JStr ''Method not found'')]),
           (''id'', JNum 1)]"
    using post_mcp_method_not_found [OF demo_accept(3)]
    by (simp add: demo_tools_call_def is_object_def getPropOpt_def rpc_error_def)
  have b: "hs_body (post_mcp demo_tools_list) =
     JObj [(''jsonrpc'', JStr ''2.0''),
           (''result'', JObj [(''tools'', JArr http_tools)]),
           (''id'', JNum 2)]"
    using accept_ok_present [OF demo_accept(4)]
    by (simp add: post_mcp_def Let_def)
       (simp add: demo_tools_list_def getPropOpt_def present_def)
  have c: "fst (listToolsHandler (hq_body demo_tools_list) demo_world) = Inr (JObj [(''tools'', JArr tools)])"
    by (simp add: listToolsHandler_def ret_def)
  have d: "tool_names http_tools = [JStr ''parse_document'', JStr ''extract_information'']"
    by (simp add: tool_names_def http_tools_def getPropOpt_def)
  have e: "tool_names tools = [JStr ''parse_document'', JStr ''extract_information'',
                          JStr ''generate_schema'', JStr ''classify_document'']"
    by (simp add: tool_names_def tools_def getPropOpt_def)
  show ?thesis using a b c d e demo_stdio_call by simp
qed

theorem http_transport_does_not_route_witness:
  "getPropOpt (getPropOpt (hs_body (post_mcp demo_tools_call)) ''error'') ''code'' = JNum (- 32601)
   \<and> length (tool_names http_tools) = 2 \<and> length (tool_names tools) = 4"
  using http_transport_does_not_route by (simp add: getPropOpt_def)

section \<open>Schema resolution of \<open>extractInformation\<close>\<close>

lemma parseSchemaJson_Inr:
  "parseSchemaJson j = Inr parsed \<Longrightarrow> validateSchemaFormat parsed = Inr ()"
  by (auto simp: parseSchemaJson_def bindR_def split: sum.splits error.splits)

lemma validated_json_schema:
  assumes v: "validateSchemaFormat s = Inr ()"
  shows "getProp s ''json_schema'' = Inr (getPropOpt s ''json_schema'')
         \<and> truthy (getPropOpt s ''json_schema'')"
proof -
  have o: "is_object s"
    using v validateSchemaFormat_not_object [of s] by auto
  have "is_object (getPropOpt s ''json_schema'')"
    using v o
    by (simp add: validateSchemaFormat_def bindR_def getProp_is_object is_object_def
        split: if_splits)
  with o show ?thesis by (simp add: getProp_is_object is_object_def)
qed

lemma bindE_lift_Inl: "bindE (lift (Inl e)) f w = (Inl e, w)"
  by (simp add: bindE_def lift_def throw_def)

lemma bindE_throw_apply: "bindE (throw e) f w = (Inl e, w)"
  by (simp add: bindE_def throw_def)

lemma extract_schema_json_used:
  assumes f: "files w p = Some (RegularFile sz bytes)"
    and v: "validateExtractionFile p w = (Inr (), w)"
    and q: "quiet onProgress"
    and j: "sj = Some j" "j \<noteq> []" "parseSchemaJson j = Inr parsed"
  shows "\<exists>n. 0 < n \<and> requests (snd (extractInformation p k sp sj auto onProgress w)) =
            requests w @ replicate n (extraction_request k p bytes (getPropOpt parsed ''json_schema''))"
  using parseSchemaJson_Inr [OF j(3), THEN validated_json_schema]
  apply (simp add: extractInformation_def Let_def present_def bindR_def j
      bindE_Inr [of "validateExtractionFile p" w "()" w, OF v] bindE_report_quiet [OF q]
      bindE_lift_Inr bindE_ret bindE_assoc
      bindE_Inr [of "readFileAsBase64 p" w "base64 bytes" w, OF readFileAsBase64_regular [OF f]]
      cong: if_cong split del: if_split)
  apply (subst requests_bindE_keeps)
   apply (intro keeps_intros)
  apply (simp add: extraction_request_def)
  apply (rule makeApiRequest_requests)
  done

lemma extract_schema_json_invalid:
  assumes v: "validateExtractionFile p w = (Inr (), w)"
    and q: "quiet onProgress"
    and j: "sj = Some j" "j \<noteq> []" "parseSchemaJson j = Inl e"
  shows "extractInformation p k sp sj auto onProgress w =
           (Inl (Error (''Invalid schema format: '' @ message e)), w)"
  by (simp add: extractInformation_def Let_def present_def bindR_def j
      bindE_Inr [of "validateExtractionFile p" w "()" w, OF v] bindE_report_quiet [OF q]
      bindE_lift_Inl bindE_assoc
      cong: if_cong split del: if_split)

lemma extract_schema_path_used:
  assumes f: "files w p = Some (RegularFile sz bytes)"
    and v: "validateExtractionFile p w = (Inr (), w)"
    and q: "quiet onProgress"
    and j: "\<not> present sj" "sp = Some path" "path \<noteq> []"
    and r: "fst (readJsonFile path w) = Inr sch" "truthy sch"
  shows "\<exists>n. 0 < n \<and> requests (snd (extractInformation p k sp sj auto onProgress w)) =
            requests w @ replicate n (extraction_request k p bytes sch)"
proof -
  have rd: "readJsonFile path w = (Inr sch, w)"
    using r(1) readJsonFile_world [of path w] by (cases "readJsonFile path w") simp
  show ?thesis
    using j(1) r(2)
    apply (simp add: extractInformation_def Let_def j(2,3) present_def
        bindE_Inr [of "validateExtractionFile p" w "()" w, OF v] bindE_report_quiet [OF q]
        bindE_Inr [of "readJsonFile path" w sch w, OF rd]
        bindE_lift_Inr bindE_ret bindE_assoc
        bindE_Inr [of "readFileAsBase64 p" w "base64 bytes" w, OF readFileAsBase64_regular [OF f]]
        cong: if_cong split del: if_split)
    apply (subst requests_bindE_keeps)
     apply (intro keeps_intros)
    apply (simp add: extraction_request_def)
    apply (rule makeApiRequest_requests)
    done
qed

lemma extract_schema_path_unreadable:
  assumes v: "validateExtractionFile p w = (Inr (), w)"
    and q: "quiet onProgress"
    and j: "\<not> present sj" "sp = Some path" "path \<noteq> []"
    and r: "fst (readJsonFile path w) = Inl e"
  shows "extractInformation p k sp sj auto onProgress w = (Inl e, w)"
proof -
  have rd: "readJsonFile path w = (Inl e, w)"
    using r(1) readJsonFile_world [of path w] by (cases "readJsonFile path w") simp
  show ?thesis
    using j(1)
    by (simp add: extractInformation_def Let_def j(2,3) present_def
        bindE_Inr [of "validateExtractionFile p" w "()" w, OF v] bindE_report_quiet [OF q]
        bindE_Inl [of "readJsonFile path" w e w, OF rd] bindE_assoc
        cong: if_cong split del: if_split)
qed

lemma extract_schema_generated:
  assumes f: "files w p = Some (RegularFile sz bytes)"
    and v: "validateExtractionFile p w = (Inr (), w)"
    and q: "quiet onProgress"
    and j: "\<not> present sj" "\<not> present sp" "auto \<noteq> Some False"
  shows "\<exists>rest. requests (snd (extractInformation p k sp sj auto onProgress w)) =
            requests w @ schema_generation_request k p bytes # rest"
proof -
  have a: "(case auto of None \<Rightarrow> True | Some b \<Rightarrow> b)"
    using j(3) by (cases auto) auto
  let ?req = "makeApiRequest SCHEMA_GENERATION k
                (json_request (JObj [(''model'', JStr ''information-extract''),
                                     (''messages'', image_messages (getMimeType p) (base64 bytes))]))
                (Some ''Schema generation'')"
  obtain n where n: "0 < n"
      "requests (snd (?req w)) = requests w @ replicate n (schema_generation_request k p bytes)"
    using makeApiRequest_requests
            [of SCHEMA_GENERATION k
                "json_request (JObj [(''model'', JStr ''information-extract''),
                                     (''messages'', image_messages (getMimeType p) (base64 bytes))])"
                "Some ''Schema generation''" w]
    by (auto simp: schema_generation_request_def)
  then obtain m where m: "n = Suc m" by (cases n) auto
  have "\<exists>rest. requests (snd (extractInformation p k sp sj auto onProgress w)) =
            requests (snd (?req w)) @ rest"
    using j(1,2) a
    apply (simp add: extractInformation_def extractor_generateSchema_def Let_def present_def
        bindE_Inr [of "validateExtractionFile p" w "()" w, OF v] bindE_report_quiet [OF q]
        bindE_lift_Inr bindE_ret bindE_assoc
        bindE_Inr [of "readFileAsBase64 p" w "base64 bytes" w, OF readFileAsBase64_regular [OF f]]
        cong: if_cong split del: if_split)
    apply (rule requests_bindE_grows)
    apply (intro grows_intros)
    done
  then show ?thesis
    using n(2) m by auto
qed

lemma extract_no_schema:
  assumes v: "validateExtractionFile p w = (Inr (), w)"
    and q: "quiet onProgress"
    and j: "\<not> present sj" "\<not> present sp" "auto = Some False"
  shows "extractInformation p k sp sj auto onProgress w = (Inl no_schema_error, w)"
  using j(1,2)
  by (simp add: extractInformation_def Let_def j(3) no_schema_error_def present_def
      bindE_Inr [of "validateExtractionFile p" w "()" w, OF v] bindE_report_quiet [OF q]
      bindE_ret bindE_throw_apply throw_def
      cong: if_cong split del: if_split)

lemma readJsonFile_parsed:
  "files w p = Some (RegularFile n c) \<Longrightarrow> JSON_parse c = Inr v \<Longrightarrow>
   readJsonFile p w = (Inr v, w)"
  by (simp add: readJsonFile_def fs_readFile_def bindE_def lift_def ret_def)

lemma readJsonFile_unparsed:
  "files w p = Some (RegularFile n c) \<Longrightarrow> JSON_parse c = Inl e \<Longrightarrow>
   readJsonFile p w = (Inl e, w)"
  by (simp add: readJsonFile_def fs_readFile_def bindE_def lift_def throw_def)

lemma readJsonFile_missing:
  "files w p = None \<Longrightarrow> readJsonFile p w = (Inl (SystemError ''ENOENT'' p), w)"
  by (simp add: readJsonFile_def fs_readFile_def bindE_def)

lemma truthy_serialised:
  "truthy v \<Longrightarrow> JSON_stringify_indent v = Some (stringify_indent_text v)"
  by (cases v) (simp_all add: JSON_stringify_indent_def stringify_indent_text_def Let_def)

lemma path_join_two: "x \<noteq> [] \<Longrightarrow> path_join [d, x] \<noteq> d"
  by (cases "d = []") (simp_all add: path_join_def)

lemma generated_schema_path_not_directory: "generated_schema_path w p \<noteq> schemas_directory w"
  unfolding generated_schema_path_def by (rule path_join_two) simp

lemma extractor_generateSchema_responded:
  assumes f: "files w p = Some (RegularFile sz bytes)"
    and q: "quiet onProgress"
    and r: "remote w (length (requests w)) (schema_generation_request k p bytes) = Responded result"
    and c: "no_choices result = Inr False" "first_choice_content result = Inr answer"
      "JSON_parse (ToString answer) = Inr gen" "getProp gen ''json_schema'' = Inr js" "truthy js"
    and d: "files w (schemas_directory w) = None \<or> files w (schemas_directory w) = Some Directory"
    and n: "files w (generated_schema_path w p) = None"
  shows "\<exists>w2. extractor_generateSchema p k onProgress w = (Inr js, w2)
             \<and> requests w2 = requests w @ [schema_generation_request k p bytes]
             \<and> files w2 p = Some (RegularFile sz bytes)"
proof -
  let ?opts = "json_request (JObj [(''model'', JStr ''information-extract''),
                                   (''messages'', image_messages (getMimeType p) (base64 bytes))])"
  let ?w1 = "w\<lparr>requests := requests w @ [build_request k SCHEMA_GENERATION ?opts]\<rparr>"
  have req: "makeApiRequest SCHEMA_GENERATION k ?opts (Some ''Schema generation'') w = (Inr result, ?w1)"
    using r by (intro makeApiRequest_first_success) (simp add: schema_generation_request_def)
  have pd: "p \<noteq> schemas_directory w" "p \<noteq> generated_schema_path w p"
    using f d n by auto
  show ?thesis
    using d n pd generated_schema_path_not_directory [of w p]
    apply (simp add: extractor_generateSchema_def Let_def bindE_report_quiet [OF q]
        bindE_Inr [of "readFileAsBase64 p" w "base64 bytes" w, OF readFileAsBase64_regular [OF f]]
        bindE_Inr [of "makeApiRequest SCHEMA_GENERATION k ?opts (Some ''Schema generation'')" w
                      result ?w1, OF req] c bindE_lift_Inr)
    apply (simp add: bindE_def getOutputDirectory_def ensureDirectoryExists_def
        fs_mkdir_recursive_def generateTimestampedFilename_def saveJsonToFile_def
        truthy_serialised [OF c(5)] fs_writeFile_def ret_def schemas_directory_def
        generated_schema_path_def schema_generation_request_def f Let_def
        split: option.splits fsnode.splits)
    apply auto
    done
qed


lemma extract_schema_generated_used:
  assumes f: "files w p = Some (RegularFile sz bytes)"
    and v: "validateExtractionFile p w = (Inr (), w)"
    and q: "quiet onProgress"
    and j: "\<not> present sj" "\<not> present sp" "auto \<noteq> Some False"
    and r: "remote w (length (requests w)) (schema_generation_request k p bytes) = Responded result"
    and c: "no_choices result = Inr False" "first_choice_content result = Inr answer"
      "JSON_parse (ToString answer) = Inr gen" "getProp gen ''json_schema'' = Inr js" "truthy js"
    and d: "files w (schemas_directory w) = None \<or> files w (schemas_directory w) = Some Directory"
    and n: "files w (generated_schema_path w p) = None"
  shows "\<exists>n. 0 < n \<and> requests (snd (extractInformation p k sp sj auto onProgress w)) =
            requests w @ schema_generation_request k p bytes
              # replicate n (extraction_request k p bytes js)"
proof -
  have a: "(case auto of None \<Rightarrow> True | Some b \<Rightarrow> b)"
    using j(3) by (cases auto) auto
  from extractor_generateSchema_responded [OF f q r c d n]
  obtain w2 where g: "extractor_generateSchema p k onProgress w = (Inr js, w2)"
    and rq: "requests w2 = requests w @ [schema_generation_request k p bytes]"
    and f2: "files w2 p = Some (RegularFile sz bytes)"
    by blast
  show ?thesis
    using j(1,2) a c(5)
    apply (simp add: extractInformation_def Let_def present_def
        bindE_Inr [of "validateExtractionFile p" w "()" w, OF v] bindE_report_quiet [OF q]
        bindE_Inr [of "extractor_generateSchema p k onProgress" w js w2, OF g]
        bindE_Inr [of "readFileAsBase64 p" w2 "base64 bytes" w2, OF readFileAsBase64_regular [OF f2]]
        cong: if_cong split del: if_split)
    apply (subst requests_bindE_keeps)
     apply (intro keeps_intros)
    apply (simp add: extraction_request_def)
    using makeApiRequest_requests
            [of INFORMATION_EXTRACTION k
                "json_request
                   (JObj [(''model'', JStr ''information-extract''),
                          (''messages'', image_messages (getMimeType p) (base64 bytes)),
                          (''response_format'',
                           JObj [(''type'', JStr ''json_schema''), (''json_schema'', js)])])"
                "Some ''Information extraction''" w2]
    apply (simp add: rq)
    done
qed

lemma extract_schema_path_falsy:
  assumes v: "validateExtractionFile p w = (Inr (), w)"
    and q: "quiet onProgress"
    and j: "\<not> present sj" "sp = Some path" "path \<noteq> []"
    and r: "readJsonFile path w = (Inr sch, w)" "\<not> truthy sch"
  shows "extractInformation p k sp sj auto onProgress w = (Inl no_schema_error, w)"
  using j(1) r(2)
  by (simp add: extractInformation_def Let_def j(2,3) present_def no_schema_error_def
      bindE_Inr [of "validateExtractionFile p" w "()" w, OF v] bindE_report_quiet [OF q]
      bindE_Inr [of "readJsonFile path" w sch w, OF r(1)] bindE_ret bindE_assoc throw_def
      cong: if_cong split del: if_split)

text \<open>
  Claim C3. For an \<open>extract_information\<close> call on a file that passes validation (with a
  progress sink that is absent or resolves), the schema comes from \<open>schema_json\<close> before
  \<open>schema_path\<close> before generation. An argument counts as supplied when it is a non-empty
  string (\<open>present\<close>), which is how the code tests it.
  \<^item> With \<open>schema_json\<close> supplied and well-formed, every request of the call is the
    extraction request carrying the \<open>json_schema\<close> of that text, whatever \<open>schema_path\<close> and
    \<open>auto_generate_schema\<close> are. With \<open>schema_json\<close> supplied and refused by
    \<open>parseSchemaJson\<close>, the call fails on it in an unchanged world.
  \<^item> With only \<open>schema_path\<close> supplied, and the file at that path holding the JSON text
    of a truthy value, every request is the extraction request carrying that value. A file
    that holds a falsy value fails the call with the no-schema error, a file that does not
    hold JSON with the parser's error, and a missing file with \<open>ENOENT\<close>, each in an
    unchanged world.
  \<^item> With neither supplied and \<open>auto_generate_schema\<close> not false, the first request of the
    call is the schema-generation request; and when the API answers it with a text that
    holds a \<open>json_schema\<close>, and that schema can be saved, the requests of the call are the
    schema-generation request and then extraction requests carrying the generated schema.
  \<^item> With neither supplied and \<open>auto_generate_schema\<close> false, the call fails with the
    no-schema error in an unchanged world: no request has gone out.

  The two refusals by a parser are stated for the errors of the program (\<open>in_model\<close>), not
  for the texts on which the parser of the model gives no answer.
\<close>

theorem extract_schema_precedence:
  assumes "files w p = Some (RegularFile sz bytes)"
    and "fst (validateExtractionFile p w) = Inr ()"
    and "quiet onProgress"
  shows
    "(sj = Some j \<longrightarrow> j \<noteq> [] \<longrightarrow> parseSchemaJson j = Inr parsed \<longrightarrow>
        (\<exists>n. 0 < n \<and> requests (snd (extractInformation p k sp sj auto onProgress w)) =
           requests w @ replicate n (extraction_request k p bytes (getPropOpt parsed ''json_schema''))))
     \<and> (sj = Some j \<longrightarrow> j \<noteq> [] \<longrightarrow> parseSchemaJson j = Inl e \<longrightarrow> in_model e \<longrightarrow>
        extractInformation p k sp sj auto onProgress w =
          (Inl (Error (''Invalid schema format: '' @ message e)), w))
     \<and> (\<not> present sj \<longrightarrow> sp = Some path \<longrightarrow> path \<noteq> [] \<longrightarrow>
        files w path = Some (RegularFile len schemaText) \<longrightarrow>
        JSON_parse schemaText = Inr sch \<longrightarrow> truthy sch \<longrightarrow>
        (\<exists>n. 0 < n \<and> requests (snd (extractInformation p k sp sj auto onProgress w)) =
           requests w @ replicate n (extraction_request k p bytes sch)))
     \<and> (\<not> present sj \<longrightarrow> sp = Some path \<longrightarrow> path \<noteq> [] \<longrightarrow>
        files w path = Some (RegularFile len schemaText) \<longrightarrow>
        JSON_parse schemaText = Inr sch \<longrightarrow> \<not> truthy sch \<longrightarrow>
        extractInformation p k sp sj auto onProgress w = (Inl no_schema_error, w))
     \<and> (\<not> present sj \<longrightarrow> sp = Some path \<longrightarrow> path \<noteq> [] \<longrightarrow>
        files w path = Some (RegularFile len schemaText) \<longrightarrow>
        JSON_parse schemaText = Inl e \<longrightarrow> in_model e \<longrightarrow>
        extractInformation p k sp sj auto onProgress w = (Inl e, w))
     \<and> (\<not> present sj \<longrightarrow> sp = Some path \<longrightarrow> path \<noteq> [] \<longrightarrow> files w path = None \<longrightarrow>
        extractInformation p k sp sj auto onProgress w = (Inl (SystemError ''ENOENT'' path), w))
     \<and> (\<not> present sj \<longrightarrow> \<not> present sp \<longrightarrow> auto \<noteq> Some False \<longrightarrow>
        (\<exists>rest. requests (snd (extractInformation p k sp sj auto onProgress w)) =
           requests w @ schema_generation_request k p bytes # rest))
     \<and> (\<not> present sj \<longrightarrow> \<not> present sp \<longrightarrow> auto \<noteq> Some False \<longrightarrow>
        remote w (length (requests w)) (schema_generation_request k p bytes) = Responded result \<longrightarrow>
        no_choices result = Inr False \<longrightarrow> first_choice_content result = Inr answer \<longrightarrow>
        JSON_parse (ToString answer) = Inr gen \<longrightarrow> getProp gen ''json_schema'' = Inr js \<longrightarrow>
        truthy js \<longrightarrow>
        (files w (schemas_directory w) = None \<or> files w (schemas_directory w) = Some Directory) \<longrightarrow>
        files w (generated_schema_path w p) = None \<longrightarrow>
        (\<exists>n. 0 < n \<and> requests (snd (extractInformation p k sp sj auto onProgress w)) =
           requests w @ schema_generation_request k p bytes
             # replicate n (extraction_request k p bytes js)))
     \<and> (\<not> present sj \<longrightarrow> \<not> present sp \<longrightarrow> auto = Some False \<longrightarrow>
        extractInformation p k sp sj auto onProgress w = (Inl no_schema_error, w))"
proof -
  have v: "validateExtractionFile p w = (Inr (), w)"
    using assms(2) by (rule validateExtractionFile_passes)
  show ?thesis
  proof (intro conjI impI)
    assume "sj = Some j" "j \<noteq> []" "parseSchemaJson j = Inr parsed"
    then show "\<exists>n. 0 < n \<and> requests (snd (extractInformation p k sp sj auto onProgress w)) =
           requests w @ replicate n (extraction_request k p bytes (getPropOpt parsed ''json_schema''))"
      by (rule extract_schema_json_used [OF assms(1) v assms(3)])
  next
    assume "sj = Some j" "j \<noteq> []" "parseSchemaJson j = Inl e"
    then show "extractInformation p k sp sj auto onProgress w =
          (Inl (Error (''Invalid schema format: '' @ message e)), w)"
      by (rule extract_schema_json_invalid [OF v assms(3)])
  next
    assume a: "\<not> present sj" "sp = Some path" "path \<noteq> []"
      and b: "files w path = Some (RegularFile len schemaText)" "JSON_parse schemaText = Inr sch"
      and c: "truthy sch"
    from readJsonFile_parsed [OF b] have "fst (readJsonFile path w) = Inr sch" by simp
    from extract_schema_path_used [OF assms(1) v assms(3) a this c]
    show "\<exists>n. 0 < n \<and> requests (snd (extractInformation p k sp sj auto onProgress w)) =
           requests w @ replicate n (extraction_request k p bytes sch)" .
  next
    assume a: "\<not> present sj" "sp = Some path" "path \<noteq> []"
      and b: "files w path = Some (RegularFile len schemaText)" "JSON_parse schemaText = Inr sch"
      and c: "\<not> truthy sch"
    from extract_schema_path_falsy [OF v assms(3) a readJsonFile_parsed [OF b] c]
    show "extractInformation p k sp sj auto onProgress w = (Inl no_schema_error, w)" .
  next
    assume a: "\<not> present sj" "sp = Some path" "path \<noteq> []"
      and b: "files w path = Some (RegularFile len schemaText)" "JSON_parse schemaText = Inl e"
    from readJsonFile_unparsed [OF b] have "fst (readJsonFile path w) = Inl e" by simp
    from extract_schema_path_unreadable [OF v assms(3) a this]
    show "extractInformation p k sp sj auto onProgress w = (Inl e, w)" .
  next
    assume a: "\<not> present sj" "sp = Some path" "path \<noteq> []" and b: "files w path = None"
    from readJsonFile_missing [OF b]
    have "fst (readJsonFile path w) = Inl (SystemError ''ENOENT'' path)" by simp
    from extract_schema_path_unreadable [OF v assms(3) a this]
    show "extractInformation p k sp sj auto onProgress w =
            (Inl (SystemError ''ENOENT'' path), w)" .
  next
    assume "\<not> present sj" "\<not> present sp" "auto \<noteq> Some False"
    then show "\<exists>rest. requests (snd (extractInformation p k sp sj auto onProgress w)) =
           requests w @ schema_generation_request k p bytes # rest"
      by (rule extract_schema_generated [OF assms(1) v assms(3)])
  next
    assume "\<not> present sj" "\<not> present sp" "auto \<noteq> Some False"
      "remote w (length (requests w)) (schema_generation_request k p bytes) = Responded result"
      "no_choices result = Inr False" "first_choice_content result = Inr answer"
      "JSON_parse (ToString answer) = Inr gen" "getProp gen ''json_schema'' = Inr js" "truthy js"
      "files w (schemas_directory w) = None \<or> files w (schemas_directory w) = Some Directory"
      "files w (generated_schema_path w p) = None"
    then show "\<exists>n. 0 < n \<and> requests (snd (extractInformation p k sp sj auto onProgress w)) =
           requests w @ schema_generation_request k p bytes
             # replicate n (extraction_request k p bytes js)"
      by (rule extract_schema_generated_used [OF assms(1) v assms(3)])
  next
    assume "\<not> present sj" "\<not> present sp" "auto = Some False"
    then show "extractInformation p k sp sj auto onProgress w = (Inl no_schema_error, w)"
      by (rule extract_no_schema [OF v assms(3)])
  qed
qed

lemma demo_parse_schema: "parseSchemaJson demo_schema_json = Inr demo_schema"
  by code_simp

lemma demo_schema_json_present: "demo_schema_json \<noteq> []"
  by (simp add: demo_schema_json_def)

lemma demo_file: "files demo_world ''/docs/a.pdf'' = Some (RegularFile 4 ''%PDF'')"
  "requests demo_world = []"
  by (simp_all add: demo_world_def)

lemma schema_world_file:
  "files schema_world ''/docs/a.pdf'' = Some (RegularFile 4 ''%PDF'')"
  "files schema_world ''/docs/schema.json'' =
     Some (RegularFile (length demo_schema_file) demo_schema_file)"
  "files schema_world ''/docs/none.json'' = None"
  "requests schema_world = []"
  by (simp_all add: schema_world_def demo_world_def)

lemma schema_world_valid: "fst (validateExtractionFile ''/docs/a.pdf'' schema_world) = Inr ()"
  by (simp add: validateExtractionFile_def bindE_def validateFileExists_def fs_stat_def
      schema_world_def demo_world_def validateFileExtension_def lift_def ret_def throw_def
      extname_def last_segment_def toLowerCase_def lower_char_def INFO_EXTRACTION_def
      validateFileSize_def MAX_SIZE_def Let_def)

lemma demo_parse_schema_file:
  "JSON_parse demo_schema_file = Inr demo_file_schema" "truthy demo_file_schema"
  by code_simp+

lemma demo_refused_schema:
  \<open>parseSchemaJson ''{}'' = Inl (Error ''Schema must have type "json_schema"'')\<close>
  by code_simp

lemma schema_world_generation:
  \<open>remote schema_world (length (requests schema_world))
      (schema_generation_request ''KEY'' ''/docs/a.pdf'' ''%PDF'') =
    Responded (JObj [(''choices'',
                      JArr [JObj [(''message'',
                                  JObj [(''content'',
                                         JStr ''{"json_schema":{"name":"s","schema":{"type":"object","properties":{"total":{"type":"number"}}}}}'')])]])])\<close>
  by (simp add: schema_world_def demo_world_def demo_remote_def schema_generation_request_def
      build_request_url SCHEMA_GENERATION_def DOCUMENT_DIGITIZATION_def
      DOCUMENT_CLASSIFICATION_def)

lemma demo_generation_answer:
  \<open>no_choices (JObj [(''choices'',
                      JArr [JObj [(''message'',
                                  JObj [(''content'',
                                         JStr ''{"json_schema":{"name":"s","schema":{"type":"object","properties":{"total":{"type":"number"}}}}}'')])]])]) =
     Inr False\<close>
  \<open>first_choice_content
     (JObj [(''choices'',
             JArr [JObj [(''message'',
                         JObj [(''content'',
                                JStr ''{"json_schema":{"name":"s","schema":{"type":"object","properties":{"total":{"type":"number"}}}}}'')])]])]) =
     Inr (JStr ''{"json_schema":{"name":"s","schema":{"type":"object","properties":{"total":{"type":"number"}}}}}'')\<close>
  \<open>JSON_parse
     (ToString (JStr ''{"json_schema":{"name":"s","schema":{"type":"object","properties":{"total":{"type":"number"}}}}}'')) =
     Inr (JObj [(''json_schema'', demo_generated_schema)])\<close>
  \<open>getProp (JObj [(''json_schema'', demo_generated_schema)]) ''json_schema'' =
     Inr demo_generated_schema\<close>
  \<open>truthy demo_generated_schema\<close>
  by code_simp+

lemma schema_world_output:
  "files schema_world (schemas_directory schema_world) = None"
  "files schema_world (generated_schema_path schema_world ''/docs/a.pdf'') = None"
  by (simp_all add: schema_world_def demo_world_def schemas_directory_def
      generated_schema_path_def path_join_def timestamp_of_def basename_ext_def extname_def
      last_segment_def)

theorem extract_schema_precedence_witness:
  \<open>(\<exists>n. 0 < n \<and>
      requests (snd (extractInformation ''/docs/a.pdf'' ''KEY'' (Some ''/docs/schema.json'')
                       (Some demo_schema_json) (Some False) None schema_world)) =
        replicate n (extraction_request ''KEY'' ''/docs/a.pdf'' ''%PDF''
                       (getPropOpt demo_schema ''json_schema'')))
   \<and> extractInformation ''/docs/a.pdf'' ''KEY'' (Some ''/docs/schema.json'') (Some ''{}'') None None
        schema_world =
       (Inl (Error ''Invalid schema format: Schema must have type "json_schema"''), schema_world)
   \<and> (\<exists>n. 0 < n \<and>
      requests (snd (extractInformation ''/docs/a.pdf'' ''KEY'' (Some ''/docs/schema.json'')
                       None None None schema_world)) =
        replicate n (extraction_request ''KEY'' ''/docs/a.pdf'' ''%PDF'' demo_file_schema))
   \<and> extractInformation ''/docs/a.pdf'' ''KEY'' (Some ''/docs/none.json'') None None None
        schema_world =
       (Inl (SystemError ''ENOENT'' ''/docs/none.json''), schema_world)
   \<and> (\<exists>n. 0 < n \<and>
      requests (snd (extractInformation ''/docs/a.pdf'' ''KEY'' None None None None schema_world)) =
        schema_generation_request ''KEY'' ''/docs/a.pdf'' ''%PDF''
          # replicate n (extraction_request ''KEY'' ''/docs/a.pdf'' ''%PDF''
                           demo_generated_schema))
   \<and> extractInformation ''/docs/a.pdf'' ''KEY'' None None (Some False) None schema_world =
       (Inl no_schema_error, schema_world)\<close>
proof -
  note inst = extract_schema_precedence
               [where w = schema_world and p = "''/docs/a.pdf''" and sz = 4
                  and bytes = "''%PDF''" and onProgress = None and k = "''KEY''",
                OF schema_world_file(1) schema_world_valid]
  have q: "quiet None"
    by (simp add: quiet_def)
  have a: "\<exists>n. 0 < n \<and>
      requests (snd (extractInformation ''/docs/a.pdf'' ''KEY'' (Some ''/docs/schema.json'')
                       (Some demo_schema_json) (Some False) None schema_world)) =
        replicate n (extraction_request ''KEY'' ''/docs/a.pdf'' ''%PDF''
                       (getPropOpt demo_schema ''json_schema''))"
    using inst [OF q, where sj = "Some demo_schema_json" and j = demo_schema_json
                 and sp = "Some ''/docs/schema.json''" and auto = "Some False"
                 and parsed = demo_schema]
    by (simp add: demo_parse_schema demo_schema_json_present schema_world_file)
  have b: \<open>extractInformation ''/docs/a.pdf'' ''KEY'' (Some ''/docs/schema.json'') (Some ''{}'')
             None None schema_world =
           (Inl (Error ''Invalid schema format: Schema must have type "json_schema"''),
            schema_world)\<close>
    using inst [OF q, where sj = "Some ''{}''" and j = "''{}''"
                 and sp = "Some ''/docs/schema.json''" and auto = None
                 and e = \<open>Error ''Schema must have type "json_schema"''\<close>]
    by (simp add: demo_refused_schema in_model_def)
  have c: "\<exists>n. 0 < n \<and>
      requests (snd (extractInformation ''/docs/a.pdf'' ''KEY'' (Some ''/docs/schema.json'')
                       None None None schema_world)) =
        replicate n (extraction_request ''KEY'' ''/docs/a.pdf'' ''%PDF'' demo_file_schema)"
    using inst [OF q, where sj = None and sp = "Some ''/docs/schema.json''"
                 and path = "''/docs/schema.json''" and auto = None
                 and len = "length demo_schema_file" and schemaText = demo_schema_file
                 and sch = demo_file_schema]
    by (simp add: present_def schema_world_file demo_parse_schema_file)
  have d: "extractInformation ''/docs/a.pdf'' ''KEY'' (Some ''/docs/none.json'') None None None
             schema_world =
           (Inl (SystemError ''ENOENT'' ''/docs/none.json''), schema_world)"
    using inst [OF q, where sj = None and sp = "Some ''/docs/none.json''"
                 and path = "''/docs/none.json''" and auto = None]
    by (simp add: present_def schema_world_file)
  have e: "\<exists>n. 0 < n \<and>
      requests (snd (extractInformation ''/docs/a.pdf'' ''KEY'' None None None None schema_world)) =
        schema_generation_request ''KEY'' ''/docs/a.pdf'' ''%PDF''
          # replicate n (extraction_request ''KEY'' ''/docs/a.pdf'' ''%PDF''
                           demo_generated_schema)"
    using inst [OF q, where sj = None and sp = None and auto = None
                 and js = demo_generated_schema
                 and gen = "JObj [(''json_schema'', demo_generated_schema)]"]
          schema_world_generation demo_generation_answer schema_world_output
    by (simp add: present_def schema_world_file(4))
  have f: "extractInformation ''/docs/a.pdf'' ''KEY'' None None (Some False) None schema_world =
             (Inl no_schema_error, schema_world)"
    using inst [OF q, where sj = None and sp = None and auto = "Some False"]
    by (simp add: present_def)
  from a b c d e f show ?thesis by blast
qed

section \<open>Classification: what is saved and what is returned\<close>

lemma throw_InrE:
  assumes "throw e w = (Inr y, w')"
  shows P
  using assms by (simp add: throw_def)

lemma validateExtractionFile_InrE:
  assumes "validateExtractionFile p w = (Inr u, w1)"
  obtains "w1 = w"
  using assms validateExtractionFile_world [of p w] by simp

lemma readFileAsBase64_InrE:
  assumes "readFileAsBase64 p w = (Inr b, w1)"
  obtains "w1 = w"
  using assms
  by (auto simp: readFileAsBase64_def fs_readFile_def bindE_def ret_def
      split: option.splits fsnode.splits)

lemma readJsonFile_InrE:
  assumes "readJsonFile p w = (Inr b, w1)"
  obtains "w1 = w"
  using assms readJsonFile_world [of p w] by simp

lemma makeApiRequest_InrE:
  assumes "makeApiRequest url k opts operation w = (Inr d, w1)"
  obtains n where "homedir w1 = homedir w" "now w1 = now w"
    "remote w n (build_request k url opts) = Responded d"
proof -
  from makeApiRequest_frame [of url k opts operation w] assms
  have "homedir w1 = homedir w" "now w1 = now w" by simp_all
  moreover from makeApiRequest_result_remote [of url k opts operation w d] assms
  obtain n where "remote w n (build_request k url opts) = Responded d" by auto
  ultimately show ?thesis by (rule that)
qed

lemma getOutputDirectory_InrE:
  assumes "getOutputDirectory s w = (Inr d, w1)"
  obtains "d = path_join [homedir w, ''.mcp-upstage'', ''outputs'', s]" "w1 = w"
proof -
  from assms have "(Inr (path_join [homedir w, ''.mcp-upstage'', ''outputs'', s]) :: error + string, w) = (Inr d, w1)"
    by (simp only: getOutputDirectory_def)
  then have "d = path_join [homedir w, ''.mcp-upstage'', ''outputs'', s]" "w1 = w"
    unfolding prod.inject sum.inject by blast+
  then show ?thesis by (rule that)
qed

lemma ensureDirectoryExists_InrE:
  assumes "ensureDirectoryExists d w = (Inr u, w1)"
  obtains "homedir w1 = homedir w" "now w1 = now w"
  using assms
  by (auto simp: ensureDirectoryExists_def fs_mkdir_recursive_def
      split: option.splits fsnode.splits)

lemma generateTimestampedFilename_InrE:
  assumes "generateTimestampedFilename p s w = (Inr name, w1)"
  obtains "name = basename_ext p (extname p) @ ''_'' @ timestamp_of (now w) @ ''_'' @ s @ ''.json''"
    "w1 = w"
proof -
  from assms
  have "(Inr (basename_ext p (extname p) @ ''_'' @ timestamp_of (now w) @ ''_'' @ s @ ''.json'')
           :: error + string, w) = (Inr name, w1)"
    by (simp only: generateTimestampedFilename_def Let_def)
  then have "name = basename_ext p (extname p) @ ''_'' @ timestamp_of (now w) @ ''_'' @ s @ ''.json''"
    "w1 = w"
    unfolding prod.inject sum.inject by blast+
  then show ?thesis by (rule that)
qed

lemma saveJsonToFile_InrE:
  assumes "saveJsonToFile d path w = (Inr u, w1)"
  obtains "files w1 path =
             Some (RegularFile (length (stringify_indent_text d)) (stringify_indent_text d))"
  using assms
  by (auto simp: saveJsonToFile_def fs_writeFile_def stringify_indent_text_def throw_def
      split: option.splits fsnode.splits)


lemma if_io_E:
  assumes "(if b then m1 else m2) w = r"
  obtains "b" "m1 w = r" | "\<not> b" "m2 w = r"
  using assms by (cases b) simp_all

text \<open>
  Claim C9. Whenever \<open>classifyDocument\<close> succeeds, the API answered the classification
  request with some \<open>result\<close> whose first choice holds the label; the file at the output
  path (under the home directory, named after the input file and the time) holds the
  indented JSON text of the label with the metadata and the whole \<open>result\<close> under
  \<open>metadata.api_response\<close>; and the text returned is the indented JSON text of the label
  with the same metadata without \<open>api_response\<close>.
\<close>

theorem classify_saves_response_returns_label:
  assumes run: "classifyDocument p k sp sj onProgress w = (Inr text, w')"
  shows "\<exists>result label n req.
           remote w n req = Responded result \<and> req_url req = DOCUMENT_CLASSIFICATION
         \<and> first_choice_content result = Inr label
         \<and> files w' (classification_path w p) =
             Some (RegularFile
                     (length (stringify_indent_text
                                (saved_classification label (basename p) (classification_path w p)
                                   (schema_used sp sj) result)))
                     (stringify_indent_text
                        (saved_classification label (basename p) (classification_path w p)
                           (schema_used sp sj) result)))
         \<and> text = stringify_indent_text
                    (returned_classification label (basename p) (classification_path w p)
                       (schema_used sp sj))
         \<and> metadata_field (saved_classification label (basename p) (classification_path w p)
                              (schema_used sp sj) result) ''api_response'' = Inr result
         \<and> metadata_field (returned_classification label (basename p) (classification_path w p)
                              (schema_used sp sj)) ''api_response'' = Inr JUndefined"
  using run unfolding classifyDocument_def Let_def
  apply (elim bindE_InrE if_io_E throw_InrE validateExtractionFile_InrE report_InrE
      readFileAsBase64_InrE readJsonFile_InrE makeApiRequest_InrE getOutputDirectory_InrE
      ensureDirectoryExists_InrE generateTimestampedFilename_InrE saveJsonToFile_InrE lift_InrE
      ret_InrE)
  subgoal
    by (hypsubst, intro exI conjI, assumption, rule build_request_url, assumption)
      (simp_all add: classification_path_def schema_used_def saved_classification_def
        returned_classification_def metadata_field_def bindR_def)
  subgoal
    by (hypsubst, intro exI conjI, assumption, rule build_request_url, assumption)
      (simp_all add: classification_path_def schema_used_def saved_classification_def
        returned_classification_def metadata_field_def bindR_def)
  subgoal
    by (hypsubst, intro exI conjI, assumption, rule build_request_url, assumption)
      (simp_all add: classification_path_def schema_used_def saved_classification_def
        returned_classification_def metadata_field_def bindR_def)
  done

lemma demo_classification_request:
  "makeApiRequest DOCUMENT_CLASSIFICATION k opts operation demo_world =
     (Inr demo_classification,
      demo_world\<lparr>requests := [build_request k DOCUMENT_CLASSIFICATION opts]\<rparr>)"
  using makeApiRequest_first_success
          [of demo_world k DOCUMENT_CLASSIFICATION opts demo_classification operation]
  by (simp add: demo_world_def demo_remote_def build_request_url demo_classification_def
      DOCUMENT_CLASSIFICATION_def DOCUMENT_DIGITIZATION_def)

lemma demo_classification_label:
  "no_choices demo_classification = Inr False"
  "first_choice_content demo_classification = Inr (JStr ''invoice'')"
  by code_simp+

lemma demo_classification_saved_at:
  "classification_path demo_world ''/docs/a.pdf'' = demo_classification_path"
  "basename ''/docs/a.pdf'' = ''a.pdf''"
  by (simp_all add: classification_path_def demo_world_def path_join_def timestamp_of_def
      basename_ext_def extname_def last_segment_def demo_classification_path_def basename_def)

lemma saveJsonToFile_object:
  "saveJsonToFile (JObj kvs) path = fs_writeFile path (stringify_indent_text (JObj kvs))"
  by (simp add: saveJsonToFile_def stringify_indent_text_def JSON_stringify_indent_def Let_def)

lemma demo_classifyDocument:
  "fst (classifyDocument ''/docs/a.pdf'' ''KEY'' None None None demo_world) =
     Inr (stringify_indent_text
            (returned_classification (JStr ''invoice'') ''a.pdf'' demo_classification_path
               ''default''))"
  apply (simp add: classifyDocument_def bindE_def demo_validateExtractionFile report_def ret_def
      Let_def present_def lift_def DEFAULT_CLASSIFICATION_SCHEMA_def
      readFileAsBase64_regular [OF demo_file(1)] demo_classification_request
      demo_classification_label)
  apply (simp add: demo_world_def getOutputDirectory_def ensureDirectoryExists_def
      fs_mkdir_recursive_def path_join_def generateTimestampedFilename_def timestamp_of_def
      basename_ext_def extname_def last_segment_def saveJsonToFile_object basename_def
      fs_writeFile_def lift_def ret_def returned_classification_def demo_classification_path_def)
  done


theorem classify_saves_response_returns_label_witness:
  "fst (classifyDocument ''/docs/a.pdf'' ''KEY'' None None None demo_world) =
     Inr (stringify_indent_text
            (returned_classification (JStr ''invoice'') ''a.pdf'' demo_classification_path
               ''default''))
   \<and> files (snd (classifyDocument ''/docs/a.pdf'' ''KEY'' None None None demo_world))
        demo_classification_path =
       Some (RegularFile
               (length (stringify_indent_text
                          (saved_classification (JStr ''invoice'') ''a.pdf''
                             demo_classification_path ''default'' demo_classification)))
               (stringify_indent_text
                  (saved_classification (JStr ''invoice'') ''a.pdf'' demo_classification_path
                     ''default'' demo_classification)))"
proof -
  let ?run = "classifyDocument ''/docs/a.pdf'' ''KEY'' None None None demo_world"
  let ?text = "stringify_indent_text
                 (returned_classification (JStr ''invoice'') ''a.pdf'' demo_classification_path
                    ''default'')"
  have run: "?run = (Inr ?text, snd ?run)"
    using demo_classifyDocument by (simp add: prod_eq_iff)
  from classify_saves_response_returns_label [OF run]
  obtain result label n req where
    r: "remote demo_world n req = Responded result" "req_url req = DOCUMENT_CLASSIFICATION"
    and l: "first_choice_content result = Inr label"
    and f: "files (snd ?run) (classification_path demo_world ''/docs/a.pdf'') =
             Some (RegularFile
                     (length (stringify_indent_text
                                (saved_classification label (basename ''/docs/a.pdf'')
                                   (classification_path demo_world ''/docs/a.pdf'')
                                   (schema_used None None) result)))
                     (stringify_indent_text
                        (saved_classification label (basename ''/docs/a.pdf'')
                           (classification_path demo_world ''/docs/a.pdf'')
                           (schema_used None None) result)))"
    by blast
  from r have result: "result = demo_classification"
    by (simp add: demo_world_def demo_remote_def demo_classification_def
        DOCUMENT_CLASSIFICATION_def DOCUMENT_DIGITIZATION_def)
  with l have label: "label = JStr ''invoice''"
    by (simp add: demo_classification_label)
  have used: "schema_used None None = ''default''"
    by (simp add: schema_used_def present_def)
  from f show ?thesis
    by (simp add: demo_classifyDocument result label used demo_classification_saved_at)
qed

end
